theory Spec2Isabelle
  imports Complex_Main "HOL-Library.Word"
begin

unbundle bit_operations_syntax

section \<open>Conventions of the embedding\<close>

text \<open>
  The engine is C/C++. Its data is modelled as follows.
  \<^item> \<open>uint8_t\<close>, \<open>uint16_t\<close>, \<open>uint32_t\<close> and \<open>int32_t\<close> are words of that width;
    \<open>+\<close>, \<open>-\<close> and \<open>*\<close> wrap, \<open><\<close> and \<open>\<le>\<close> on words are the unsigned comparisons,
    and a signed comparison is written with \<open>sint\<close>.
  \<^item> \<open>float\<close> is idealised as \<open>real\<close>: rounding, infinities and NaN are not modelled.
  \<^item> A global array is a function from the index to the element; the C code never
    checks the index of a pool access, and an access past the end of the array is
    undefined behaviour there. The fixed tables of normals are lists, so that their
    length is part of the model.
  \<^item> File-scope globals are fields of a state record that every function takes and
    returns.
\<close>

type_synonym u8 = "8 word"
type_synonym u16 = "16 word"
type_synonym u32 = "32 word"
type_synonym i32 = "32 word"

section \<open>math3d.h\<close>

datatype Vec2 = Vec2 (vec2_x: real) (vec2_y: real)
datatype Vec3 = Vec3 (vec3_x: real) (vec3_y: real) (vec3_z: real)
datatype Vec4 = Vec4 (vec4_x: real) (vec4_y: real) (vec4_z: real) (vec4_w: real)

definition EPSILON :: real where
  "EPSILON = 0.0001"

definition MakeVec2 :: "real \<Rightarrow> real \<Rightarrow> Vec2" where
  "MakeVec2 a b = Vec2 a b"

definition MakeVec3 :: "real \<Rightarrow> real \<Rightarrow> real \<Rightarrow> Vec3" where
  "MakeVec3 a b c = Vec3 a b c"

definition MakeVec4 :: "real \<Rightarrow> real \<Rightarrow> real \<Rightarrow> real \<Rightarrow> Vec4" where
  "MakeVec4 a b c d = Vec4 a b c d"

definition Vec3_Zero :: Vec3 where
  "Vec3_Zero = Vec3 0 0 0"

definition Vec3_Length :: "Vec3 \<Rightarrow> real" where
  "Vec3_Length v = sqrt (vec3_x v * vec3_x v + vec3_y v * vec3_y v + vec3_z v * vec3_z v)"

definition Vec3_Normalize :: "Vec3 \<Rightarrow> Vec3" where
  "Vec3_Normalize v =
     (let len = Vec3_Length v in
      if len > EPSILON then
        (let inv = 1 / len in Vec3 (vec3_x v * inv) (vec3_y v * inv) (vec3_z v * inv))
      else Vec3 0 0 0)"

definition Vec3_Lerp :: "Vec3 \<Rightarrow> Vec3 \<Rightarrow> real \<Rightarrow> Vec3" where
  "Vec3_Lerp a b t =
     Vec3 (vec3_x a + (vec3_x b - vec3_x a) * t)
          (vec3_y a + (vec3_y b - vec3_y a) * t)
          (vec3_z a + (vec3_z b - vec3_z a) * t)"

section \<open>mesh.h: pool sizes and element types\<close>

definition MAX_TOTAL_VERTICES :: u32 where
  "MAX_TOTAL_VERTICES = 40960"

definition MAX_TOTAL_INDICES :: u32 where
  "MAX_TOTAL_INDICES = 81920"

definition MAX_MD2_FRAMES :: u32 where
  "MAX_MD2_FRAMES = 200"

definition MAX_MD2_VERTICES :: u32 where
  "MAX_MD2_VERTICES = 204800"

text \<open>\<open>MAX_MESHES\<close> is defined in engine_config.h.\<close>

definition MAX_MESHES :: u32 where
  "MAX_MESHES = 64"

record Vertex_t =
  position :: Vec3
  normal :: Vec3
  texcoord :: Vec2

record MD2Vertex_t =
  md2_x :: u8
  md2_y :: u8
  md2_z :: u8
  normal_index :: u8

record StaticMeshDesc_t =
  vertex_start :: u16
  vertex_count :: u16
  index_start :: u16
  index_count :: u16
  bounds_center :: Vec3
  bounds_radius :: real

record MD2FrameDesc_t =
  scale :: Vec3
  translate :: Vec3
  fd_vertex_start :: u16
  fd_vertex_count :: u16

record MD2UV_t =
  uv_u :: real
  uv_v :: real

record AnimatedMeshDesc_t =
  frame_start :: u16
  frame_count :: u16
  anim_index_start :: u16
  anim_index_count :: u16
  verts_per_frame :: u16
  uv_start :: u16
  uv_count :: u16

text \<open>
  \<open>MeshSlot_t\<close> is a \<open>type\<close> byte (0 free, 1 static, 2 animated) and a union of the two
  descriptors. The code writes no other value of \<open>type\<close>, so the slot is the tagged
  union: \<open>type == 0\<close> is \<open>Free\<close>, \<open>type == 1\<close> is \<open>Static\<close>, \<open>type == 2\<close> is \<open>Animated\<close>.
\<close>

datatype MeshSlot_t = Free | Static StaticMeshDesc_t | Animated AnimatedMeshDesc_t

section \<open>mesh.cpp: the pools\<close>

record mesh_state =
  g_md2_uv_pool :: "nat \<Rightarrow> MD2UV_t"
  g_vertex_pool :: "nat \<Rightarrow> Vertex_t"
  g_index_pool :: "nat \<Rightarrow> u16"
  g_md2_vertex_pool :: "nat \<Rightarrow> MD2Vertex_t"
  g_vertex_used :: u32
  g_index_used :: u32
  g_md2_uv_used :: u32
  g_frame_pool :: "nat \<Rightarrow> MD2FrameDesc_t"
  g_frame_used :: u32
  g_md2_vertex_used :: u32
  g_meshes :: "nat \<Rightarrow> MeshSlot_t"

text \<open>The globals as the C runtime leaves them before \<open>main\<close>: static storage is zeroed.\<close>

definition zero_state :: mesh_state where
  "zero_state =
     \<lparr> g_md2_uv_pool = (\<lambda>_. \<lparr> uv_u = 0, uv_v = 0 \<rparr>),
       g_vertex_pool = (\<lambda>_. \<lparr> position = Vec3 0 0 0, normal = Vec3 0 0 0, texcoord = Vec2 0 0 \<rparr>),
       g_index_pool = (\<lambda>_. 0),
       g_md2_vertex_pool = (\<lambda>_. \<lparr> md2_x = 0, md2_y = 0, md2_z = 0, normal_index = 0 \<rparr>),
       g_vertex_used = 0,
       g_index_used = 0,
       g_md2_uv_used = 0,
       g_frame_pool = (\<lambda>_. \<lparr> scale = Vec3 0 0 0, translate = Vec3 0 0 0,
                                fd_vertex_start = 0, fd_vertex_count = 0 \<rparr>),
       g_frame_used = 0,
       g_md2_vertex_used = 0,
       g_meshes = (\<lambda>_. Free) \<rparr>"

definition Mesh_Init :: "mesh_state \<Rightarrow> mesh_state" where
  "Mesh_Init s =
     s\<lparr> g_meshes := (\<lambda>i. if i < unat MAX_MESHES then Free else g_meshes s i),
        g_vertex_used := 0,
        g_index_used := 0,
        g_frame_used := 0,
        g_md2_vertex_used := 0,
        g_md2_uv_used := 0 \<rparr>"

definition AllocVertices :: "u32 \<Rightarrow> mesh_state \<Rightarrow> u32 \<times> mesh_state" where
  "AllocVertices count s =
     (if g_vertex_used s + count > MAX_TOTAL_VERTICES then (0xFFFFFFFF, s)
      else (g_vertex_used s, s\<lparr> g_vertex_used := g_vertex_used s + count \<rparr>))"

definition AllocIndices :: "u32 \<Rightarrow> mesh_state \<Rightarrow> u32 \<times> mesh_state" where
  "AllocIndices count s =
     (if g_index_used s + count > MAX_TOTAL_INDICES then (0xFFFFFFFF, s)
      else (g_index_used s, s\<lparr> g_index_used := g_index_used s + count \<rparr>))"

definition AllocFrames :: "u32 \<Rightarrow> mesh_state \<Rightarrow> u32 \<times> mesh_state" where
  "AllocFrames count s =
     (if g_frame_used s + count > MAX_MD2_FRAMES then (0xFFFFFFFF, s)
      else (g_frame_used s, s\<lparr> g_frame_used := g_frame_used s + count \<rparr>))"

definition AllocMD2Vertices :: "u32 \<Rightarrow> mesh_state \<Rightarrow> u32 \<times> mesh_state" where
  "AllocMD2Vertices count s =
     (if g_md2_vertex_used s + count > MAX_MD2_VERTICES then (0xFFFFFFFF, s)
      else (g_md2_vertex_used s, s\<lparr> g_md2_vertex_used := g_md2_vertex_used s + count \<rparr>))"

text \<open>loader_md2.cpp: the UV pool has \<open>MAX_MD2_VERTICES\<close> entries too.\<close>

definition AllocMD2UVs :: "u32 \<Rightarrow> mesh_state \<Rightarrow> u32 \<times> mesh_state" where
  "AllocMD2UVs count s =
     (if g_md2_uv_used s + count > MAX_MD2_VERTICES then (0xFFFFFFFF, s)
      else (g_md2_uv_used s, s\<lparr> g_md2_uv_used := g_md2_uv_used s + count \<rparr>))"

text \<open>
  The five allocators under one name, to state a property of all of them: which pool, its
  counter, its capacity, one call, and a sequence of calls.
\<close>

datatype pool = VertexPool | IndexPool | FramePool | MD2VertexPool | MD2UVPool

fun used :: "pool \<Rightarrow> mesh_state \<Rightarrow> u32" where
  "used VertexPool s = g_vertex_used s"
| "used IndexPool s = g_index_used s"
| "used FramePool s = g_frame_used s"
| "used MD2VertexPool s = g_md2_vertex_used s"
| "used MD2UVPool s = g_md2_uv_used s"

fun capacity :: "pool \<Rightarrow> u32" where
  "capacity VertexPool = MAX_TOTAL_VERTICES"
| "capacity IndexPool = MAX_TOTAL_INDICES"
| "capacity FramePool = MAX_MD2_FRAMES"
| "capacity MD2VertexPool = MAX_MD2_VERTICES"
| "capacity MD2UVPool = MAX_MD2_VERTICES"

fun allocate :: "pool \<Rightarrow> u32 \<Rightarrow> mesh_state \<Rightarrow> u32 \<times> mesh_state" where
  "allocate VertexPool n s = AllocVertices n s"
| "allocate IndexPool n s = AllocIndices n s"
| "allocate FramePool n s = AllocFrames n s"
| "allocate MD2VertexPool n s = AllocMD2Vertices n s"
| "allocate MD2UVPool n s = AllocMD2UVs n s"

fun allocate_all :: "(pool \<times> u32) list \<Rightarrow> mesh_state \<Rightarrow> mesh_state" where
  "allocate_all [] s = s"
| "allocate_all ((k, n) # calls) s = allocate_all calls (snd (allocate k n s))"

section \<open>The MD2 normal tables\<close>

text \<open>loader_md2.cpp: \<open>static const float g_normals[162][3]\<close>.\<close>

definition g_normals :: "(real \<times> real \<times> real) list" where
  "g_normals =
     [
      (- 0.525731, 0, 0.850651), (- 0.442863, 0.238856, 0.864188), (- 0.295242, 0, 0.955423),
      (- 0.309017, 0.500000, 0.809017), (- 0.162460, 0.262866, 0.951056), (0, 0, 1),
      (0, 0.850651, 0.525731), (- 0.147621, 0.716567, 0.681718), (0.147621, 0.716567, 0.681718),
      (0, 0.525731, 0.850651), (0.309017, 0.500000, 0.809017), (0.525731, 0, 0.850651),
      (0.295242, 0, 0.955423), (0.442863, 0.238856, 0.864188), (0.162460, 0.262866, 0.951056),
      (- 0.681718, 0.147621, 0.716567), (- 0.809017, 0.309017, 0.500000), (- 0.587785, 0.425325, 0.688191),
      (- 0.850651, 0.525731, 0), (- 0.864188, 0.442863, 0.238856), (- 0.716567, 0.681718, 0.147621),
      (- 0.688191, 0.587785, 0.425325), (- 0.500000, 0.809017, 0.309017), (- 0.238856, 0.864188, 0.442863),
      (- 0.425325, 0.688191, 0.587785), (- 0.716567, 0.681718, - 0.147621), (- 0.500000, 0.809017, - 0.309017),
      (- 0.525731, 0.850651, 0), (0, 0.850651, - 0.525731), (- 0.238856, 0.864188, - 0.442863),
      (0, 0.955423, - 0.295242), (- 0.262866, 0.951056, - 0.162460), (0, 1, 0),
      (0, 0.955423, 0.295242), (- 0.262866, 0.951056, 0.162460), (0.238856, 0.864188, 0.442863),
      (0.262866, 0.951056, 0.162460), (0.500000, 0.809017, 0.309017), (0.238856, 0.864188, - 0.442863),
      (0.262866, 0.951056, - 0.162460), (0.500000, 0.809017, - 0.309017), (0.850651, 0.525731, 0),
      (0.716567, 0.681718, 0.147621), (0.716567, 0.681718, - 0.147621), (0.525731, 0.850651, 0),
      (0.425325, 0.688191, 0.587785), (0.864188, 0.442863, 0.238856), (0.688191, 0.587785, 0.425325),
      (0.809017, 0.309017, 0.500000), (0.681718, 0.147621, 0.716567), (0.587785, 0.425325, 0.688191),
      (0.955423, 0.295242, 0), (1, 0, 0), (0.951056, 0.162460, 0.262866),
      (0.850651, - 0.525731, 0), (0.955423, - 0.295242, 0), (0.864188, - 0.442863, 0.238856),
      (0.951056, - 0.162460, 0.262866), (0.809017, - 0.309017, 0.500000), (0.681718, - 0.147621, 0.716567),
      (0.850651, 0, 0.525731), (0.864188, 0.442863, - 0.238856), (0.809017, 0.309017, - 0.500000),
      (0.951056, 0.162460, - 0.262866), (0.525731, 0, - 0.850651), (0.681718, 0.147621, - 0.716567),
      (0.681718, - 0.147621, - 0.716567), (0.850651, 0, - 0.525731), (0.809017, - 0.309017, - 0.500000),
      (0.864188, - 0.442863, - 0.238856), (0.951056, - 0.162460, - 0.262866), (0.147621, 0.716567, - 0.681718),
      (0.309017, 0.500000, - 0.809017), (0.425325, 0.688191, - 0.587785), (0.442863, 0.238856, - 0.864188),
      (0.587785, 0.425325, - 0.688191), (0.688191, 0.587785, - 0.425325), (- 0.147621, 0.716567, - 0.681718),
      (- 0.309017, 0.500000, - 0.809017), (0, 0.525731, - 0.850651), (- 0.525731, 0, - 0.850651),
      (- 0.442863, 0.238856, - 0.864188), (- 0.295242, 0, - 0.955423), (- 0.162460, 0.262866, - 0.951056),
      (0, 0, - 1), (0.295242, 0, - 0.955423), (0.162460, 0.262866, - 0.951056),
      (- 0.442863, - 0.238856, - 0.864188), (- 0.309017, - 0.500000, - 0.809017), (- 0.162460, - 0.262866, - 0.951056),
      (0, - 0.850651, - 0.525731), (- 0.147621, - 0.716567, - 0.681718), (0.147621, - 0.716567, - 0.681718),
      (0, - 0.525731, - 0.850651), (0.309017, - 0.500000, - 0.809017), (0.442863, - 0.238856, - 0.864188),
      (0.162460, - 0.262866, - 0.951056), (0.238856, - 0.864188, - 0.442863), (0.500000, - 0.809017, - 0.309017),
      (0.425325, - 0.688191, - 0.587785), (0.716567, - 0.681718, - 0.147621), (0.688191, - 0.587785, - 0.425325),
      (0.587785, - 0.425325, - 0.688191), (0, - 0.955423, - 0.295242), (0, - 1, 0),
      (0.262866, - 0.951056, - 0.162460), (0, - 0.850651, 0.525731), (0, - 0.955423, 0.295242),
      (0.238856, - 0.864188, 0.442863), (0.262866, - 0.951056, 0.162460), (0.500000, - 0.809017, 0.309017),
      (0.716567, - 0.681718, 0.147621), (0.525731, - 0.850651, 0), (- 0.238856, - 0.864188, - 0.442863),
      (- 0.500000, - 0.809017, - 0.309017), (- 0.262866, - 0.951056, - 0.162460), (- 0.850651, - 0.525731, 0),
      (- 0.716567, - 0.681718, - 0.147621), (- 0.716567, - 0.681718, 0.147621), (- 0.525731, - 0.850651, 0),
      (- 0.500000, - 0.809017, 0.309017), (- 0.238856, - 0.864188, 0.442863), (- 0.262866, - 0.951056, 0.162460),
      (- 0.864188, - 0.442863, 0.238856), (- 0.809017, - 0.309017, 0.500000), (- 0.688191, - 0.587785, 0.425325),
      (- 0.681718, - 0.147621, 0.716567), (- 0.442863, - 0.238856, 0.864188), (- 0.587785, - 0.425325, 0.688191),
      (- 0.309017, - 0.500000, 0.809017), (- 0.147621, - 0.716567, 0.681718), (- 0.425325, - 0.688191, 0.587785),
      (- 0.162460, - 0.262866, 0.951056), (0.442863, - 0.238856, 0.864188), (0.162460, - 0.262866, 0.951056),
      (0.309017, - 0.500000, 0.809017), (0.147621, - 0.716567, 0.681718), (0, - 0.525731, 0.850651),
      (0.425325, - 0.688191, 0.587785), (0.587785, - 0.425325, 0.688191), (0.688191, - 0.587785, 0.425325),
      (- 0.955423, 0.295242, 0), (- 0.951056, 0.162460, 0.262866), (- 1, 0, 0),
      (- 0.850651, 0, 0.525731), (- 0.955423, - 0.295242, 0), (- 0.951056, - 0.162460, 0.262866),
      (- 0.864188, 0.442863, - 0.238856), (- 0.951056, 0.162460, - 0.262866), (- 0.809017, 0.309017, - 0.500000),
      (- 0.864188, - 0.442863, - 0.238856), (- 0.951056, - 0.162460, - 0.262866), (- 0.809017, - 0.309017, - 0.500000),
      (- 0.681718, 0.147621, - 0.716567), (- 0.681718, - 0.147621, - 0.716567), (- 0.850651, 0, - 0.525731),
      (- 0.688191, 0.587785, - 0.425325), (- 0.587785, 0.425325, - 0.688191), (- 0.425325, 0.688191, - 0.587785),
      (- 0.425325, - 0.688191, - 0.587785), (- 0.587785, - 0.425325, - 0.688191), (- 0.688191, - 0.587785, - 0.425325)
     ]"

text \<open>mesh.cpp: \<open>static const float g_md2_normals[162][3]\<close>, a second copy of the table.\<close>

definition g_md2_normals :: "(real \<times> real \<times> real) list" where
  "g_md2_normals =
     [
      (- 0.525731, 0, 0.850651), (- 0.442863, 0.238856, 0.864188), (- 0.295242, 0, 0.955423),
      (- 0.309017, 0.500000, 0.809017), (- 0.162460, 0.262866, 0.951056), (0, 0, 1),
      (0, 0.850651, 0.525731), (- 0.147621, 0.716567, 0.681718), (0.147621, 0.716567, 0.681718),
      (0, 0.525731, 0.850651), (0.309017, 0.500000, 0.809017), (0.525731, 0, 0.850651),
      (0.295242, 0, 0.955423), (0.442863, 0.238856, 0.864188), (0.162460, 0.262866, 0.951056),
      (- 0.681718, 0.147621, 0.716567), (- 0.809017, 0.309017, 0.500000), (- 0.587785, 0.425325, 0.688191),
      (- 0.850651, 0.525731, 0), (- 0.864188, 0.442863, 0.238856), (- 0.716567, 0.681718, 0.147621),
      (- 0.688191, 0.587785, 0.425325), (- 0.500000, 0.809017, 0.309017), (- 0.238856, 0.864188, 0.442863),
      (- 0.425325, 0.688191, 0.587785), (- 0.716567, 0.681718, - 0.147621), (- 0.500000, 0.809017, - 0.309017),
      (- 0.525731, 0.850651, 0), (0, 0.850651, - 0.525731), (- 0.238856, 0.864188, - 0.442863),
      (0, 0.955423, - 0.295242), (- 0.262866, 0.951056, - 0.162460), (0, 1, 0),
      (0, 0.955423, 0.295242), (- 0.262866, 0.951056, 0.162460), (0.238856, 0.864188, 0.442863),
      (0.262866, 0.951056, 0.162460), (0.500000, 0.809017, 0.309017), (0.238856, 0.864188, - 0.442863),
      (0.262866, 0.951056, - 0.162460), (0.500000, 0.809017, - 0.309017), (0.850651, 0.525731, 0),
      (0.716567, 0.681718, 0.147621), (0.716567, 0.681718, - 0.147621), (0.525731, 0.850651, 0),
      (0.425325, 0.688191, 0.587785), (0.864188, 0.442863, 0.238856), (0.688191, 0.587785, 0.425325),
      (0.809017, 0.309017, 0.500000), (0.681718, 0.147621, 0.716567), (0.587785, 0.425325, 0.688191),
      (0.955423, 0.295242, 0), (1, 0, 0), (0.951056, 0.162460, 0.262866),
      (0.850651, - 0.525731, 0), (0.955423, - 0.295242, 0), (0.864188, - 0.442863, 0.238856),
      (0.951056, - 0.162460, 0.262866), (0.809017, - 0.309017, 0.500000), (0.681718, - 0.147621, 0.716567),
      (0.850651, 0, 0.525731), (0.864188, 0.442863, - 0.238856), (0.809017, 0.309017, - 0.500000),
      (0.951056, 0.162460, - 0.262866), (0.525731, 0, - 0.850651), (0.681718, 0.147621, - 0.716567),
      (0.681718, - 0.147621, - 0.716567), (0.850651, 0, - 0.525731), (0.809017, - 0.309017, - 0.500000),
      (0.864188, - 0.442863, - 0.238856), (0.951056, - 0.162460, - 0.262866), (0.147621, 0.716567, - 0.681718),
      (0.309017, 0.500000, - 0.809017), (0.425325, 0.688191, - 0.587785), (0.442863, 0.238856, - 0.864188),
      (0.587785, 0.425325, - 0.688191), (0.688191, 0.587785, - 0.425325), (- 0.147621, 0.716567, - 0.681718),
      (- 0.309017, 0.500000, - 0.809017), (0, 0.525731, - 0.850651), (- 0.525731, 0, - 0.850651),
      (- 0.442863, 0.238856, - 0.864188), (- 0.295242, 0, - 0.955423), (- 0.162460, 0.262866, - 0.951056),
      (0, 0, - 1), (0.295242, 0, - 0.955423), (0.162460, 0.262866, - 0.951056),
      (- 0.442863, - 0.238856, - 0.864188), (- 0.309017, - 0.500000, - 0.809017), (- 0.162460, - 0.262866, - 0.951056),
      (0, - 0.850651, - 0.525731), (- 0.147621, - 0.716567, - 0.681718), (0.147621, - 0.716567, - 0.681718),
      (0, - 0.525731, - 0.850651), (0.309017, - 0.500000, - 0.809017), (0.442863, - 0.238856, - 0.864188),
      (0.162460, - 0.262866, - 0.951056), (0.238856, - 0.864188, - 0.442863), (0.500000, - 0.809017, - 0.309017),
      (0.425325, - 0.688191, - 0.587785), (0.716567, - 0.681718, - 0.147621), (0.688191, - 0.587785, - 0.425325),
      (0.587785, - 0.425325, - 0.688191), (0, - 0.955423, - 0.295242), (0, - 1, 0),
      (0.262866, - 0.951056, - 0.162460), (0, - 0.850651, 0.525731), (0, - 0.955423, 0.295242),
      (0.238856, - 0.864188, 0.442863), (0.262866, - 0.951056, 0.162460), (0.500000, - 0.809017, 0.309017),
      (0.716567, - 0.681718, 0.147621), (0.525731, - 0.850651, 0), (- 0.238856, - 0.864188, - 0.442863),
      (- 0.500000, - 0.809017, - 0.309017), (- 0.262866, - 0.951056, - 0.162460), (- 0.850651, - 0.525731, 0),
      (- 0.716567, - 0.681718, - 0.147621), (- 0.716567, - 0.681718, 0.147621), (- 0.525731, - 0.850651, 0),
      (- 0.500000, - 0.809017, 0.309017), (- 0.238856, - 0.864188, 0.442863), (- 0.262866, - 0.951056, 0.162460),
      (- 0.864188, - 0.442863, 0.238856), (- 0.809017, - 0.309017, 0.500000), (- 0.688191, - 0.587785, 0.425325),
      (- 0.681718, - 0.147621, 0.716567), (- 0.442863, - 0.238856, 0.864188), (- 0.587785, - 0.425325, 0.688191),
      (- 0.309017, - 0.500000, 0.809017), (- 0.147621, - 0.716567, 0.681718), (- 0.425325, - 0.688191, 0.587785),
      (- 0.162460, - 0.262866, 0.951056), (0.442863, - 0.238856, 0.864188), (0.162460, - 0.262866, 0.951056),
      (0.309017, - 0.500000, 0.809017), (0.147621, - 0.716567, 0.681718), (0, - 0.525731, 0.850651),
      (0.425325, - 0.688191, 0.587785), (0.587785, - 0.425325, 0.688191), (0.688191, - 0.587785, 0.425325),
      (- 0.955423, 0.295242, 0), (- 0.951056, 0.162460, 0.262866), (- 1, 0, 0),
      (- 0.850651, 0, 0.525731), (- 0.955423, - 0.295242, 0), (- 0.951056, - 0.162460, 0.262866),
      (- 0.864188, 0.442863, - 0.238856), (- 0.951056, 0.162460, - 0.262866), (- 0.809017, 0.309017, - 0.500000),
      (- 0.864188, - 0.442863, - 0.238856), (- 0.951056, - 0.162460, - 0.262866), (- 0.809017, - 0.309017, - 0.500000),
      (- 0.681718, 0.147621, - 0.716567), (- 0.681718, - 0.147621, - 0.716567), (- 0.850651, 0, - 0.525731),
      (- 0.688191, 0.587785, - 0.425325), (- 0.587785, 0.425325, - 0.688191), (- 0.425325, 0.688191, - 0.587785),
      (- 0.425325, - 0.688191, - 0.587785), (- 0.587785, - 0.425325, - 0.688191), (- 0.688191, - 0.587785, - 0.425325)
     ]"

section \<open>mesh.cpp and loader_md2.cpp: the MD2 vertex evaluators\<close>

definition Mesh_Get :: "u32 \<Rightarrow> mesh_state \<Rightarrow> MeshSlot_t option" where
  "Mesh_Get mesh_id s =
     (if mesh_id \<ge> MAX_MESHES \<or> g_meshes s (unat mesh_id) = Free then None
      else Some (g_meshes s (unat mesh_id)))"

text \<open>
  A read \<open>tbl[ni][0..2]\<close> of a normal table. The C code does not check \<open>ni\<close>; the model
  does, and makes a read outside the table an error value, so that the absence of such a
  read is a property of the evaluators.
\<close>

datatype eval_error = NormalTableOutOfBounds

definition normal_lookup :: "(real \<times> real \<times> real) list \<Rightarrow> int \<Rightarrow> eval_error + Vec3" where
  "normal_lookup tbl ni =
     (if 0 \<le> ni \<and> ni < int (length tbl) then
        (case tbl ! nat ni of (a, b, c) \<Rightarrow> Inr (MakeVec3 a b c))
      else Inl NormalTableOutOfBounds)"

text \<open>
  \<open>Mesh_GetMD2Vertex\<close> (loader_md2.cpp). The out-parameters \<open>pos\<close>, \<open>norm\<close> and \<open>uv\<close>
  are the result; \<open>want_uv\<close> says whether the \<open>uv\<close> pointer is non-null. \<open>frame_a\<close>,
  \<open>frame_b\<close> and \<open>vert_idx\<close> are \<open>uint32_t\<close>, the descriptor fields \<open>uint16_t\<close>: the
  comparisons and the index sums are taken in 32 bits, and \<open>frame_count - 1\<close> is an
  \<open>int\<close> converted to \<open>uint32_t\<close>.
\<close>

definition Mesh_GetMD2Vertex ::
  "u32 \<Rightarrow> u32 \<Rightarrow> u32 \<Rightarrow> u32 \<Rightarrow> real \<Rightarrow> bool \<Rightarrow> mesh_state
     \<Rightarrow> eval_error + (Vec3 \<times> Vec3 \<times> Vec2 option)" where
  "Mesh_GetMD2Vertex mesh_id vert_idx frame_a frame_b t want_uv s =
     (case Mesh_Get mesh_id s of
        Some (Animated m) \<Rightarrow>
          (let frame_a = (if frame_a \<ge> ucast (frame_count m)
                          then ucast (frame_count m) - 1 else frame_a);
               frame_b = (if frame_b \<ge> ucast (frame_count m)
                          then ucast (frame_count m) - 1 else frame_b);
               vert_idx = (if vert_idx \<ge> ucast (verts_per_frame m) then 0 else vert_idx);
               fa = g_frame_pool s (unat (ucast (frame_start m) + frame_a));
               fb = g_frame_pool s (unat (ucast (frame_start m) + frame_b));
               va = g_md2_vertex_pool s (unat (ucast (fd_vertex_start fa) + vert_idx));
               vb = g_md2_vertex_pool s (unat (ucast (fd_vertex_start fb) + vert_idx));
               pa = MakeVec3
                      (vec3_x (scale fa) * real (unat (md2_x va)) + vec3_x (translate fa))
                      (vec3_y (scale fa) * real (unat (md2_y va)) + vec3_y (translate fa))
                      (vec3_z (scale fa) * real (unat (md2_z va)) + vec3_z (translate fa));
               pb = MakeVec3
                      (vec3_x (scale fb) * real (unat (md2_x vb)) + vec3_x (translate fb))
                      (vec3_y (scale fb) * real (unat (md2_y vb)) + vec3_y (translate fb))
                      (vec3_z (scale fb) * real (unat (md2_z vb)) + vec3_z (translate fb));
               ni_a = uint (normal_index va) mod 162;
               ni_b = uint (normal_index vb) mod 162
           in case normal_lookup g_normals ni_a of
                Inl e \<Rightarrow> Inl e
              | Inr na \<Rightarrow>
                 (case normal_lookup g_normals ni_b of
                    Inl e \<Rightarrow> Inl e
                  | Inr nb \<Rightarrow>
                      Inr (Vec3_Lerp pa pb t, Vec3_Normalize (Vec3_Lerp na nb t),
                           if want_uv then Some (MakeVec2 0 0) else None)))
      | _ \<Rightarrow> Inr (Vec3_Zero, MakeVec3 0 1 0, if want_uv then Some (MakeVec2 0 0) else None))"

text \<open>
  \<open>Mesh_GetMD2InterpolatedVertex\<close> (mesh.cpp). Here \<open>frame_a\<close> and \<open>frame_b\<close> are
  \<open>uint16_t\<close>: the clamp is taken in 16 bits, and \<open>frame_start + frame_a\<close> is a sum of two
  promoted \<open>int\<close>s, which cannot wrap.
\<close>

definition Mesh_GetMD2InterpolatedVertex ::
  "u32 \<Rightarrow> u32 \<Rightarrow> u16 \<Rightarrow> u16 \<Rightarrow> real \<Rightarrow> mesh_state \<Rightarrow> eval_error + (Vec3 \<times> Vec3)" where
  "Mesh_GetMD2InterpolatedVertex mesh_id vertex_index frame_a frame_b lerp s =
     (if mesh_id \<ge> MAX_MESHES then Inr (Vec3_Zero, MakeVec3 0 1 0)
      else case g_meshes s (unat mesh_id) of
        Animated anim \<Rightarrow>
          (let frame_a = (if frame_a \<ge> frame_count anim then frame_count anim - 1 else frame_a);
               frame_b = (if frame_b \<ge> frame_count anim then frame_count anim - 1 else frame_b)
           in if vertex_index \<ge> ucast (verts_per_frame anim)
              then Inr (Vec3_Zero, MakeVec3 0 1 0)
              else
               (let fd_a = g_frame_pool s (unat (frame_start anim) + unat frame_a);
                    fd_b = g_frame_pool s (unat (frame_start anim) + unat frame_b);
                    v_a = g_md2_vertex_pool s (unat (ucast (fd_vertex_start fd_a) + vertex_index));
                    v_b = g_md2_vertex_pool s (unat (ucast (fd_vertex_start fd_b) + vertex_index));
                    pos_a = MakeVec3
                      (real (unat (md2_x v_a)) * vec3_x (scale fd_a) + vec3_x (translate fd_a))
                      (real (unat (md2_y v_a)) * vec3_y (scale fd_a) + vec3_y (translate fd_a))
                      (real (unat (md2_z v_a)) * vec3_z (scale fd_a) + vec3_z (translate fd_a));
                    pos_b = MakeVec3
                      (real (unat (md2_x v_b)) * vec3_x (scale fd_b) + vec3_x (translate fd_b))
                      (real (unat (md2_y v_b)) * vec3_y (scale fd_b) + vec3_y (translate fd_b))
                      (real (unat (md2_z v_b)) * vec3_z (scale fd_b) + vec3_z (translate fd_b));
                    ni_a = uint (normal_index v_a) mod 162;
                    ni_b = uint (normal_index v_b) mod 162
                in case normal_lookup g_md2_normals ni_a of
                     Inl e \<Rightarrow> Inl e
                   | Inr norm_a \<Rightarrow>
                      (case normal_lookup g_md2_normals ni_b of
                         Inl e \<Rightarrow> Inl e
                       | Inr norm_b \<Rightarrow>
                           Inr (Vec3_Lerp pos_a pos_b lerp,
                                Vec3_Normalize (Vec3_Lerp norm_a norm_b lerp)))))
      | _ \<Rightarrow> Inr (Vec3_Zero, MakeVec3 0 1 0))"

text \<open>
  What the specification calls the decompressed vertex of a frame: the position
  \<open>byte * frame.scale + frame.translate\<close>, componentwise, and the re-normalised entry of
  the normal table that the vertex's \<open>normal_index\<close> selects.
\<close>

definition decompressed_position :: "MD2FrameDesc_t \<Rightarrow> MD2Vertex_t \<Rightarrow> Vec3" where
  "decompressed_position fd cv =
     Vec3 (real (unat (md2_x cv)) * vec3_x (scale fd) + vec3_x (translate fd))
          (real (unat (md2_y cv)) * vec3_y (scale fd) + vec3_y (translate fd))
          (real (unat (md2_z cv)) * vec3_z (scale fd) + vec3_z (translate fd))"

definition table_normal :: "(real \<times> real \<times> real) list \<Rightarrow> MD2Vertex_t \<Rightarrow> Vec3" where
  "table_normal tbl cv =
     (case tbl ! (unat (normal_index cv) mod 162) of (a, b, c) \<Rightarrow> Vec3_Normalize (Vec3 a b c))"

text \<open>
  A mesh state to run the evaluators on: slot 0 is an animated mesh of two frames and two
  vertices per frame. Frame 0 has scale 1 and translation 0, frame 1 has scale 2 and
  translation 1; the compressed vertices are \<open>(0,0,0)\<close> and \<open>(10,20,30)\<close> in both frames.
\<close>

definition two_frame_mesh :: mesh_state where
  "two_frame_mesh =
     zero_state
       \<lparr> g_md2_vertex_pool :=
            (\<lambda>i. if i = 1 \<or> i = 3
                 then \<lparr> md2_x = 10, md2_y = 20, md2_z = 30, normal_index = 5 \<rparr>
                 else \<lparr> md2_x = 0, md2_y = 0, md2_z = 0, normal_index = 32 \<rparr>),
          g_frame_pool :=
            (\<lambda>i. if i = 1
                 then \<lparr> scale = Vec3 2 2 2, translate = Vec3 1 1 1,
                        fd_vertex_start = 2, fd_vertex_count = 2 \<rparr>
                 else \<lparr> scale = Vec3 1 1 1, translate = Vec3 0 0 0,
                        fd_vertex_start = 0, fd_vertex_count = 2 \<rparr>),
          g_frame_used := 2,
          g_md2_vertex_used := 4,
          g_meshes :=
            (\<lambda>i. if i = 0
                 then Animated \<lparr> frame_start = 0, frame_count = 2, anim_index_start = 0,
                        anim_index_count = 0, verts_per_frame = 2, uv_start = 0, uv_count = 0 \<rparr>
                 else Free) \<rparr>"

section \<open>math3d.h: 4x4 matrices\<close>

text \<open>
  \<open>Mat4\<close> is \<open>struct { float m[16]; }\<close>: the list of its 16 entries, entry \<open>(row, col)\<close>
  at index \<open>col * 4 + row\<close>. The constructors below write the 16 entries that
  \<open>Mat4_Identity\<close> followed by the source's assignments leaves.
\<close>

type_synonym Mat4 = "real list"

definition Mat4_Identity :: Mat4 where
  "Mat4_Identity = [1, 0, 0, 0,  0, 1, 0, 0,  0, 0, 1, 0,  0, 0, 0, 1]"

text \<open>One entry of the product, the body of the two loops of \<open>Mat4_Multiply\<close>.\<close>

definition Mat4_Multiply_entry :: "Mat4 \<Rightarrow> Mat4 \<Rightarrow> nat \<Rightarrow> nat \<Rightarrow> real" where
  "Mat4_Multiply_entry a b row col =
     a ! (0 * 4 + row) * b ! (col * 4 + 0) +
     a ! (1 * 4 + row) * b ! (col * 4 + 1) +
     a ! (2 * 4 + row) * b ! (col * 4 + 2) +
     a ! (3 * 4 + row) * b ! (col * 4 + 3)"

text \<open>The loops over \<open>row\<close> and \<open>col\<close>, unrolled in the order of the index \<open>col * 4 + row\<close>.\<close>

definition Mat4_Multiply :: "Mat4 \<Rightarrow> Mat4 \<Rightarrow> Mat4" where
  "Mat4_Multiply a b =
     [Mat4_Multiply_entry a b 0 0, Mat4_Multiply_entry a b 1 0,
      Mat4_Multiply_entry a b 2 0, Mat4_Multiply_entry a b 3 0,
      Mat4_Multiply_entry a b 0 1, Mat4_Multiply_entry a b 1 1,
      Mat4_Multiply_entry a b 2 1, Mat4_Multiply_entry a b 3 1,
      Mat4_Multiply_entry a b 0 2, Mat4_Multiply_entry a b 1 2,
      Mat4_Multiply_entry a b 2 2, Mat4_Multiply_entry a b 3 2,
      Mat4_Multiply_entry a b 0 3, Mat4_Multiply_entry a b 1 3,
      Mat4_Multiply_entry a b 2 3, Mat4_Multiply_entry a b 3 3]"

definition Mat4_MultiplyVec4 :: "Mat4 \<Rightarrow> Vec4 \<Rightarrow> Vec4" where
  "Mat4_MultiplyVec4 m v =
     Vec4 (m ! 0 * vec4_x v + m ! 4 * vec4_y v + m ! 8 * vec4_z v + m ! 12 * vec4_w v)
          (m ! 1 * vec4_x v + m ! 5 * vec4_y v + m ! 9 * vec4_z v + m ! 13 * vec4_w v)
          (m ! 2 * vec4_x v + m ! 6 * vec4_y v + m ! 10 * vec4_z v + m ! 14 * vec4_w v)
          (m ! 3 * vec4_x v + m ! 7 * vec4_y v + m ! 11 * vec4_z v + m ! 15 * vec4_w v)"

definition Mat4_Translation :: "real \<Rightarrow> real \<Rightarrow> real \<Rightarrow> Mat4" where
  "Mat4_Translation tx ty tz = [1, 0, 0, 0,  0, 1, 0, 0,  0, 0, 1, 0,  tx, ty, tz, 1]"

definition Mat4_Scale :: "real \<Rightarrow> real \<Rightarrow> real \<Rightarrow> Mat4" where
  "Mat4_Scale sx sy sz = [sx, 0, 0, 0,  0, sy, 0, 0,  0, 0, sz, 0,  0, 0, 0, 1]"

text \<open>\<open>m[5] = c; m[9] = -s; m[6] = s; m[10] = c\<close>.\<close>

definition Mat4_RotationX :: "real \<Rightarrow> Mat4" where
  "Mat4_RotationX rad =
     (let c = cos rad; s = sin rad in [1, 0, 0, 0,  0, c, s, 0,  0, - s, c, 0,  0, 0, 0, 1])"

text \<open>\<open>m[0] = c; m[8] = s; m[2] = -s; m[10] = c\<close>.\<close>

definition Mat4_RotationY :: "real \<Rightarrow> Mat4" where
  "Mat4_RotationY rad =
     (let c = cos rad; s = sin rad in [c, 0, - s, 0,  0, 1, 0, 0,  s, 0, c, 0,  0, 0, 0, 1])"

text \<open>\<open>m[0] = c; m[4] = -s; m[1] = s; m[5] = c\<close>.\<close>

definition Mat4_RotationZ :: "real \<Rightarrow> Mat4" where
  "Mat4_RotationZ rad =
     (let c = cos rad; s = sin rad in [c, s, 0, 0,  - s, c, 0, 0,  0, 0, 1, 0,  0, 0, 0, 1])"

section \<open>entity.h and entity.cpp\<close>

definition MAX_ENTITIES :: nat where
  "MAX_ENTITIES = 256"

definition INVALID_ENTITY :: u32 where
  "INVALID_ENTITY = 0xFFFFFFFF"

definition COMP_ANIMATOR :: u32 where
  "COMP_ANIMATOR = push_bit 5 1"

record Entity_t =
  ent_id :: u32
  components :: u32
  active :: u8
  layer :: u8
  tag :: u16
  ent_name :: string

record Transform_t =
  tr_position :: Vec3
  tr_rotation :: Vec3
  tr_scale :: Vec3
  local_matrix :: Mat4
  world_matrix :: Mat4
  parent :: u32
  dirty :: u8

record Animator_t =
  current_frame :: u32
  next_frame :: u32
  interpolation :: real
  frame_time :: real
  playback_speed :: real
  start_frame :: u32
  end_frame :: u32
  is_playing :: u8
  is_looping :: u8

text \<open>
  The file-scope arrays of entity.cpp that the transform and animator passes read or
  write; the renderer, camera and light arrays are not touched by them.
\<close>

record entity_state =
  g_entities :: "nat \<Rightarrow> Entity_t"
  g_transforms :: "nat \<Rightarrow> Transform_t"
  g_animators :: "nat \<Rightarrow> Animator_t"

text \<open>\<open>FindIndex\<close> returns the first slot that holds the id, or -1 (here \<open>None\<close>).\<close>

definition FindIndex :: "u32 \<Rightarrow> entity_state \<Rightarrow> nat option" where
  "FindIndex eid s =
     (if eid = INVALID_ENTITY then None
      else find (\<lambda>i. ent_id (g_entities s i) = eid) [0..<MAX_ENTITIES])"

definition UpdateLocalMatrix :: "nat \<Rightarrow> entity_state \<Rightarrow> entity_state" where
  "UpdateLocalMatrix idx s =
     (let t = g_transforms s idx;
          T = Mat4_Translation (vec3_x (tr_position t)) (vec3_y (tr_position t))
                (vec3_z (tr_position t));
          Rx = Mat4_RotationX (vec3_x (tr_rotation t));
          Ry = Mat4_RotationY (vec3_y (tr_rotation t));
          Rz = Mat4_RotationZ (vec3_z (tr_rotation t));
          S = Mat4_Scale (vec3_x (tr_scale t)) (vec3_y (tr_scale t)) (vec3_z (tr_scale t));
          tmp = Mat4_Multiply Ry Rx;
          Rx = Mat4_Multiply tmp Rz;
          tmp = Mat4_Multiply T Rx
      in s\<lparr> g_transforms := (g_transforms s)(idx := t\<lparr> local_matrix := Mat4_Multiply tmp S \<rparr>) \<rparr>)"

text \<open>The body of the first loop of \<open>Entity_UpdateTransforms\<close>.\<close>

definition update_local_if_dirty :: "nat \<Rightarrow> entity_state \<Rightarrow> entity_state" where
  "update_local_if_dirty i s =
     (if ent_id (g_entities s i) \<noteq> INVALID_ENTITY \<and> dirty (g_transforms s i) \<noteq> 0
      then UpdateLocalMatrix i s else s)"

text \<open>
  The body of the inner loop of the propagation: the flag \<open>any_dirty\<close> and the state.
\<close>

definition resolve_world :: "nat \<Rightarrow> bool \<times> entity_state \<Rightarrow> bool \<times> entity_state" where
  "resolve_world i = (\<lambda>(any_dirty, s).
     if ent_id (g_entities s i) = INVALID_ENTITY \<or> dirty (g_transforms s i) = 0
     then (any_dirty, s)
     else
       (let t = g_transforms s i in
        if parent t = INVALID_ENTITY then
          (any_dirty,
           s\<lparr> g_transforms :=
                (g_transforms s)(i := t\<lparr> world_matrix := local_matrix t, dirty := 0 \<rparr>) \<rparr>)
        else
          (case FindIndex (parent t) s of
             Some pidx \<Rightarrow>
               if dirty (g_transforms s pidx) = 0 then
                 (any_dirty,
                  s\<lparr> g_transforms :=
                       (g_transforms s)(i := t\<lparr> world_matrix :=
                           Mat4_Multiply (world_matrix (g_transforms s pidx)) (local_matrix t),
                         dirty := 0 \<rparr>) \<rparr>)
               else (True, s)
           | None \<Rightarrow> (True, s))))"

text \<open>The outer loop: at most \<open>passes\<close> sweeps, left as soon as a sweep found nothing dirty.\<close>

fun propagate_world :: "nat \<Rightarrow> entity_state \<Rightarrow> entity_state" where
  "propagate_world 0 s = s"
| "propagate_world (Suc passes) s =
     (case fold resolve_world [0..<MAX_ENTITIES] (False, s) of
        (any_dirty, s') \<Rightarrow> if \<not> any_dirty then s' else propagate_world passes s')"

definition Entity_UpdateTransforms :: "entity_state \<Rightarrow> entity_state" where
  "Entity_UpdateTransforms s =
     propagate_world 8 (fold update_local_if_dirty [0..<MAX_ENTITIES] s)"

text \<open>The body of the loop of \<open>Entity_UpdateAnimators\<close>, for one animator that is playing.\<close>

definition advance_animator :: "real \<Rightarrow> Animator_t \<Rightarrow> Animator_t" where
  "advance_animator dt anim =
     (let anim = anim\<lparr> frame_time := frame_time anim + dt * playback_speed anim \<rparr>;
          frame_duration = 1 / 10;
          anim =
            (if frame_time anim \<ge> frame_duration then
               (let anim = anim\<lparr> frame_time := frame_time anim - frame_duration \<rparr>;
                    anim = anim\<lparr> current_frame := next_frame anim \<rparr>;
                    anim = anim\<lparr> next_frame := next_frame anim + 1 \<rparr>
                in if next_frame anim > end_frame anim then
                     (if is_looping anim \<noteq> 0
                      then anim\<lparr> next_frame := start_frame anim \<rparr>
                      else anim\<lparr> next_frame := end_frame anim, is_playing := 0 \<rparr>)
                   else anim)
             else anim)
      in anim\<lparr> interpolation := frame_time anim / frame_duration \<rparr>)"

definition update_animator :: "real \<Rightarrow> nat \<Rightarrow> entity_state \<Rightarrow> entity_state" where
  "update_animator dt i s =
     (if ent_id (g_entities s i) = INVALID_ENTITY then s
      else if components (g_entities s i) AND COMP_ANIMATOR = 0 then s
      else if is_playing (g_animators s i) = 0 then s
      else s\<lparr> g_animators := (g_animators s)(i := advance_animator dt (g_animators s i)) \<rparr>)"

definition Entity_UpdateAnimators :: "real \<Rightarrow> entity_state \<Rightarrow> entity_state" where
  "Entity_UpdateAnimators dt s = fold (update_animator dt) [0..<MAX_ENTITIES] s"

text \<open>
  An entity table to run the passes on: slot 0 holds entity 1 with a transform and an
  animator, every other slot is free. The transform is dirty, at the origin, with scale 1
  and a quarter turn about the x and the z axis; the animator plays frames 0 to 5 in a
  loop at speed 1 and has no time accumulated.
\<close>

definition one_entity :: entity_state where
  "one_entity =
     \<lparr> g_entities =
         (\<lambda>i. if i = 0
              then \<lparr> ent_id = 1, components = 33, active = 1, layer = 0, tag = 0,
                     ent_name = ''MD2Player'' \<rparr>
              else \<lparr> ent_id = INVALID_ENTITY, components = 0, active = 0, layer = 0, tag = 0,
                     ent_name = [] \<rparr>),
       g_transforms =
         (\<lambda>i. \<lparr> tr_position = Vec3 0 0 0,
                 tr_rotation = (if i = 0 then Vec3 (pi / 2) 0 (pi / 2) else Vec3 0 0 0),
                 tr_scale = Vec3 1 1 1,
                 local_matrix = Mat4_Identity, world_matrix = Mat4_Identity,
                 parent = INVALID_ENTITY, dirty = (if i = 0 then 1 else 0) \<rparr>),
       g_animators =
         (\<lambda>i. \<lparr> current_frame = 0, next_frame = (if i = 0 then 1 else 0), interpolation = 0,
                 frame_time = 0, playback_speed = (if i = 0 then 1 else 0),
                 start_frame = 0, end_frame = (if i = 0 then 5 else 0),
                 is_playing = (if i = 0 then 1 else 0),
                 is_looping = (if i = 0 then 1 else 0) \<rparr>) \<rparr>"

text \<open>
  The matrix that \<open>UpdateLocalMatrix\<close> stores, as a function of the transform: the
  products in the order and grouping of the four \<open>Mat4_Multiply\<close> calls.
\<close>

definition stored_local :: "Transform_t \<Rightarrow> Mat4" where
  "stored_local t =
     Mat4_Multiply
       (Mat4_Multiply
          (Mat4_Translation (vec3_x (tr_position t)) (vec3_y (tr_position t))
             (vec3_z (tr_position t)))
          (Mat4_Multiply
             (Mat4_Multiply (Mat4_RotationY (vec3_y (tr_rotation t)))
                (Mat4_RotationX (vec3_x (tr_rotation t))))
             (Mat4_RotationZ (vec3_z (tr_rotation t)))))
       (Mat4_Scale (vec3_x (tr_scale t)) (vec3_y (tr_scale t)) (vec3_z (tr_scale t)))"

section \<open>rasterizer.h, color.h and device.h\<close>

text \<open>A C cast of a \<open>float\<close> to \<open>int\<close> truncates towards zero.\<close>

definition c_trunc :: "real \<Rightarrow> int" where
  "c_trunc r = (if r \<ge> 0 then \<lfloor>r\<rfloor> else \<lceil>r\<rceil>)"

record Color =
  col_r :: u8
  col_g :: u8
  col_b :: u8
  col_a :: u8

record ScreenVertex_t =
  sv_x :: i32
  sv_y :: i32
  sv_z :: real
  w_inv :: real
  sv_u :: real
  sv_v :: real
  sv_color :: u16

record Texture_t =
  pixels :: "nat \<Rightarrow> u16"
  tex_width :: u16
  tex_height :: u16
  tex_width_mask :: u16
  tex_height_mask :: u16

record RasterizerStats_t =
  triangles_submitted :: u32
  triangles_culled :: u32
  triangles_drawn :: u32
  pixels_drawn :: u32

text \<open>
  \<open>class Device\<close> (device.h): the frame buffer behind \<open>screen\<close>, the depth buffer and the
  render size. \<open>Width\<close> and \<open>Height\<close> are defined in the header. The body of
  \<open>Device::PutPixel(x, y, z, c)\<close> is not part of the sources: the rasterizer functions
  below take it as the parameter \<open>put\<close>.
\<close>

record Device =
  screen :: "nat \<Rightarrow> Color"
  depthBuffer :: "nat \<Rightarrow> real"
  renderWidth :: i32
  renderHeight :: i32

type_synonym PutPixel = "i32 \<Rightarrow> i32 \<Rightarrow> real \<Rightarrow> Color \<Rightarrow> Device \<Rightarrow> Device"

definition Width :: "Device \<Rightarrow> i32" where
  "Width d = renderWidth d"

definition Height :: "Device \<Rightarrow> i32" where
  "Height d = renderHeight d"

section \<open>rasterizer.cpp\<close>

text \<open>
  The file-scope state of the rasterizer: the device pointer (\<open>None\<close> is \<open>NULL\<close>) and the
  statistics. The functions are the \<open>SDL_PC\<close> variant, the one that engine_config.h
  selects on every platform (it always defines \<open>SDL_PC\<close>, and the code tests it with
  \<open>#ifdef\<close>).
\<close>

record rasterizer_state =
  g_device :: "Device option"
  g_stats :: RasterizerStats_t

text \<open>The arithmetic of \<open>int32_t\<close> is taken to wrap; the comparisons are signed.\<close>

definition EdgeFunction :: "i32 \<Rightarrow> i32 \<Rightarrow> i32 \<Rightarrow> i32 \<Rightarrow> i32 \<Rightarrow> i32 \<Rightarrow> i32" where
  "EdgeFunction v0x v0y v1x v1y px py = (v1x - v0x) * (py - v0y) - (v1y - v0y) * (px - v0x)"

definition Clampi :: "i32 \<Rightarrow> i32 \<Rightarrow> i32 \<Rightarrow> i32" where
  "Clampi v lo hi = (if sint v < sint lo then lo else if sint v > sint hi then hi else v)"

definition Min3i :: "i32 \<Rightarrow> i32 \<Rightarrow> i32 \<Rightarrow> i32" where
  "Min3i a b c =
     (let m = a; m = (if sint b < sint m then b else m); m = (if sint c < sint m then c else m)
      in m)"

definition Max3i :: "i32 \<Rightarrow> i32 \<Rightarrow> i32 \<Rightarrow> i32" where
  "Max3i a b c =
     (let m = a; m = (if sint b > sint m then b else m); m = (if sint c > sint m then c else m)
      in m)"

definition Rasterizer_Init :: "rasterizer_state \<Rightarrow> rasterizer_state" where
  "Rasterizer_Init rs =
     \<lparr> g_device = None,
       g_stats = \<lparr> triangles_submitted = 0, triangles_culled = 0, triangles_drawn = 0,
                   pixels_drawn = 0 \<rparr> \<rparr>"

definition Rasterizer_SetDevice :: "Device option \<Rightarrow> rasterizer_state \<Rightarrow> rasterizer_state" where
  "Rasterizer_SetDevice device rs = rs\<lparr> g_device := device \<rparr>"

definition Texture_Sample :: "Texture_t \<Rightarrow> real \<Rightarrow> real \<Rightarrow> u16" where
  "Texture_Sample tex u v =
     (let u = u - real_of_int (c_trunc u); u = (if u < 0 then u + 1 else u);
          v = v - real_of_int (c_trunc v); v = (if v < 0 then v + 1 else v);
          tx = c_trunc (u * real (unat (tex_width tex))) AND uint (tex_width_mask tex);
          ty = c_trunc (v * real (unat (tex_height tex))) AND uint (tex_height_mask tex)
      in pixels tex (nat (ty * uint (tex_width tex) + tx)))"

definition ColorLerp :: "u16 \<Rightarrow> u16 \<Rightarrow> u16 \<Rightarrow> real \<Rightarrow> real \<Rightarrow> real \<Rightarrow> u16" where
  "ColorLerp c0 c1 c2 b0 b1 b2 =
     (let r = c_trunc (b0 * real_of_int (uint (drop_bit 11 c0 AND 0x1F))
                     + b1 * real_of_int (uint (drop_bit 11 c1 AND 0x1F))
                     + b2 * real_of_int (uint (drop_bit 11 c2 AND 0x1F)) + 0.5);
          g = c_trunc (b0 * real_of_int (uint (drop_bit 5 c0 AND 0x3F))
                     + b1 * real_of_int (uint (drop_bit 5 c1 AND 0x3F))
                     + b2 * real_of_int (uint (drop_bit 5 c2 AND 0x3F)) + 0.5);
          b = c_trunc (b0 * real_of_int (uint (c0 AND 0x1F))
                     + b1 * real_of_int (uint (c1 AND 0x1F))
                     + b2 * real_of_int (uint (c2 AND 0x1F)) + 0.5);
          r = (if r > 31 then 31 else r);
          g = (if g > 63 then 63 else g);
          b = (if b > 31 then 31 else b)
      in word_of_int (push_bit 11 r OR push_bit 5 g OR b))"

definition ColorModulate :: "u16 \<Rightarrow> u16 \<Rightarrow> u16" where
  "ColorModulate texel light =
     (let tr = uint (drop_bit 11 texel AND 0x1F); tg = uint (drop_bit 5 texel AND 0x3F);
          tb = uint (texel AND 0x1F);
          lr = uint (drop_bit 11 light AND 0x1F); lg = uint (drop_bit 5 light AND 0x3F);
          lb = uint (light AND 0x1F)
      in word_of_int (push_bit 11 (drop_bit 5 (tr * lr)) OR push_bit 5 (drop_bit 6 (tg * lg))
                      OR drop_bit 5 (tb * lb)))"

definition RGB565ToColor :: "u16 \<Rightarrow> Color" where
  "RGB565ToColor c =
     \<lparr> col_r = word_of_int (push_bit 3 (uint (drop_bit 11 c AND 0x1F))),
       col_g = word_of_int (push_bit 2 (uint (drop_bit 5 c AND 0x3F))),
       col_b = word_of_int (push_bit 3 (uint (c AND 0x1F))),
       col_a = 255 \<rparr>"

text \<open>
  \<open>Rasterizer_DrawTriangle\<close>. The body of the loop over \<open>x\<close> carries the three edge values
  and the state; the body of the loop over \<open>y\<close> carries the three row values and the state.
\<close>

definition draw_pixel ::
  "PutPixel \<Rightarrow> ScreenVertex_t \<Rightarrow> ScreenVertex_t \<Rightarrow> ScreenVertex_t \<Rightarrow> Texture_t option
     \<Rightarrow> real \<Rightarrow> i32 \<Rightarrow> i32 \<Rightarrow> i32 \<Rightarrow> i32 \<Rightarrow> i32
     \<Rightarrow> Device \<times> RasterizerStats_t \<Rightarrow> Device \<times> RasterizerStats_t" where
  "draw_pixel put v0 v1 v2 texture invArea w0 w1 w2 px py = (\<lambda>(dev, st).
     if sint (w0 OR w1 OR w2) \<ge> 0 then
       (let b0 = real_of_int (sint w0) * invArea;
            b1 = real_of_int (sint w1) * invArea;
            b2 = real_of_int (sint w2) * invArea;
            z = b0 * sv_z v0 + b1 * sv_z v1 + b2 * sv_z v2;
            color565 =
              (case texture of
                 Some tex \<Rightarrow>
                   (let w = b0 * w_inv v0 + b1 * w_inv v1 + b2 * w_inv v2;
                        inv_w = 1 / w;
                        u = (b0 * sv_u v0 * w_inv v0 + b1 * sv_u v1 * w_inv v1
                             + b2 * sv_u v2 * w_inv v2) * inv_w;
                        v = (b0 * sv_v v0 * w_inv v0 + b1 * sv_v v1 * w_inv v1
                             + b2 * sv_v v2 * w_inv v2) * inv_w;
                        texel = Texture_Sample tex u v;
                        light = ColorLerp (sv_color v0) (sv_color v1) (sv_color v2) b0 b1 b2
                    in ColorModulate texel light)
               | None \<Rightarrow> ColorLerp (sv_color v0) (sv_color v1) (sv_color v2) b0 b1 b2)
        in (put px py z (RGB565ToColor color565) dev,
            st\<lparr> pixels_drawn := pixels_drawn st + 1 \<rparr>))
     else (dev, st))"

definition Rasterizer_DrawTriangle ::
  "PutPixel \<Rightarrow> ScreenVertex_t \<Rightarrow> ScreenVertex_t \<Rightarrow> ScreenVertex_t \<Rightarrow> Texture_t option
     \<Rightarrow> rasterizer_state \<Rightarrow> rasterizer_state" where
  "Rasterizer_DrawTriangle put v0 v1 v2 texture rs =
     (case g_device rs of
        None \<Rightarrow> rs
      | Some dev \<Rightarrow>
         (let width = Width dev; height = Height dev;
              st = (g_stats rs)\<lparr> triangles_submitted := triangles_submitted (g_stats rs) + 1 \<rparr>;
              x0 = sv_x v0; y0 = sv_y v0;
              x1 = sv_x v1; y1 = sv_y v1;
              x2 = sv_x v2; y2 = sv_y v2;
              area = EdgeFunction x0 y0 x1 y1 x2 y2
          in if sint area \<le> 0
             then rs\<lparr> g_stats := st\<lparr> triangles_culled := triangles_culled st + 1 \<rparr> \<rparr>
             else
              (let minX = Clampi (Min3i x0 x1 x2) 0 (width - 1);
                   maxX = Clampi (Max3i x0 x1 x2) 0 (width - 1);
                   minY = Clampi (Min3i y0 y1 y2) 0 (height - 1);
                   maxY = Clampi (Max3i y0 y1 y2) 0 (height - 1)
               in if sint minX > sint maxX \<or> sint minY > sint maxY
                  then rs\<lparr> g_stats := st\<lparr> triangles_culled := triangles_culled st + 1 \<rparr> \<rparr>
                  else
                   (let invArea = 1 / real_of_int (sint area);
                        A12 = y1 - y2; B12 = x2 - x1;
                        A20 = y2 - y0; B20 = x0 - x2;
                        A01 = y0 - y1; B01 = x1 - x0;
                        w0_row = EdgeFunction x1 y1 x2 y2 minX minY;
                        w1_row = EdgeFunction x2 y2 x0 y0 minX minY;
                        w2_row = EdgeFunction x0 y0 x1 y1 minX minY;
                        step_x = (\<lambda>py px (w0, w1, w2, ds).
                           (w0 + A12, w1 + A20, w2 + A01,
                            draw_pixel put v0 v1 v2 texture invArea w0 w1 w2
                              (word_of_int px) (word_of_int py) ds));
                        step_y = (\<lambda>py (w0_row, w1_row, w2_row, ds).
                           (case fold (step_x py) [sint minX..sint maxX]
                                   (w0_row, w1_row, w2_row, ds) of
                              (w0, w1, w2, ds') \<Rightarrow>
                                (w0_row + B12, w1_row + B20, w2_row + B01, ds')))
                    in case fold step_y [sint minY..sint maxY] (w0_row, w1_row, w2_row, (dev, st)) of
                         (w0_row, w1_row, w2_row, (dev', st')) \<Rightarrow>
                           \<lparr> g_device = Some dev',
                             g_stats = st'\<lparr> triangles_drawn := triangles_drawn st' + 1 \<rparr> \<rparr>))))"

text \<open>\<open>Rasterizer_DrawTriangleSolid\<close> evaluates the three edge functions at every pixel.\<close>

definition draw_pixel_solid ::
  "PutPixel \<Rightarrow> ScreenVertex_t \<Rightarrow> ScreenVertex_t \<Rightarrow> ScreenVertex_t \<Rightarrow> Color
     \<Rightarrow> real \<Rightarrow> i32 \<Rightarrow> i32 \<Rightarrow> Device \<times> RasterizerStats_t \<Rightarrow> Device \<times> RasterizerStats_t" where
  "draw_pixel_solid put v0 v1 v2 col invArea px py = (\<lambda>(dev, st).
     (let w0 = EdgeFunction (sv_x v1) (sv_y v1) (sv_x v2) (sv_y v2) px py;
          w1 = EdgeFunction (sv_x v2) (sv_y v2) (sv_x v0) (sv_y v0) px py;
          w2 = EdgeFunction (sv_x v0) (sv_y v0) (sv_x v1) (sv_y v1) px py
      in if sint (w0 OR w1 OR w2) \<ge> 0 then
           (let b0 = real_of_int (sint w0) * invArea;
                b1 = real_of_int (sint w1) * invArea;
                b2 = real_of_int (sint w2) * invArea;
                z = b0 * sv_z v0 + b1 * sv_z v1 + b2 * sv_z v2
            in (put px py z col dev, st\<lparr> pixels_drawn := pixels_drawn st + 1 \<rparr>))
         else (dev, st)))"

definition Rasterizer_DrawTriangleSolid ::
  "PutPixel \<Rightarrow> ScreenVertex_t \<Rightarrow> ScreenVertex_t \<Rightarrow> ScreenVertex_t \<Rightarrow> u16
     \<Rightarrow> rasterizer_state \<Rightarrow> rasterizer_state" where
  "Rasterizer_DrawTriangleSolid put v0 v1 v2 color rs =
     (case g_device rs of
        None \<Rightarrow> rs
      | Some dev \<Rightarrow>
         (let width = Width dev; height = Height dev;
              col = RGB565ToColor color;
              st = (g_stats rs)\<lparr> triangles_submitted := triangles_submitted (g_stats rs) + 1 \<rparr>;
              x0 = sv_x v0; y0 = sv_y v0;
              x1 = sv_x v1; y1 = sv_y v1;
              x2 = sv_x v2; y2 = sv_y v2;
              area = EdgeFunction x0 y0 x1 y1 x2 y2
          in if sint area \<le> 0
             then rs\<lparr> g_stats := st\<lparr> triangles_culled := triangles_culled st + 1 \<rparr> \<rparr>
             else
              (let minX = Clampi (Min3i x0 x1 x2) 0 (width - 1);
                   maxX = Clampi (Max3i x0 x1 x2) 0 (width - 1);
                   minY = Clampi (Min3i y0 y1 y2) 0 (height - 1);
                   maxY = Clampi (Max3i y0 y1 y2) 0 (height - 1)
               in if sint minX > sint maxX \<or> sint minY > sint maxY
                  then rs\<lparr> g_stats := st\<lparr> triangles_culled := triangles_culled st + 1 \<rparr> \<rparr>
                  else
                   (let invArea = 1 / real_of_int (sint area);
                        step_y = (\<lambda>py ds.
                           fold (\<lambda>px. draw_pixel_solid put v0 v1 v2 col invArea
                                         (word_of_int px) (word_of_int py))
                             [sint minX..sint maxX] ds)
                    in case fold step_y [sint minY..sint maxY] (dev, st) of
                         (dev', st') \<Rightarrow>
                           \<lparr> g_device = Some dev',
                             g_stats = st'\<lparr> triangles_drawn := triangles_drawn st' + 1 \<rparr> \<rparr>))))"

text \<open>
  Inputs to run the rasterizer on: a 4 x 4 device, a \<open>PutPixel\<close> that stores the colour
  with no depth test, and three screen vertices; in the order \<open>(0,0), (0,2), (2,0)\<close> their
  edge function is \<open>-4\<close>.
\<close>

definition small_device :: Device where
  "small_device =
     \<lparr> screen = (\<lambda>_. \<lparr> col_r = 0, col_g = 0, col_b = 0, col_a = 255 \<rparr>),
       depthBuffer = (\<lambda>_. 0), renderWidth = 4, renderHeight = 4 \<rparr>"

definition store_pixel :: PutPixel where
  "store_pixel px py z c d = d\<lparr> screen := (screen d)(unat py * 4 + unat px := c) \<rparr>"

definition corner :: "i32 \<Rightarrow> i32 \<Rightarrow> ScreenVertex_t" where
  "corner px py =
     \<lparr> sv_x = px, sv_y = py, sv_z = 1 / 2, w_inv = 1, sv_u = 0, sv_v = 0, sv_color = 0xFFFF \<rparr>"

definition zero_stats :: RasterizerStats_t where
  "zero_stats =
     \<lparr> triangles_submitted = 0, triangles_culled = 0, triangles_drawn = 0, pixels_drawn = 0 \<rparr>"

section \<open>texture.h\<close>

record TextureSlot_t =
  pixel_start :: u32
  slot_width :: u16
  slot_height :: u16
  slot_width_mask :: u16
  slot_height_mask :: u16
  in_use :: u8
  slot_flags :: u8

section \<open>main.cpp: the vertex transform stage and the mesh renderers\<close>

definition SCREEN_WIDTH :: int where
  "SCREEN_WIDTH = 1240"

definition SCREEN_HEIGHT :: int where
  "SCREEN_HEIGHT = 680"

definition COLOR_BLUE :: u16 where
  "COLOR_BLUE = 0x001F"

text \<open>The macro \<open>RGB565(r,g,b)\<close> on \<open>int\<close> operands, stored to a \<open>uint16_t\<close>.\<close>

definition RGB565 :: "int \<Rightarrow> int \<Rightarrow> int \<Rightarrow> u16" where
  "RGB565 r g b = word_of_int (push_bit 8 (r AND 0xF8) OR push_bit 3 (g AND 0xFC) OR drop_bit 3 b)"

text \<open>The camera globals \<open>g_view_matrix\<close> and \<open>g_proj_matrix\<close>.\<close>

record camera =
  g_view_matrix :: Mat4
  g_proj_matrix :: Mat4

text \<open>\<open>TransformVertex\<close> returns 0 (here \<open>None\<close>) or 1 with the screen vertex written.\<close>

definition TransformVertex :: "Vertex_t \<Rightarrow> Mat4 \<Rightarrow> camera \<Rightarrow> ScreenVertex_t option" where
  "TransformVertex vin model cam =
     (let world_pos = Mat4_MultiplyVec4 model
            (MakeVec4 (vec3_x (position vin)) (vec3_y (position vin)) (vec3_z (position vin)) 1);
          view_pos = Mat4_MultiplyVec4 (g_view_matrix cam) world_pos
      in if vec4_z view_pos \<ge> - 0.1 then None
         else
          (let clip_pos = Mat4_MultiplyVec4 (g_proj_matrix cam) view_pos
           in if vec4_w clip_pos \<le> 0.0001 then None
              else
               (let inv_w = 1 / vec4_w clip_pos;
                    ndc_x = vec4_x clip_pos * inv_w;
                    ndc_y = vec4_y clip_pos * inv_w;
                    ndc_z = vec4_z clip_pos * inv_w
                in if ndc_x < - 1.5 \<or> ndc_x > 1.5 then None
                   else if ndc_y < - 1.5 \<or> ndc_y > 1.5 then None
                   else if ndc_z < 0 \<or> ndc_z > 1 then None
                   else
                    (let screen_x = (ndc_x * 0.5 + 0.5) * real_of_int SCREEN_WIDTH;
                         screen_y = (1 - (ndc_y * 0.5 + 0.5)) * real_of_int SCREEN_HEIGHT;
                         light = 0.3 + 0.7 * (vec3_y (normal vin) * 0.5 + 0.5);
                         intensity = c_trunc (light * 31);
                         intensity = (if intensity > 31 then 31 else intensity);
                         intensity = (if intensity < 0 then 0 else intensity)
                     in Some \<lparr> sv_x = word_of_int (c_trunc screen_x),
                               sv_y = word_of_int (c_trunc screen_y),
                               sv_z = ndc_z,
                               w_inv = inv_w,
                               sv_u = vec2_x (texcoord vin),
                               sv_v = vec2_y (texcoord vin),
                               sv_color = RGB565 (intensity * 8) (intensity * 8) (intensity * 8) \<rparr>))))"

text \<open>
  The accessors of mesh.cpp return a pointer into the pool or \<open>NULL\<close>; the pointer is the
  offset.
\<close>

definition Mesh_GetVertexPtr :: "u32 \<Rightarrow> nat option" where
  "Mesh_GetVertexPtr start = (if start < MAX_TOTAL_VERTICES then Some (unat start) else None)"

definition Mesh_GetIndexPtr :: "u32 \<Rightarrow> nat option" where
  "Mesh_GetIndexPtr start = (if start < MAX_TOTAL_INDICES then Some (unat start) else None)"

text \<open>
  A call of the rasterizer that a renderer makes for one triangle, with its arguments. The
  body of each renderer's loop yields the call, or \<open>None\<close> when it leaves the iteration by
  \<open>continue\<close>; \<open>issue\<close> makes the call.
\<close>

datatype draw_call =
    DrawTriangle ScreenVertex_t ScreenVertex_t ScreenVertex_t Texture_t
  | DrawTriangleSolid ScreenVertex_t ScreenVertex_t ScreenVertex_t u16

definition issue :: "PutPixel \<Rightarrow> draw_call option \<Rightarrow> rasterizer_state \<Rightarrow> rasterizer_state" where
  "issue put c rs =
     (case c of
        None \<Rightarrow> rs
      | Some (DrawTriangle v0 v1 v2 tex) \<Rightarrow> Rasterizer_DrawTriangle put v0 v1 v2 (Some tex) rs
      | Some (DrawTriangleSolid v0 v1 v2 color) \<Rightarrow> Rasterizer_DrawTriangleSolid put v0 v1 v2 color rs)"

text \<open>The values of \<open>i\<close> in \<open>for (i = 0; i < count; i += 3)\<close>.\<close>

definition triangle_starts :: "nat \<Rightarrow> nat list" where
  "triangle_starts n = map (\<lambda>k. 3 * k) [0..<(n + 2) div 3]"

text \<open>The body of the loop of \<open>RenderStaticMesh\<close>, for the triangle starting at index \<open>i\<close>.\<close>

definition static_triangle ::
  "mesh_state \<Rightarrow> camera \<Rightarrow> Mat4 \<Rightarrow> u16 \<Rightarrow> nat \<Rightarrow> nat \<Rightarrow> nat \<Rightarrow> draw_call option" where
  "static_triangle ms cam model_matrix color verts indices i =
     (case TransformVertex (g_vertex_pool ms (verts + unat (g_index_pool ms (indices + (i + 0)))))
             model_matrix cam of
        None \<Rightarrow> None
      | Some sv0 \<Rightarrow>
     (case TransformVertex (g_vertex_pool ms (verts + unat (g_index_pool ms (indices + (i + 1)))))
             model_matrix cam of
        None \<Rightarrow> None
      | Some sv1 \<Rightarrow>
     (case TransformVertex (g_vertex_pool ms (verts + unat (g_index_pool ms (indices + (i + 2)))))
             model_matrix cam of
        None \<Rightarrow> None
      | Some sv2 \<Rightarrow>
         (let ax = sv_x sv1 - sv_x sv0;
              ay = sv_y sv1 - sv_y sv0;
              bx = sv_x sv2 - sv_x sv0;
              by = sv_y sv2 - sv_y sv0;
              cross = ax * by - ay * bx
          in if sint cross \<le> 0 then None
             else Some (DrawTriangleSolid (sv0\<lparr> sv_color := color \<rparr>) (sv1\<lparr> sv_color := color \<rparr>)
                          (sv2\<lparr> sv_color := color \<rparr>) color)))))"

definition RenderStaticMesh ::
  "PutPixel \<Rightarrow> mesh_state \<Rightarrow> camera \<Rightarrow> u32 \<Rightarrow> Mat4 \<Rightarrow> u16
     \<Rightarrow> rasterizer_state \<Rightarrow> rasterizer_state" where
  "RenderStaticMesh put ms cam mesh_id model_matrix color rs =
     (case Mesh_Get mesh_id ms of
        Some (Static mesh) \<Rightarrow>
          (case (Mesh_GetVertexPtr (ucast (vertex_start mesh)),
                 Mesh_GetIndexPtr (ucast (index_start mesh))) of
             (Some verts, Some indices) \<Rightarrow>
               if index_count mesh = 0 then rs
               else fold (\<lambda>i. issue put (static_triangle ms cam model_matrix color verts indices i))
                      (triangle_starts (unat (index_count mesh))) rs
           | _ \<Rightarrow> rs)
      | _ \<Rightarrow> rs)"

text \<open>
  \<open>RenderMD2Mesh\<close>. \<open>md2_corner\<close> is the vertex that the loop over \<open>j\<close> builds for corner
  \<open>j\<close> of the triangle starting at \<open>i\<close>; \<open>md2_triangle\<close> is the body of the loop over the
  triangles. \<open>pixel_pool\<close> is the global \<open>g_pixel_pool\<close> of the texture system.
\<close>

definition md2_corner ::
  "mesh_state \<Rightarrow> u32 \<Rightarrow> u16 \<Rightarrow> u16 \<Rightarrow> real \<Rightarrow> nat \<Rightarrow> nat \<Rightarrow> nat \<Rightarrow> eval_error + Vertex_t" where
  "md2_corner ms mesh_id frame_a frame_b lerp indices uvs k =
     (case Mesh_GetMD2Vertex mesh_id (ucast (g_index_pool ms (indices + k))) (ucast frame_a)
             (ucast frame_b) lerp True ms of
        Inl e \<Rightarrow> Inl e
      | Inr (pos, nrm, uv_dummy) \<Rightarrow>
          Inr \<lparr> position = pos, normal = nrm,
                texcoord = MakeVec2 (uv_u (g_md2_uv_pool ms (uvs + k)))
                                    (uv_v (g_md2_uv_pool ms (uvs + k))) \<rparr>)"

definition md2_triangle ::
  "mesh_state \<Rightarrow> camera \<Rightarrow> (nat \<Rightarrow> u16) \<Rightarrow> u32 \<Rightarrow> Mat4 \<Rightarrow> u16 \<Rightarrow> u16 \<Rightarrow> real
     \<Rightarrow> TextureSlot_t option \<Rightarrow> nat \<Rightarrow> nat \<Rightarrow> nat \<Rightarrow> eval_error + draw_call option" where
  "md2_triangle ms cam pixel_pool mesh_id model_matrix frame_a frame_b lerp texture indices uvs i =
     (case md2_corner ms mesh_id frame_a frame_b lerp indices uvs (i + 0) of
        Inl e \<Rightarrow> Inl e
      | Inr c0 \<Rightarrow>
     (case TransformVertex c0 model_matrix cam of
        None \<Rightarrow> Inr None
      | Some sv0 \<Rightarrow>
     (case md2_corner ms mesh_id frame_a frame_b lerp indices uvs (i + 1) of
        Inl e \<Rightarrow> Inl e
      | Inr c1 \<Rightarrow>
     (case TransformVertex c1 model_matrix cam of
        None \<Rightarrow> Inr None
      | Some sv1 \<Rightarrow>
     (case md2_corner ms mesh_id frame_a frame_b lerp indices uvs (i + 2) of
        Inl e \<Rightarrow> Inl e
      | Inr c2 \<Rightarrow>
     (case TransformVertex c2 model_matrix cam of
        None \<Rightarrow> Inr None
      | Some sv2 \<Rightarrow>
         (let ax = sv_x sv1 - sv_x sv0;
              ay = sv_y sv1 - sv_y sv0;
              bx = sv_x sv2 - sv_x sv0;
              by = sv_y sv2 - sv_y sv0;
              cross = ax * by - ay * bx
          in if sint cross \<le> 0 then Inr None
             else
              (case texture of
                 Some t \<Rightarrow>
                   Inr (Some (DrawTriangle sv0 sv1 sv2
                     \<lparr> pixels = (\<lambda>k. pixel_pool (unat (pixel_start t) + k)),
                       tex_width = slot_width t, tex_height = slot_height t,
                       tex_width_mask = slot_width_mask t,
                       tex_height_mask = slot_height_mask t \<rparr>))
               | None \<Rightarrow> Inr (Some (DrawTriangleSolid sv0 sv1 sv2 COLOR_BLUE))))))))))"

text \<open>The loop of \<open>RenderMD2Mesh\<close> over the triangle starts \<open>is\<close>.\<close>

fun md2_triangles ::
  "PutPixel \<Rightarrow> (nat \<Rightarrow> eval_error + draw_call option) \<Rightarrow> nat list
     \<Rightarrow> rasterizer_state \<Rightarrow> eval_error + rasterizer_state" where
  "md2_triangles put body [] rs = Inr rs"
| "md2_triangles put body (i # is) rs =
     (case body i of
        Inl e \<Rightarrow> Inl e
      | Inr c \<Rightarrow> md2_triangles put body is (issue put c rs))"

definition RenderMD2Mesh ::
  "PutPixel \<Rightarrow> mesh_state \<Rightarrow> camera \<Rightarrow> (nat \<Rightarrow> u16) \<Rightarrow> u32 \<Rightarrow> Mat4 \<Rightarrow> u16 \<Rightarrow> u16 \<Rightarrow> real
     \<Rightarrow> TextureSlot_t option \<Rightarrow> rasterizer_state \<Rightarrow> eval_error + rasterizer_state" where
  "RenderMD2Mesh put ms cam pixel_pool mesh_id model_matrix frame_a frame_b lerp texture rs =
     (case Mesh_Get mesh_id ms of
        Some (Animated mesh) \<Rightarrow>
          (case Mesh_GetIndexPtr (ucast (anim_index_start mesh)) of
             None \<Rightarrow> Inr rs
           | Some indices \<Rightarrow>
               md2_triangles put
                 (md2_triangle ms cam pixel_pool mesh_id model_matrix frame_a frame_b lerp texture
                    indices (unat (uv_start mesh)))
                 (triangle_starts (unat (anim_index_count mesh))) rs)
      | _ \<Rightarrow> Inr rs)"

text \<open>
  A scene to run the stage on. The camera looks down the negative z axis from the origin
  (identity view matrix) through a projection with \<open>clip.w = -view.z\<close> and
  \<open>clip.z = -view.z - 0.1\<close>. Slot 0 of \<open>one_triangle\<close> is a static mesh of one triangle
  whose first vertex lies at \<open>z = 0.05\<close>, behind the near plane, and whose other two lie
  at \<open>z = -2\<close>.
\<close>

definition test_camera :: camera where
  "test_camera =
     \<lparr> g_view_matrix = Mat4_Identity,
       g_proj_matrix = [1, 0, 0, 0,  0, 1, 0, 0,  0, 0, - 1, - 1,  0, 0, - 0.1, 0] \<rparr>"

definition one_triangle :: mesh_state where
  "one_triangle =
     zero_state
       \<lparr> g_vertex_pool :=
            (\<lambda>i. \<lparr> position = (if i = 0 then Vec3 0 0 0.05
                                 else if i = 1 then Vec3 1 0 (- 2) else Vec3 0 1 (- 2)),
                    normal = Vec3 0 1 0, texcoord = Vec2 0 0 \<rparr>),
          g_index_pool := (\<lambda>i. if i = 1 then 1 else if i = 2 then 2 else 0),
          g_vertex_used := 3,
          g_index_used := 3,
          g_meshes :=
            (\<lambda>i. if i = 0
                 then Static \<lparr> vertex_start = 0, vertex_count = 3, index_start = 0,
                        index_count = 3, bounds_center = Vec3 0 0 0, bounds_radius = 3 \<rparr>
                 else Free) \<rparr>"

section \<open>loader_md2.cpp: the MD2 loader\<close>

definition AllocMeshSlot :: "mesh_state \<Rightarrow> u32" where
  "AllocMeshSlot s =
     (case find (\<lambda>i. g_meshes s i = Free) [0..<unat MAX_MESHES] of
        Some i \<Rightarrow> of_nat i
      | None \<Rightarrow> 0xFFFFFFFF)"

text \<open>
  The input buffer is the list of its bytes, \<open>None\<close> for a null pointer; the loader casts
  pointers into it and reads little-endian integers (the byte order of both targets). The
  loader checks no offset against \<open>size\<close> (here \<open>sz\<close>): a read outside the buffer is undefined in C and
  reads 0 here. \<open>float_of_bits\<close> is the value of an IEEE-754 single with the given bit
  pattern (the patterns of infinities and NaN, which have no real value, get the value
  of the formula all the same).
\<close>

definition rd8 :: "u8 list \<Rightarrow> int \<Rightarrow> u8" where
  "rd8 bs a = (if 0 \<le> a \<and> a < int (length bs) then bs ! nat a else 0)"

definition rd16 :: "u8 list \<Rightarrow> int \<Rightarrow> u16" where
  "rd16 bs a = ucast (rd8 bs a) OR push_bit 8 (ucast (rd8 bs (a + 1)))"

definition rd32 :: "u8 list \<Rightarrow> int \<Rightarrow> u32" where
  "rd32 bs a =
     ucast (rd8 bs a) OR push_bit 8 (ucast (rd8 bs (a + 1)))
       OR push_bit 16 (ucast (rd8 bs (a + 2))) OR push_bit 24 (ucast (rd8 bs (a + 3)))"

definition float_of_bits :: "u32 \<Rightarrow> real" where
  "float_of_bits w =
     (let sign = (if bit w 31 then - 1 else 1);
          e = uint (drop_bit 23 w AND 0xFF);
          m = real_of_int (uint (w AND 0x7FFFFF))
      in if e = 0 then sign * m / 2 ^ 149
         else if e \<ge> 150 then sign * (8388608 + m) * 2 ^ nat (e - 150)
         else sign * (8388608 + m) / 2 ^ nat (150 - e))"

definition rdf :: "u8 list \<Rightarrow> int \<Rightarrow> real" where
  "rdf bs a = float_of_bits (rd32 bs a)"

record MD2Header_t =
  magic :: i32
  version :: i32
  skin_width :: i32
  skin_height :: i32
  frame_size :: i32
  num_skins :: i32
  num_vertices :: i32
  num_texcoords :: i32
  num_triangles :: i32
  num_glcmds :: i32
  num_frames :: i32
  offset_skins :: i32
  offset_texcoords :: i32
  offset_triangles :: i32
  offset_frames :: i32
  offset_glcmds :: i32
  offset_end :: i32

text \<open>\<open>sizeof(MD2Header_t)\<close>: 17 fields of 4 bytes.\<close>

definition sizeof_MD2Header_t :: u32 where
  "sizeof_MD2Header_t = 68"

definition read_header :: "u8 list \<Rightarrow> MD2Header_t" where
  "read_header bs =
     \<lparr> magic = rd32 bs 0, version = rd32 bs 4, skin_width = rd32 bs 8,
       skin_height = rd32 bs 12, frame_size = rd32 bs 16, num_skins = rd32 bs 20,
       num_vertices = rd32 bs 24, num_texcoords = rd32 bs 28, num_triangles = rd32 bs 32,
       num_glcmds = rd32 bs 36, num_frames = rd32 bs 40, offset_skins = rd32 bs 44,
       offset_texcoords = rd32 bs 48, offset_triangles = rd32 bs 52,
       offset_frames = rd32 bs 56, offset_glcmds = rd32 bs 60, offset_end = rd32 bs 64 \<rparr>"

text \<open>
  The body of the loop over the triangles: triangle \<open>i\<close> is 6 \<open>uint16_t\<close> at
  \<open>offset_triangles + 12 * i\<close> (3 vertex indices, 3 texcoord indices), a texcoord is 2
  \<open>int16_t\<close> at \<open>offset_texcoords + 4 * uv_idx\<close>. The winding is flipped: corners 0, 2, 1.
\<close>

definition load_triangle ::
  "u8 list \<Rightarrow> MD2Header_t \<Rightarrow> nat \<Rightarrow> nat \<Rightarrow> real \<Rightarrow> real \<Rightarrow> nat \<Rightarrow> mesh_state \<Rightarrow> mesh_state" where
  "load_triangle bs hdr idx_start uvs inv_w inv_h i s =
     (let tri = sint (offset_triangles hdr) + 12 * int i;
          out_uv = (\<lambda>j. (let uv_idx = uint (rd16 bs (tri + 6 + 2 * int j));
                               src = sint (offset_texcoords hdr) + 4 * uv_idx
                           in \<lparr> uv_u = real_of_int (sint (rd16 bs src)) * inv_w,
                                uv_v = real_of_int (sint (rd16 bs (src + 2))) * inv_h \<rparr>))
      in s\<lparr> g_index_pool := (g_index_pool s)
               (idx_start + (i * 3 + 0) := rd16 bs tri,
                idx_start + (i * 3 + 1) := rd16 bs (tri + 4),
                idx_start + (i * 3 + 2) := rd16 bs (tri + 2)),
            g_md2_uv_pool := (g_md2_uv_pool s)
               (uvs + (i * 3 + 0) := out_uv 0,
                uvs + (i * 3 + 1) := out_uv 1,
                uvs + (i * 3 + 2) := out_uv 2) \<rparr>)"

text \<open>
  The body of the loop over the frames: frame \<open>f\<close> is at \<open>offset_frames + f * frame_size\<close>,
  with \<open>scale[3]\<close>, \<open>translate[3]\<close>, \<open>name[16]\<close> and then 4 bytes for each vertex.
\<close>

definition load_frame ::
  "u8 list \<Rightarrow> MD2Header_t \<Rightarrow> nat \<Rightarrow> u32 \<Rightarrow> nat \<Rightarrow> mesh_state \<Rightarrow> mesh_state" where
  "load_frame bs hdr frame_start' vert_start f s =
     (let src = sint (offset_frames hdr) + int f * sint (frame_size hdr);
          nv = nat (sint (num_vertices hdr));
          desc = \<lparr> scale = MakeVec3 (rdf bs src) (rdf bs (src + 4)) (rdf bs (src + 8)),
                   translate = MakeVec3 (rdf bs (src + 12)) (rdf bs (src + 16)) (rdf bs (src + 20)),
                   fd_vertex_start = ucast (vert_start + of_nat f * num_vertices hdr),
                   fd_vertex_count = ucast (num_vertices hdr) \<rparr>;
          copy = (\<lambda>v pool. pool
                   (unat vert_start + (f * nv + v) :=
                      \<lparr> md2_x = rd8 bs (src + 40 + 4 * int v),
                        md2_y = rd8 bs (src + 40 + 4 * int v + 1),
                        md2_z = rd8 bs (src + 40 + 4 * int v + 2),
                        normal_index = rd8 bs (src + 40 + 4 * int v + 3) \<rparr>))
      in s\<lparr> g_frame_pool := (g_frame_pool s)(frame_start' + f := desc),
            g_md2_vertex_pool := fold copy [0..<nv] (g_md2_vertex_pool s) \<rparr>)"

definition Mesh_LoadMD2 :: "u8 list option \<Rightarrow> u32 \<Rightarrow> mesh_state \<Rightarrow> u32 \<times> mesh_state" where
  "Mesh_LoadMD2 data sz s =
     (case data of
        None \<Rightarrow> (0xFFFFFFFF, s)
      | Some bs \<Rightarrow>
         if sz < sizeof_MD2Header_t then (0xFFFFFFFF, s)
         else
          (let hdr = read_header bs
           in if magic hdr \<noteq> 844121161 \<or> version hdr \<noteq> 8 then (0xFFFFFFFF, s)
              else if sint (num_frames hdr) > uint MAX_MD2_FRAMES then (0xFFFFFFFF, s)
              else
               (let slot = AllocMeshSlot s
                in if slot = 0xFFFFFFFF then (0xFFFFFFFF, s)
                   else
                    (let num_uvs = num_triangles hdr * 3;
                         (uv_start', s) = AllocMD2UVs num_uvs s
                     in if uv_start' = 0xFFFFFFFF then (0xFFFFFFFF, s)
                        else
                         (let inv_w = 1 / real_of_int (sint (skin_width hdr));
                              inv_h = 1 / real_of_int (sint (skin_height hdr));
                              (idx_start, s) = AllocIndices (num_triangles hdr * 3) s
                          in if idx_start = 0xFFFFFFFF then (0xFFFFFFFF, s)
                             else
                              (let s = fold (load_triangle bs hdr (unat idx_start) (unat uv_start')
                                               inv_w inv_h)
                                         [0..<nat (sint (num_triangles hdr))] s;
                                   (frame_start', s) = AllocFrames (num_frames hdr) s
                               in if frame_start' = 0xFFFFFFFF then (0xFFFFFFFF, s)
                                  else
                                   (let total_verts = num_frames hdr * num_vertices hdr;
                                        (vert_start, s) = AllocMD2Vertices total_verts s
                                    in if vert_start = 0xFFFFFFFF then (0xFFFFFFFF, s)
                                       else
                                        (let s = fold (load_frame bs hdr (unat frame_start') vert_start)
                                                   [0..<nat (sint (num_frames hdr))] s
                                         in (slot,
                                             s\<lparr> g_meshes := (g_meshes s)(unat slot :=
                                                  Animated
                                                    \<lparr> frame_start = ucast frame_start',
                                                      frame_count = ucast (num_frames hdr),
                                                      anim_index_start = ucast idx_start,
                                                      anim_index_count = ucast (num_triangles hdr * 3),
                                                      verts_per_frame = ucast (num_vertices hdr),
                                                      uv_start = ucast uv_start',
                                                      uv_count = ucast num_uvs \<rparr>) \<rparr>)))))))))"

text \<open>
  Two buffers of 68 bytes: a header with the magic \<open>"IDP2"\<close> and version 8 and every other
  field 0, and the same header with the magic \<open>"IDP3"\<close>.
\<close>

definition empty_md2 :: "u8 list" where
  "empty_md2 = [0x49, 0x44, 0x50, 0x32, 8, 0, 0, 0] @ replicate 60 0"

definition bad_magic_md2 :: "u8 list" where
  "bad_magic_md2 = [0x49, 0x44, 0x50, 0x33, 8, 0, 0, 0] @ replicate 60 0"

text \<open>
  A third buffer of 68 bytes: magic \<open>"IDP2"\<close>, version 8, a skin of 1 by 1, and the four
  bytes of \<open>num_frames\<close> (offset 40) all \<open>0xFF\<close>, the \<open>int32_t\<close> -1; every other field 0.
  \<open>one_frame_used\<close> is the state after \<open>Mesh_Init\<close> and one \<open>AllocFrames(1)\<close>.
\<close>

definition neg_frames_md2 :: "u8 list" where
  "neg_frames_md2 =
     [0x49, 0x44, 0x50, 0x32, 8, 0, 0, 0, 1, 0, 0, 0, 1, 0, 0, 0] @ replicate 24 0
       @ [0xFF, 0xFF, 0xFF, 0xFF] @ replicate 24 0"

definition one_frame_used :: mesh_state where
  "one_frame_used = snd (AllocFrames 1 (Mesh_Init zero_state))"

section \<open>mesh.cpp: the OBJ loader\<close>

definition Vec3_Add :: "Vec3 \<Rightarrow> Vec3 \<Rightarrow> Vec3" where
  "Vec3_Add a b = Vec3 (vec3_x a + vec3_x b) (vec3_y a + vec3_y b) (vec3_z a + vec3_z b)"

definition Vec3_Sub :: "Vec3 \<Rightarrow> Vec3 \<Rightarrow> Vec3" where
  "Vec3_Sub a b = Vec3 (vec3_x a - vec3_x b) (vec3_y a - vec3_y b) (vec3_z a - vec3_z b)"

definition Vec3_Scale :: "Vec3 \<Rightarrow> real \<Rightarrow> Vec3" where
  "Vec3_Scale v k = Vec3 (vec3_x v * k) (vec3_y v * k) (vec3_z v * k)"

definition Vec3_Min :: "Vec3 \<Rightarrow> Vec3 \<Rightarrow> Vec3" where
  "Vec3_Min a b =
     Vec3 (if vec3_x a < vec3_x b then vec3_x a else vec3_x b)
          (if vec3_y a < vec3_y b then vec3_y a else vec3_y b)
          (if vec3_z a < vec3_z b then vec3_z a else vec3_z b)"

definition Vec3_Max :: "Vec3 \<Rightarrow> Vec3 \<Rightarrow> Vec3" where
  "Vec3_Max a b =
     Vec3 (if vec3_x a > vec3_x b then vec3_x a else vec3_x b)
          (if vec3_y a > vec3_y b then vec3_y a else vec3_y b)
          (if vec3_z a > vec3_z b then vec3_z a else vec3_z b)"

definition OBJ_MAX_POS :: nat where
  "OBJ_MAX_POS = 2048"

definition OBJ_MAX_NORM :: nat where
  "OBJ_MAX_NORM = 2048"

definition OBJ_MAX_UV :: nat where
  "OBJ_MAX_UV = 2048"

text \<open>
  The text is a list of characters. A line of the file, once copied to \<open>line[256]\<close> and
  terminated, is a C string: it ends before the first NUL. \<open>ch s k\<close> is \<open>s[k]\<close> for a C
  string \<open>s\<close>, the terminator at its end.
\<close>

definition is_blank :: "char \<Rightarrow> bool" where
  "is_blank c \<longleftrightarrow> c = CHR '' '' \<or> c = CHR 0x09"

definition is_eol :: "char \<Rightarrow> bool" where
  "is_eol c \<longleftrightarrow> c = CHR 0x0A \<or> c = CHR 0x0D"

definition cstr :: "string \<Rightarrow> string" where
  "cstr s = takeWhile (\<lambda>c. c \<noteq> CHR 0x00) s"

definition ch :: "string \<Rightarrow> nat \<Rightarrow> char" where
  "ch s k = (if k < length s then s ! k else CHR 0x00)"

text \<open>
  The loop that all three passes share: copy up to 254 characters of a line, skip the
  line ends after it, and go on with the rest.
\<close>

function obj_lines :: "string \<Rightarrow> string list" where
  "obj_lines p =
     (if p = [] then []
      else
        (let line = take 254 (takeWhile (\<lambda>c. \<not> is_eol c) p);
             rest = dropWhile is_eol (drop (length line) p)
         in line # obj_lines rest))"
  by pat_completeness auto
termination
proof (relation "measure length")
  show "wf (measure length)" by simp
next
  fix p :: string and line rest
  assume p: "p \<noteq> []"
    and line: "line = take 254 (takeWhile (\<lambda>c. \<not> is_eol c) p)"
    and rest: "rest = dropWhile is_eol (drop (length line) p)"
  have "length rest < length p"
  proof (cases "line = []")
    case True
    with p line obtain c cs where pc: "p = c # cs" "is_eol c"
      by (cases p) (auto split: if_splits)
    have "length (dropWhile is_eol cs) \<le> length cs"
      by (rule length_dropWhile_le)
    with pc True show ?thesis by (simp add: rest)
  next
    case False
    then have "0 < length line" by simp
    moreover have "length line \<le> length p"
      by (simp add: line) (meson le_trans length_takeWhile_le min.cobounded1 min.cobounded2)
    moreover have "length rest \<le> length p - length line"
      unfolding rest by (metis length_drop length_dropWhile_le)
    ultimately show ?thesis by linarith
  qed
  then show "(rest, p) \<in> measure length" by simp
qed

text \<open>
  \<open>strtol(s, &end, 10)\<close> of the C library: white space, an optional sign, decimal
  digits; the value and the number of characters used (0 when there is no digit, so that
  \<open>end == s\<close>). The value is clamped to the range of \<open>long\<close>, whose width in bits is the
  parameter \<open>long_bits\<close>: 32 on the STM32 target and under MSVC, 64 on Linux and macOS.
  \<open>strtod\<close> is not modelled: the loader takes it as the parameter \<open>strtod\<close>, which returns
  the value and the number of characters used.
\<close>

definition is_space :: "char \<Rightarrow> bool" where
  "is_space c \<longleftrightarrow>
     c = CHR '' '' \<or> c = CHR 0x09 \<or> c = CHR 0x0A \<or> c = CHR 0x0B \<or> c = CHR 0x0C \<or> c = CHR 0x0D"

definition is_digit :: "char \<Rightarrow> bool" where
  "is_digit c \<longleftrightarrow> (48 :: nat) \<le> of_char c \<and> (of_char c :: nat) \<le> 57"

definition strtol :: "nat \<Rightarrow> string \<Rightarrow> int \<times> nat" where
  "strtol long_bits s =
     (let ws = length (takeWhile is_space s);
          s1 = drop ws s;
          neg = (ch s1 0 = CHR ''-'');
          sg = (if ch s1 0 = CHR ''-'' \<or> ch s1 0 = CHR ''+'' then 1 else 0);
          ds = takeWhile is_digit (drop sg s1)
      in if ds = [] then (0, 0)
         else
          (let mag = foldl (\<lambda>a c. 10 * a + (of_char c - 48)) (0 :: int) ds;
               v = (if neg then - mag else mag)
           in (max (- (2 ^ (long_bits - 1))) (min (2 ^ (long_bits - 1) - 1) v),
               ws + sg + length ds)))"

type_synonym strtod_t = "string \<Rightarrow> real \<times> nat"

text \<open>
  \<open>ParseFloat\<close> and \<open>ParseInt\<close> return whether they parsed a number (here the number or
  \<open>None\<close>) and advance the pointer \<open>*s\<close> (here they return the rest of the string).
  \<open>ParseInt\<close> casts the \<open>long\<close> to \<open>int\<close>, which keeps its low 32 bits.
\<close>

definition ParseFloat :: "strtod_t \<Rightarrow> string \<Rightarrow> real option \<times> string" where
  "ParseFloat strtod s =
     (let s = dropWhile is_blank s
      in if ch s 0 = CHR 0x00 \<or> ch s 0 = CHR 0x0A \<or> ch s 0 = CHR 0x0D then (None, s)
         else (case strtod s of (v, n) \<Rightarrow> if n = 0 then (None, s) else (Some v, drop n s)))"

definition ParseInt :: "nat \<Rightarrow> string \<Rightarrow> int option \<times> string" where
  "ParseInt long_bits s =
     (let s = dropWhile is_blank s
      in if ch s 0 = CHR 0x00 \<or> ch s 0 = CHR 0x0A \<or> ch s 0 = CHR 0x0D then (None, s)
         else (case strtol long_bits s of (v, n) \<Rightarrow>
                 if n = 0 then (None, s) else (Some (sint (word_of_int v :: i32)), drop n s)))"

text \<open>\<open>ParseFaceIdx\<close>: \<open>v\<close>, \<open>vt\<close> and \<open>vn\<close> start as 0 and keep it when nothing is parsed.\<close>

definition ParseFaceIdx :: "nat \<Rightarrow> string \<Rightarrow> (int \<times> int \<times> int) \<times> string" where
  "ParseFaceIdx long_bits s =
     (case ParseInt long_bits s of (v, s) \<Rightarrow>
        if ch s 0 = CHR ''/'' then
          (let s = drop 1 s
           in case (if ch s 0 \<noteq> CHR ''/'' then ParseInt long_bits s else (None, s)) of (vt, s) \<Rightarrow>
              case (if ch s 0 = CHR ''/'' then ParseInt long_bits (drop 1 s) else (None, s)) of (vn, s) \<Rightarrow>
                ((case v of None \<Rightarrow> 0 | Some x \<Rightarrow> x, case vt of None \<Rightarrow> 0 | Some x \<Rightarrow> x,
                  case vn of None \<Rightarrow> 0 | Some x \<Rightarrow> x),
                 dropWhile is_blank s))
        else ((case v of None \<Rightarrow> 0 | Some x \<Rightarrow> x, 0, 0), dropWhile is_blank s))"

text \<open>
  The loop \<open>while (*lp && fc < 4)\<close> over the corners of a face: \<open>parse_face long_bits k lp\<close>
  reads at most \<open>k\<close> corners and stops at the first whose position index is 0.
\<close>

fun parse_face :: "nat \<Rightarrow> nat \<Rightarrow> string \<Rightarrow> (int \<times> int \<times> int) list" where
  "parse_face long_bits 0 lp = []"
| "parse_face long_bits (Suc k) lp =
     (if lp = [] then []
      else (case ParseFaceIdx long_bits lp of
              ((v, vt, vn), lp') \<Rightarrow>
                if v \<noteq> 0 then (v, vt, vn) # parse_face long_bits k lp' else []))"

text \<open>The three tests on the start of a line, after the leading blanks.\<close>

definition is_v_line :: "string \<Rightarrow> bool" where
  "is_v_line lp \<longleftrightarrow> ch lp 0 = CHR ''v'' \<and> ch lp 1 = CHR '' ''"

definition is_vt_line :: "string \<Rightarrow> bool" where
  "is_vt_line lp \<longleftrightarrow> ch lp 0 = CHR ''v'' \<and> ch lp 1 = CHR ''t'' \<and> ch lp 2 = CHR '' ''"

definition is_vn_line :: "string \<Rightarrow> bool" where
  "is_vn_line lp \<longleftrightarrow> ch lp 0 = CHR ''v'' \<and> ch lp 1 = CHR ''n'' \<and> ch lp 2 = CHR '' ''"

definition is_f_line :: "string \<Rightarrow> bool" where
  "is_f_line lp \<longleftrightarrow> ch lp 0 = CHR ''f'' \<and> ch lp 1 = CHR '' ''"

text \<open>
  First pass, one line: the arrays \<open>s_obj_pos\<close>, \<open>s_obj_uv\<close> and \<open>s_obj_norm\<close> with their
  counts are the three lists.
\<close>

definition parse_floats3 :: "strtod_t \<Rightarrow> string \<Rightarrow> (real \<times> real \<times> real) option" where
  "parse_floats3 strtod lp =
     (case ParseFloat strtod lp of
        (None, _) \<Rightarrow> None
      | (Some a, lp) \<Rightarrow>
         (case ParseFloat strtod lp of
            (None, _) \<Rightarrow> None
          | (Some b, lp) \<Rightarrow>
             (case ParseFloat strtod lp of
                (None, _) \<Rightarrow> None
              | (Some c, lp) \<Rightarrow> Some (a, b, c))))"

definition parse_floats2 :: "strtod_t \<Rightarrow> string \<Rightarrow> (real \<times> real) option" where
  "parse_floats2 strtod lp =
     (case ParseFloat strtod lp of
        (None, _) \<Rightarrow> None
      | (Some a, lp) \<Rightarrow>
         (case ParseFloat strtod lp of
            (None, _) \<Rightarrow> None
          | (Some b, lp) \<Rightarrow> Some (a, b)))"

definition first_pass ::
  "strtod_t \<Rightarrow> string \<Rightarrow> Vec3 list \<times> Vec2 list \<times> Vec3 list \<Rightarrow> Vec3 list \<times> Vec2 list \<times> Vec3 list" where
  "first_pass strtod line = (\<lambda>(s_obj_pos, s_obj_uv, s_obj_norm).
     (let lp = dropWhile is_blank line
      in if is_v_line lp then
           (case parse_floats3 strtod (drop 2 lp) of
              Some (a, b, c) \<Rightarrow>
                (if length s_obj_pos < OBJ_MAX_POS then s_obj_pos @ [Vec3 a b c] else s_obj_pos,
                 s_obj_uv, s_obj_norm)
            | None \<Rightarrow> (s_obj_pos, s_obj_uv, s_obj_norm))
         else if is_vt_line lp then
           (case parse_floats2 strtod (drop 3 lp) of
              Some (a, b) \<Rightarrow>
                (s_obj_pos,
                 if length s_obj_uv < OBJ_MAX_UV then s_obj_uv @ [Vec2 a (1 - b)] else s_obj_uv,
                 s_obj_norm)
            | None \<Rightarrow> (s_obj_pos, s_obj_uv, s_obj_norm))
         else if is_vn_line lp then
           (case parse_floats3 strtod (drop 3 lp) of
              Some (a, b, c) \<Rightarrow>
                (s_obj_pos, s_obj_uv,
                 if length s_obj_norm < OBJ_MAX_NORM
                 then s_obj_norm @ [Vec3_Normalize (Vec3 a b c)] else s_obj_norm)
            | None \<Rightarrow> (s_obj_pos, s_obj_uv, s_obj_norm))
         else (s_obj_pos, s_obj_uv, s_obj_norm)))"

text \<open>The output vertex of one face corner \<open>(fv, ft, fn)\<close>.\<close>

definition corner_vertex ::
  "Vec3 list \<Rightarrow> Vec2 list \<Rightarrow> Vec3 list \<Rightarrow> int \<times> int \<times> int \<Rightarrow> Vertex_t" where
  "corner_vertex s_obj_pos s_obj_uv s_obj_norm = (\<lambda>(fv, ft, fn).
     (let pos_count = int (length s_obj_pos);
          uv_count = int (length s_obj_uv);
          norm_count = int (length s_obj_norm);
          vi = (if fv > 0 then fv - 1 else pos_count + fv);
          ti = (if ft > 0 then ft - 1 else if ft < 0 then uv_count + ft else - 1);
          ni = (if fn > 0 then fn - 1 else if fn < 0 then norm_count + fn else - 1)
      in \<lparr> position = (if vi \<ge> 0 \<and> vi < pos_count then s_obj_pos ! nat vi else Vec3_Zero),
           normal = (if ni \<ge> 0 \<and> ni < norm_count then s_obj_norm ! nat ni else MakeVec3 0 1 0),
           texcoord = (if ti \<ge> 0 \<and> ti < uv_count then s_obj_uv ! nat ti else MakeVec2 0 0) \<rparr>))"

text \<open>
  Third pass, one face with its parsed corners: the counters \<open>v_count\<close> and \<open>i_count\<close> and
  the pools. \<open>out_v\<close> is \<open>&g_vertex_pool[v_start]\<close> and \<open>out_i\<close> is \<open>&g_index_pool[i_start]\<close>.
\<close>

definition emit_face ::
  "Vec3 list \<Rightarrow> Vec2 list \<Rightarrow> Vec3 list \<Rightarrow> nat \<Rightarrow> nat \<Rightarrow> u32 \<Rightarrow> u32 \<Rightarrow> (int \<times> int \<times> int) list
     \<Rightarrow> u32 \<times> u32 \<times> mesh_state \<Rightarrow> u32 \<times> u32 \<times> mesh_state" where
  "emit_face s_obj_pos s_obj_uv s_obj_norm out_v out_i max_verts max_indices corners =
     (\<lambda>(v_count, i_count, s).
       (let fc = length corners
        in if fc \<ge> 3 \<and> v_count + of_nat fc \<le> max_verts \<and> i_count + 6 \<le> max_indices then
             (let base = v_count;
                  vpool = fold (\<lambda>k pool. pool (out_v + (unat v_count + k) :=
                                   corner_vertex s_obj_pos s_obj_uv s_obj_norm (corners ! k)))
                            [0..<fc] (g_vertex_pool s);
                  ipool = (g_index_pool s)
                            (out_i + (unat i_count + 0) := ucast base,
                             out_i + (unat i_count + 1) := ucast (base + 1),
                             out_i + (unat i_count + 2) := ucast (base + 2))
              in if fc = 4 then
                   (v_count + of_nat fc, i_count + 6,
                    s\<lparr> g_vertex_pool := vpool,
                       g_index_pool := ipool
                         (out_i + (unat i_count + 3) := ucast base,
                          out_i + (unat i_count + 4) := ucast (base + 2),
                          out_i + (unat i_count + 5) := ucast (base + 3)) \<rparr>)
                 else
                   (v_count + of_nat fc, i_count + 3,
                    s\<lparr> g_vertex_pool := vpool, g_index_pool := ipool \<rparr>))
           else (v_count, i_count, s)))"

definition third_pass ::
  "nat \<Rightarrow> Vec3 list \<Rightarrow> Vec2 list \<Rightarrow> Vec3 list \<Rightarrow> nat \<Rightarrow> nat \<Rightarrow> u32 \<Rightarrow> u32 \<Rightarrow> string
     \<Rightarrow> u32 \<times> u32 \<times> mesh_state \<Rightarrow> u32 \<times> u32 \<times> mesh_state" where
  "third_pass long_bits s_obj_pos s_obj_uv s_obj_norm out_v out_i max_verts max_indices line acc =
     (let lp = dropWhile is_blank line
      in if is_f_line lp
         then emit_face s_obj_pos s_obj_uv s_obj_norm out_v out_i max_verts max_indices
                (parse_face long_bits 4 (drop 2 lp)) acc
         else acc)"

definition Mesh_LoadOBJ ::
  "nat \<Rightarrow> strtod_t \<Rightarrow> string option \<Rightarrow> u32 \<Rightarrow> mesh_state \<Rightarrow> u32 \<times> mesh_state" where
  "Mesh_LoadOBJ long_bits strtod data sz s =
     (case data of
        None \<Rightarrow> (0xFFFFFFFF, s)
      | Some text \<Rightarrow>
         if sz = 0 then (0xFFFFFFFF, s)
         else
          (let lines = map cstr (obj_lines (take (unat sz) text));
               (s_obj_pos, s_obj_uv, s_obj_norm) = fold (first_pass strtod) lines ([], [], []);
               face_count = (of_nat (length (filter (\<lambda>l. is_f_line (dropWhile is_blank l)) lines))
                             :: u32);
               max_verts = face_count * 4;
               max_indices = face_count * 6;
               slot = AllocMeshSlot s
           in if slot = 0xFFFFFFFF then (0xFFFFFFFF, s)
              else
               (let (v_start, s) = AllocVertices max_verts s;
                    (i_start, s) = AllocIndices max_indices s
                in if v_start = 0xFFFFFFFF \<or> i_start = 0xFFFFFFFF then (0xFFFFFFFF, s)
                   else
                    (let (v_count, i_count, s) =
                           fold (third_pass long_bits s_obj_pos s_obj_uv s_obj_norm (unat v_start)
                                   (unat i_start) max_verts max_indices)
                             lines (0, 0, s);
                         s = s\<lparr> g_vertex_used := v_start + v_count,
                                g_index_used := i_start + i_count \<rparr>;
                         out_v = (\<lambda>i. g_vertex_pool s (unat v_start + i));
                         (bmin, bmax) =
                           fold (\<lambda>i (bmin, bmax). (Vec3_Min bmin (position (out_v i)),
                                                    Vec3_Max bmax (position (out_v i))))
                             [1..<unat v_count] (position (out_v 0), position (out_v 0));
                         center = Vec3_Scale (Vec3_Add bmin bmax) 0.5
                     in (slot,
                         s\<lparr> g_meshes := (g_meshes s)(unat slot :=
                              Static \<lparr> vertex_start = ucast v_start,
                                       vertex_count = ucast v_count,
                                       index_start = ucast i_start,
                                       index_count = ucast i_count,
                                       bounds_center = center,
                                       bounds_radius = Vec3_Length (Vec3_Sub bmax center) \<rparr>) \<rparr>)))))"

text \<open>
  A cube as an OBJ file: 8 positions, 6 normals and 6 quad faces, each face with its own
  normal. \<open>digit_strtod\<close> is a \<open>strtod\<close> for single digits: it converts an
  optional sign and one decimal digit.
\<close>

definition cube_obj :: string where
  "cube_obj = concat (map (\<lambda>l. l @ [CHR 0x0A])
     [''v -1 -1 1'', ''v 1 -1 1'', ''v 1 1 1'', ''v -1 1 1'',
      ''v -1 -1 -1'', ''v 1 -1 -1'', ''v 1 1 -1'', ''v -1 1 -1'',
      ''vn 0 0 1'', ''vn 0 0 -1'', ''vn 0 1 0'', ''vn 0 -1 0'', ''vn 1 0 0'', ''vn -1 0 0'',
      ''f 1//1 2//1 3//1 4//1'',
      ''f 6//2 5//2 8//2 7//2'',
      ''f 4//3 3//3 7//3 8//3'',
      ''f 5//4 6//4 2//4 1//4'',
      ''f 2//5 6//5 7//5 3//5'',
      ''f 5//6 1//6 4//6 8//6''])"

definition digit_strtod :: strtod_t where
  "digit_strtod s =
     (let neg = (ch s 0 = CHR ''-'');
          sg = (if neg then 1 else 0);
          d = ch s sg
      in if is_digit d
         then ((if neg then - 1 else 1) * real_of_int (of_char d - 48), sg + 1)
         else (0, 0))"

text \<open>
  What the passes read off a line of the file. \<open>face_line\<close> holds of a line that the
  second and third pass treat as a face: after the leading blanks it starts with \<open>f\<close> and
  a space. \<open>face_corners\<close> are the corners that the loop of the third pass, which stops
  after four, collects from such a line, and \<open>quad_line\<close> holds when there are four.
  \<open>obj_tables\<close> is the result of the first pass: the positions, texture coordinates and
  normals of the file.
\<close>

definition face_line :: "string \<Rightarrow> bool" where
  "face_line l \<longleftrightarrow> is_f_line (dropWhile is_blank l)"

definition face_corners :: "nat \<Rightarrow> string \<Rightarrow> (int \<times> int \<times> int) list" where
  "face_corners long_bits l = parse_face long_bits 4 (drop 2 (dropWhile is_blank l))"

definition quad_line :: "nat \<Rightarrow> string \<Rightarrow> bool" where
  "quad_line long_bits l \<longleftrightarrow> length (face_corners long_bits l) = 4"

definition obj_file_lines :: "string \<Rightarrow> u32 \<Rightarrow> string list" where
  "obj_file_lines buf sz = map cstr (obj_lines (take (unat sz) buf))"

definition obj_tables :: "strtod_t \<Rightarrow> string list \<Rightarrow> Vec3 list \<times> Vec2 list \<times> Vec3 list" where
  "obj_tables strtod lines = fold (first_pass strtod) lines ([], [], [])"

text \<open>
  What the third pass writes for a face line, read off its body: a face of fewer than
  three corners is skipped, and a face of three or four corners gets one vertex for each
  corner and three indices, or six when it has four corners. \<open>vertex_base\<close> and
  \<open>index_base\<close> are the values of the counters \<open>v_count\<close> and \<open>i_count\<close> when the pass
  reaches face \<open>k\<close> of the file, if no earlier face was refused for lack of room.
\<close>

definition face_vertices :: "nat \<Rightarrow> string \<Rightarrow> nat" where
  "face_vertices long_bits l =
     (let fc = length (face_corners long_bits l) in if fc \<ge> 3 then fc else 0)"

definition face_indices :: "nat \<Rightarrow> string \<Rightarrow> nat" where
  "face_indices long_bits l =
     (let fc = length (face_corners long_bits l)
      in if fc \<ge> 3 then (if fc = 4 then 6 else 3) else 0)"

definition vertex_base :: "nat \<Rightarrow> string list \<Rightarrow> nat \<Rightarrow> nat" where
  "vertex_base long_bits faces k = sum_list (map (face_vertices long_bits) (take k faces))"

definition index_base :: "nat \<Rightarrow> string list \<Rightarrow> nat \<Rightarrow> nat" where
  "index_base long_bits faces k = sum_list (map (face_indices long_bits) (take k faces))"


section \<open>Pool allocators\<close>

lemma capacity_small: "unat (capacity k) \<le> 204800"
  by (cases k) (simp_all add: MAX_TOTAL_VERTICES_def MAX_TOTAL_INDICES_def
      MAX_MD2_FRAMES_def MAX_MD2_VERTICES_def)

lemma allocate_keeps_bound:
  "used k s \<le> capacity k \<Longrightarrow> used k (snd (allocate j n s)) \<le> capacity k"
  by (cases k; cases j)
    (simp_all add: AllocVertices_def AllocIndices_def AllocFrames_def AllocMD2Vertices_def
      AllocMD2UVs_def not_less)

lemma allocate_all_keeps_bound:
  "used k s \<le> capacity k \<Longrightarrow> used k (allocate_all calls s) \<le> capacity k"
proof (induction calls arbitrary: s)
  case Nil
  then show ?case by simp
next
  case (Cons c calls)
  obtain j n where c: "c = (j, n)" by (cases c)
  from Cons.prems have "used k (snd (allocate j n s)) \<le> capacity k"
    by (rule allocate_keeps_bound)
  then show ?case unfolding c by (simp add: Cons.IH)
qed

lemma used_Mesh_Init: "used k (Mesh_Init s) = 0"
  by (cases k) (simp_all add: Mesh_Init_def)

text \<open>
  C1 (as stated) fails on the code at two inputs. With the frame pool full
  (\<open>used = capacity = 200\<close>), \<open>AllocFrames 0\<close> succeeds and returns 200: the test is
  \<open>used + count > capacity\<close>, which a request of zero never meets. And the sum is taken in
  32 bits: with \<open>used = 1\<close>, \<open>AllocFrames 0xFFFFFFFF\<close> wraps to 0, succeeds, returns 1 and
  leaves \<open>used = 0\<close>.
\<close>

theorem allocate_full_pool_counterexample:
  "used FramePool (snd (AllocFrames 200 (Mesh_Init zero_state))) = capacity FramePool
   \<and> fst (AllocFrames 0 (snd (AllocFrames 200 (Mesh_Init zero_state)))) = 200
   \<and> fst (AllocFrames 0xFFFFFFFF (snd (AllocFrames 1 (Mesh_Init zero_state)))) = 1
   \<and> g_frame_used (snd (AllocFrames 0xFFFFFFFF (snd (AllocFrames 1 (Mesh_Init zero_state))))) = 0"
  by (simp add: AllocFrames_def Mesh_Init_def zero_state_def MAX_MD2_FRAMES_def)

text \<open>
  C1, amended. In every state reached from \<open>Mesh_Init\<close> by calls of the allocators,
  \<open>used \<le> capacity\<close> for every pool. For a request \<open>n\<close> that cannot wrap the 32-bit sum
  (\<open>n + capacity < 2^32\<close>), a call returns the sentinel \<open>0xFFFFFFFF\<close> exactly when
  \<open>used + n\<close> exceeds the capacity, and then leaves the state unchanged; otherwise it
  returns the previous \<open>used\<close> and \<open>used\<close> grows by exactly \<open>n\<close>. Once \<open>used\<close> equals the
  capacity, every such request of at least one element fails. \<open>Mesh_Init\<close> sets every
  counter back to 0.
\<close>

theorem allocate_contract:
  assumes "unat n + unat (capacity k) < 2 ^ 32"
  shows "let s = allocate_all calls (Mesh_Init s0); r = allocate k n s in
           used k s \<le> capacity k
         \<and> (fst r = 0xFFFFFFFF \<longleftrightarrow> unat (capacity k) < unat (used k s) + unat n)
         \<and> (fst r = 0xFFFFFFFF \<longrightarrow> snd r = s)
         \<and> (fst r \<noteq> 0xFFFFFFFF \<longrightarrow>
                fst r = used k s \<and> unat (used k (snd r)) = unat (used k s) + unat n)
         \<and> (used k s = capacity k \<and> n \<noteq> 0 \<longrightarrow> fst r = 0xFFFFFFFF)
         \<and> used k (Mesh_Init (snd r)) = 0"
proof -
  define s where "s = allocate_all calls (Mesh_Init s0)"
  have bound: "used k s \<le> capacity k"
    unfolding s_def by (rule allocate_all_keeps_bound) (simp add: used_Mesh_Init)
  then have le: "unat (used k s) \<le> unat (capacity k)"
    by (simp add: word_le_nat_alt)
  with assms have nowrap: "unat (used k s) + unat n < 2 ^ 32"
    by simp
  then have sum: "unat (used k s + n) = unat (used k s) + unat n"
    using unat_add_lem [of "used k s" n] by simp
  have cmp: "capacity k < used k s + n \<longleftrightarrow> unat (capacity k) < unat (used k s) + unat n"
    by (simp add: word_less_nat_alt sum)
  have small: "used k s \<noteq> 0xFFFFFFFF"
  proof
    assume "used k s = 0xFFFFFFFF"
    then have "unat (used k s) = 4294967295" by simp
    with le capacity_small [of k] show False by simp
  qed
  have pos: "n \<noteq> 0 \<Longrightarrow> 0 < unat n"
    by (simp add: unat_gt_0)
  have step: "(fst (allocate k n s) = 0xFFFFFFFF \<longleftrightarrow> capacity k < used k s + n)
            \<and> (capacity k < used k s + n \<longrightarrow> snd (allocate k n s) = s)
            \<and> (\<not> capacity k < used k s + n \<longrightarrow>
                 fst (allocate k n s) = used k s \<and> used k (snd (allocate k n s)) = used k s + n)"
    using small
    by (cases k)
      (simp_all add: AllocVertices_def AllocIndices_def AllocFrames_def AllocMD2Vertices_def
        AllocMD2UVs_def)
  show ?thesis
    unfolding Let_def s_def [symmetric]
    using bound step cmp sum pos by (auto simp: used_Mesh_Init)
qed

theorem allocate_contract_witness:
  "unat (50 :: u32) + unat (capacity FramePool) < 2 ^ 32
   \<and> used FramePool (allocate_all [(FramePool, 150), (VertexPool, 7)] (Mesh_Init zero_state)) = 150
   \<and> fst (allocate FramePool 50
        (allocate_all [(FramePool, 150), (VertexPool, 7)] (Mesh_Init zero_state))) = 150
   \<and> used FramePool (snd (allocate FramePool 50
        (allocate_all [(FramePool, 150), (VertexPool, 7)] (Mesh_Init zero_state)))) = 200"
  using allocate_contract [of 50 FramePool "[(FramePool, 150), (VertexPool, 7)]" zero_state]
  by (simp add: AllocFrames_def AllocVertices_def Mesh_Init_def zero_state_def
      MAX_MD2_FRAMES_def MAX_TOTAL_VERTICES_def)

section \<open>MD2 vertex evaluators\<close>

lemma length_g_normals: "length g_normals = 162"
  by (simp add: g_normals_def)

lemma length_g_md2_normals: "length g_md2_normals = 162"
  by (simp add: g_md2_normals_def)

lemma normal_slot_nat: "nat (uint (b :: u8) mod 162) = unat b mod 162"
  unfolding unat_eq_nat_uint by (simp add: nat_mod_distrib)

lemma unat_ucast_u16_u32: "unat (ucast (a :: u16) :: u32) = unat a"
  by transfer simp

lemma ucast_u16_u32_le: "(ucast (a :: u16) :: u32) \<le> ucast (b :: u16) \<longleftrightarrow> a \<le> b"
  by (simp add: word_le_nat_alt unat_ucast_u16_u32)

lemma normal_lookup_byte:
  "length tbl = 162 \<Longrightarrow>
   normal_lookup tbl (uint (b :: u8) mod 162) =
     Inr (case tbl ! (unat b mod 162) of (x, y, z) \<Rightarrow> Vec3 x y z)"
  by (simp add: normal_lookup_def normal_slot_nat MakeVec3_def split: prod.splits)

text \<open>
  C10. For every byte \<open>b\<close> of a compressed vertex's \<open>normal_index\<close>, the index
  \<open>b % 162\<close> that both evaluators use lies inside both 162-entry tables, and neither
  evaluator ever reads a normal table out of bounds, whatever the mesh, the indices and
  the pools hold.
\<close>

theorem normal_lookup_never_out_of_bounds:
  "0 \<le> uint (b :: u8) mod 162
   \<and> uint b mod 162 < int (length g_normals)
   \<and> uint b mod 162 < int (length g_md2_normals)
   \<and> Mesh_GetMD2Vertex mesh_id vert_idx frame_a frame_b t want_uv s \<noteq> Inl NormalTableOutOfBounds
   \<and> Mesh_GetMD2InterpolatedVertex mesh_id vert_idx fa fb t s \<noteq> Inl NormalTableOutOfBounds"
  by (simp add: length_g_normals length_g_md2_normals Mesh_GetMD2Vertex_def
      Mesh_GetMD2InterpolatedVertex_def normal_lookup_byte Let_def
      split: option.splits MeshSlot_t.splits)

lemma Lerp_same: "Vec3_Lerp a a t = a"
  by (simp add: Vec3_Lerp_def)

text \<open>
  C8. For an animated mesh, an in-range vertex index and a valid frame \<open>f\<close>, evaluating
  with \<open>frame_a = frame_b = f\<close> returns the decompressed vertex of frame \<open>f\<close>: the position
  \<open>byte * scale + translate\<close> and the re-normalised table normal of that vertex, for every
  interpolation factor \<open>t\<close>, in both evaluators.
\<close>

theorem identical_frames:
  assumes "Mesh_Get mesh_id s = Some (Animated m)"
      and "vert_idx < ucast (verts_per_frame m)"
      and "f < frame_count m"
  shows "(let fd = g_frame_pool s (unat (ucast (frame_start m) + (ucast f :: u32)));
              cv = g_md2_vertex_pool s (unat (ucast (fd_vertex_start fd) + vert_idx))
          in Mesh_GetMD2Vertex mesh_id vert_idx (ucast f) (ucast f) t want_uv s =
               Inr (decompressed_position fd cv, table_normal g_normals cv,
                    if want_uv then Some (Vec2 0 0) else None))
       \<and> (let fd = g_frame_pool s (unat (frame_start m) + unat f);
              cv = g_md2_vertex_pool s (unat (ucast (fd_vertex_start fd) + vert_idx))
          in Mesh_GetMD2InterpolatedVertex mesh_id vert_idx f f t s =
               Inr (decompressed_position fd cv, table_normal g_md2_normals cv))"
proof -
  have f32: "\<not> ucast (frame_count m) \<le> (ucast f :: u32)"
    using assms(3) by (simp add: ucast_u16_u32_le)
  have f16: "\<not> frame_count m \<le> f"
    using assms(3) by simp
  have v: "\<not> ucast (verts_per_frame m) \<le> vert_idx"
    using assms(2) by simp
  have slot: "\<not> MAX_MESHES \<le> mesh_id" "g_meshes s (unat mesh_id) = Animated m"
    using assms(1) by (auto simp: Mesh_Get_def split: if_splits)
  show ?thesis
    using f32 f16 v slot assms(1)
    by (simp add: Mesh_GetMD2Vertex_def Mesh_GetMD2InterpolatedVertex_def Let_def
        normal_lookup_byte length_g_normals length_g_md2_normals Lerp_same
        decompressed_position_def table_normal_def MakeVec3_def MakeVec2_def mult.commute
        split: prod.splits)
qed


lemma Mesh_Get_two_frame_mesh:
  "Mesh_Get 0 two_frame_mesh =
     Some (Animated \<lparr> frame_start = 0, frame_count = 2, anim_index_start = 0,
        anim_index_count = 0, verts_per_frame = 2, uv_start = 0, uv_count = 0 \<rparr>)"
  by (simp add: Mesh_Get_def two_frame_mesh_def MAX_MESHES_def)

lemma two_frame_mesh_pools:
  "g_frame_pool two_frame_mesh =
     (\<lambda>i. if i = 1
          then \<lparr> scale = Vec3 2 2 2, translate = Vec3 1 1 1,
                 fd_vertex_start = 2, fd_vertex_count = 2 \<rparr>
          else \<lparr> scale = Vec3 1 1 1, translate = Vec3 0 0 0,
                 fd_vertex_start = 0, fd_vertex_count = 2 \<rparr>)"
  "g_md2_vertex_pool two_frame_mesh =
     (\<lambda>i. if i = 1 \<or> i = 3
          then \<lparr> md2_x = 10, md2_y = 20, md2_z = 30, normal_index = 5 \<rparr>
          else \<lparr> md2_x = 0, md2_y = 0, md2_z = 0, normal_index = 32 \<rparr>)"
  "g_meshes two_frame_mesh 0 =
     Animated \<lparr> frame_start = 0, frame_count = 2, anim_index_start = 0,
        anim_index_count = 0, verts_per_frame = 2, uv_start = 0, uv_count = 0 \<rparr>"
  by (simp_all add: two_frame_mesh_def)

theorem identical_frames_witness:
  "Mesh_Get 0 two_frame_mesh =
     Some (Animated \<lparr> frame_start = 0, frame_count = 2, anim_index_start = 0,
        anim_index_count = 0, verts_per_frame = 2, uv_start = 0, uv_count = 0 \<rparr>)
   \<and> Mesh_GetMD2Vertex 0 1 1 1 (1 / 2) False two_frame_mesh =
       Inr (Vec3 21 41 61,
            table_normal g_normals \<lparr> md2_x = 10, md2_y = 20, md2_z = 30, normal_index = 5 \<rparr>,
            None)
   \<and> Mesh_GetMD2InterpolatedVertex 0 1 1 1 (1 / 2) two_frame_mesh =
       Inr (Vec3 21 41 61,
            table_normal g_md2_normals \<lparr> md2_x = 10, md2_y = 20, md2_z = 30, normal_index = 5 \<rparr>)"
  using identical_frames [OF Mesh_Get_two_frame_mesh, of 1 1 "1 / 2" False]
  by (simp add: Mesh_Get_two_frame_mesh two_frame_mesh_pools decompressed_position_def Let_def)

text \<open>
  C3, amended. For an animated mesh, a frame index \<open>\<ge> frame_count\<close> is replaced by
  \<open>frame_count - 1\<close> in both evaluators, which then evaluate as for that index. A vertex
  index \<open>\<ge> verts_per_frame\<close> is not clamped to the last vertex: \<open>Mesh_GetMD2Vertex\<close>
  evaluates vertex 0 instead, and \<open>Mesh_GetMD2InterpolatedVertex\<close> returns the position
  \<open>(0,0,0)\<close> and the normal \<open>(0,1,0)\<close>.
\<close>

theorem out_of_range_indices:
  assumes "Mesh_Get mesh_id s = Some (Animated m)"
  shows "(ucast (frame_count m) \<le> fa \<longrightarrow>
            Mesh_GetMD2Vertex mesh_id v fa fb t w s =
            Mesh_GetMD2Vertex mesh_id v (ucast (frame_count m) - 1) fb t w s)
       \<and> (ucast (frame_count m) \<le> fb \<longrightarrow>
            Mesh_GetMD2Vertex mesh_id v fa fb t w s =
            Mesh_GetMD2Vertex mesh_id v fa (ucast (frame_count m) - 1) t w s)
       \<and> (ucast (verts_per_frame m) \<le> v \<longrightarrow>
            Mesh_GetMD2Vertex mesh_id v fa fb t w s = Mesh_GetMD2Vertex mesh_id 0 fa fb t w s)
       \<and> (frame_count m \<le> ga \<longrightarrow>
            Mesh_GetMD2InterpolatedVertex mesh_id v ga gb t s =
            Mesh_GetMD2InterpolatedVertex mesh_id v (frame_count m - 1) gb t s)
       \<and> (frame_count m \<le> gb \<longrightarrow>
            Mesh_GetMD2InterpolatedVertex mesh_id v ga gb t s =
            Mesh_GetMD2InterpolatedVertex mesh_id v ga (frame_count m - 1) t s)
       \<and> (ucast (verts_per_frame m) \<le> v \<longrightarrow>
            Mesh_GetMD2InterpolatedVertex mesh_id v ga gb t s = Inr (Vec3_Zero, MakeVec3 0 1 0))"
proof -
  have slot: "\<not> MAX_MESHES \<le> mesh_id" "g_meshes s (unat mesh_id) = Animated m"
    using assms by (auto simp: Mesh_Get_def split: if_splits)
  show ?thesis
    using slot assms
    by (simp add: Mesh_GetMD2Vertex_def Mesh_GetMD2InterpolatedVertex_def Let_def)
qed

theorem out_of_range_indices_witness:
  "Mesh_Get 0 two_frame_mesh =
     Some (Animated \<lparr> frame_start = 0, frame_count = 2, anim_index_start = 0,
        anim_index_count = 0, verts_per_frame = 2, uv_start = 0, uv_count = 0 \<rparr>)
   \<and> Mesh_GetMD2Vertex 0 1 7 0 0 False two_frame_mesh =
       Mesh_GetMD2Vertex 0 1 1 0 0 False two_frame_mesh
   \<and> Mesh_GetMD2Vertex 0 1 0 7 0 False two_frame_mesh =
       Mesh_GetMD2Vertex 0 1 0 1 0 False two_frame_mesh
   \<and> Mesh_GetMD2Vertex 0 7 0 0 0 False two_frame_mesh =
       Mesh_GetMD2Vertex 0 0 0 0 0 False two_frame_mesh
   \<and> Mesh_GetMD2InterpolatedVertex 0 1 7 0 0 two_frame_mesh =
       Mesh_GetMD2InterpolatedVertex 0 1 1 0 0 two_frame_mesh
   \<and> Mesh_GetMD2InterpolatedVertex 0 1 0 7 0 two_frame_mesh =
       Mesh_GetMD2InterpolatedVertex 0 1 0 1 0 two_frame_mesh
   \<and> Mesh_GetMD2InterpolatedVertex 0 7 0 0 0 two_frame_mesh = Inr (Vec3_Zero, MakeVec3 0 1 0)"
  using out_of_range_indices [OF Mesh_Get_two_frame_mesh,
      where fa = 7 and fb = 0 and v = 1 and t = 0 and w = False and ga = 7 and gb = 0]
    out_of_range_indices [OF Mesh_Get_two_frame_mesh,
      where fa = 0 and fb = 7 and v = 1 and t = 0 and w = False and ga = 0 and gb = 7]
    out_of_range_indices [OF Mesh_Get_two_frame_mesh,
      where fa = 0 and fb = 0 and v = 7 and t = 0 and w = False and ga = 0 and gb = 0]
  by (simp add: Mesh_Get_two_frame_mesh)

lemma normal_rows:
  "g_normals ! 5 = (0, 0, 1)" "g_normals ! 32 = (0, 1, 0)"
  "g_md2_normals ! 5 = (0, 0, 1)" "g_md2_normals ! 32 = (0, 1, 0)"
  by (simp_all add: g_normals_def g_md2_normals_def)

lemma Normalize_axis:
  "Vec3_Normalize (Vec3 0 0 1) = Vec3 0 0 1" "Vec3_Normalize (Vec3 0 1 0) = Vec3 0 1 0"
  by (simp_all add: Vec3_Normalize_def Vec3_Length_def EPSILON_def)


theorem vertex_index_clamp_counterexample:
  "Mesh_GetMD2Vertex 0 7 0 0 0 False two_frame_mesh =
     Inr (Vec3 0 0 0, Vec3 0 1 0, None)
   \<and> Mesh_GetMD2InterpolatedVertex 0 7 0 0 0 two_frame_mesh = Inr (Vec3 0 0 0, Vec3 0 1 0)
   \<and> Mesh_GetMD2Vertex 0 1 0 0 0 False two_frame_mesh =
     Inr (Vec3 10 20 30, Vec3 0 0 1, None)
   \<and> Mesh_GetMD2InterpolatedVertex 0 1 0 0 0 two_frame_mesh = Inr (Vec3 10 20 30, Vec3 0 0 1)"
  by (simp add: Mesh_GetMD2Vertex_def Mesh_GetMD2InterpolatedVertex_def Let_def
      Mesh_Get_two_frame_mesh two_frame_mesh_pools MAX_MESHES_def
      normal_lookup_byte length_g_normals length_g_md2_normals
      normal_rows Normalize_axis Vec3_Lerp_def MakeVec3_def Vec3_Zero_def word_le_nat_alt)

section \<open>Transform hierarchy\<close>

lemma Mat4_Multiply_assoc:
  "Mat4_Multiply (Mat4_Multiply a b) c = Mat4_Multiply a (Mat4_Multiply b c)"
  by (simp add: Mat4_Multiply_def Mat4_Multiply_entry_def algebra_simps)

lemma Mat4_MultiplyVec4_Multiply:
  "Mat4_MultiplyVec4 (Mat4_Multiply a b) v = Mat4_MultiplyVec4 a (Mat4_MultiplyVec4 b v)"
  by (simp add: Mat4_Multiply_def Mat4_Multiply_entry_def Mat4_MultiplyVec4_def algebra_simps
      numeral_2_eq_2 [symmetric] numeral_3_eq_3 [symmetric])

lemma UpdateLocalMatrix_eq:
  "UpdateLocalMatrix idx s =
     s\<lparr> g_transforms :=
          (g_transforms s)(idx := (g_transforms s idx)\<lparr> local_matrix := stored_local (g_transforms s idx) \<rparr>) \<rparr>"
  by (simp add: UpdateLocalMatrix_def stored_local_def Let_def)

lemma update_local_if_dirty_entities:
  "g_entities (update_local_if_dirty i s) = g_entities s"
  by (simp add: update_local_if_dirty_def UpdateLocalMatrix_eq)

lemma update_local_if_dirty_other:
  "j \<noteq> i \<Longrightarrow> g_transforms (update_local_if_dirty i s) j = g_transforms s j"
  by (simp add: update_local_if_dirty_def UpdateLocalMatrix_eq)

lemma update_local_if_dirty_same:
  "g_transforms (update_local_if_dirty i s) i =
     (if ent_id (g_entities s i) \<noteq> INVALID_ENTITY \<and> dirty (g_transforms s i) \<noteq> 0
      then (g_transforms s i)\<lparr> local_matrix := stored_local (g_transforms s i) \<rparr>
      else g_transforms s i)"
  by (simp add: update_local_if_dirty_def UpdateLocalMatrix_eq)

lemma fold_update_local_entities:
  "g_entities (fold update_local_if_dirty xs s) = g_entities s"
  by (induction xs arbitrary: s) (simp_all add: update_local_if_dirty_entities)

lemma fold_update_local_notin:
  "i \<notin> set xs \<Longrightarrow> g_transforms (fold update_local_if_dirty xs s) i = g_transforms s i"
  by (induction xs arbitrary: s) (simp_all add: update_local_if_dirty_other)

lemma fold_update_local_in:
  "distinct xs \<Longrightarrow> i \<in> set xs \<Longrightarrow>
   g_transforms (fold update_local_if_dirty xs s) i =
     (if ent_id (g_entities s i) \<noteq> INVALID_ENTITY \<and> dirty (g_transforms s i) \<noteq> 0
      then (g_transforms s i)\<lparr> local_matrix := stored_local (g_transforms s i) \<rparr>
      else g_transforms s i)"
proof (induction xs arbitrary: s)
  case Nil
  then show ?case by simp
next
  case (Cons x xs)
  show ?case
  proof (cases "x = i")
    case True
    with Cons.prems have "i \<notin> set xs" by simp
    then show ?thesis
      using True by (simp add: fold_update_local_notin update_local_if_dirty_same)
  next
    case False
    with Cons.prems have "distinct xs" "i \<in> set xs" by simp_all
    then show ?thesis
      using False
      by (simp add: Cons.IH update_local_if_dirty_other update_local_if_dirty_entities)
  qed
qed

lemma resolve_world_local:
  "local_matrix (g_transforms (snd (resolve_world i p)) j) = local_matrix (g_transforms (snd p) j)"
  by (cases p) (simp add: resolve_world_def Let_def split: option.splits)

lemma fold_resolve_world_local:
  "local_matrix (g_transforms (snd (fold resolve_world xs p)) j) =
   local_matrix (g_transforms (snd p) j)"
  by (induction xs arbitrary: p) (simp_all add: resolve_world_local)

lemma propagate_world_local:
  "local_matrix (g_transforms (propagate_world n s) j) = local_matrix (g_transforms s j)"
proof (induction n arbitrary: s)
  case 0
  then show ?case by simp
next
  case (Suc n)
  obtain d s' where f: "fold resolve_world [0..<MAX_ENTITIES] (False, s) = (d, s')"
    by (cases "fold resolve_world [0..<MAX_ENTITIES] (False, s)")
  have "local_matrix (g_transforms s' j) = local_matrix (g_transforms s j)"
    using fold_resolve_world_local [where j = j and xs = "[0..<MAX_ENTITIES]" and p = "(False, s)"] f
    by simp
  then show ?case by (simp add: f Suc.IH)
qed

lemma Entity_UpdateTransforms_local:
  assumes "i < MAX_ENTITIES"
      and "ent_id (g_entities s i) \<noteq> INVALID_ENTITY"
      and "dirty (g_transforms s i) \<noteq> 0"
  shows "local_matrix (g_transforms (Entity_UpdateTransforms s) i) = stored_local (g_transforms s i)"
  using assms
  by (simp add: Entity_UpdateTransforms_def propagate_world_local fold_update_local_in)


text \<open>
  C2, amended. For every entity that is dirty when \<open>Entity_UpdateTransforms\<close> runs, the
  recomputed local matrix is the product \<open>T \<cdot> (Ry \<cdot> Rx \<cdot> Rz) \<cdot> S\<close>: translation times the
  rotation composed as \<open>Ry \<cdot> Rx \<cdot> Rz\<close> times scale. \<open>Mat4_Multiply a b\<close> is the product
  \<open>a \<cdot> b\<close> of the engine's column-vector convention (\<open>Mat4_MultiplyVec4\<close>), so the local
  matrix scales a vector first, then rotates it about z, about x and about y, then
  translates it.
\<close>

theorem local_matrix_product:
  assumes "i < MAX_ENTITIES"
      and "ent_id (g_entities s i) \<noteq> INVALID_ENTITY"
      and "dirty (g_transforms s i) \<noteq> 0"
  shows "let t = g_transforms s i;
             T = Mat4_Translation (vec3_x (tr_position t)) (vec3_y (tr_position t))
                   (vec3_z (tr_position t));
             Rx = Mat4_RotationX (vec3_x (tr_rotation t));
             Ry = Mat4_RotationY (vec3_y (tr_rotation t));
             Rz = Mat4_RotationZ (vec3_z (tr_rotation t));
             S = Mat4_Scale (vec3_x (tr_scale t)) (vec3_y (tr_scale t)) (vec3_z (tr_scale t));
             M = local_matrix (g_transforms (Entity_UpdateTransforms s) i)
         in M = Mat4_Multiply T (Mat4_Multiply (Mat4_Multiply Ry (Mat4_Multiply Rx Rz)) S)
          \<and> (\<forall>v. Mat4_MultiplyVec4 M v =
                 Mat4_MultiplyVec4 T (Mat4_MultiplyVec4 Ry (Mat4_MultiplyVec4 Rx
                   (Mat4_MultiplyVec4 Rz (Mat4_MultiplyVec4 S v)))))"
  using Entity_UpdateTransforms_local [OF assms]
  by (simp add: Let_def stored_local_def Mat4_Multiply_assoc Mat4_MultiplyVec4_Multiply)

lemma one_entity_slot0:
  "ent_id (g_entities one_entity 0) = 1"
  "dirty (g_transforms one_entity 0) = 1"
  "tr_position (g_transforms one_entity 0) = Vec3 0 0 0"
  "tr_rotation (g_transforms one_entity 0) = Vec3 (pi / 2) 0 (pi / 2)"
  "tr_scale (g_transforms one_entity 0) = Vec3 1 1 1"
  "components (g_entities one_entity 0) = 33"
  "g_animators one_entity 0 =
     \<lparr> current_frame = 0, next_frame = 1, interpolation = 0, frame_time = 0,
       playback_speed = 1, start_frame = 0, end_frame = 5, is_playing = 1, is_looping = 1 \<rparr>"
  by (simp_all add: one_entity_def)

lemma quarter_turns:
  "Mat4_RotationX (pi / 2) = [1, 0, 0, 0,  0, 0, 1, 0,  0, - 1, 0, 0,  0, 0, 0, 1]"
  "Mat4_RotationZ (pi / 2) = [0, 1, 0, 0,  - 1, 0, 0, 0,  0, 0, 1, 0,  0, 0, 0, 1]"
  "Mat4_RotationY 0 = Mat4_Identity"
  by (simp_all add: Mat4_RotationX_def Mat4_RotationY_def Mat4_RotationZ_def Mat4_Identity_def)

theorem local_matrix_product_witness:
  "0 < MAX_ENTITIES
   \<and> ent_id (g_entities one_entity 0) \<noteq> INVALID_ENTITY
   \<and> dirty (g_transforms one_entity 0) \<noteq> 0
   \<and> local_matrix (g_transforms (Entity_UpdateTransforms one_entity) 0) =
       [0, 0, 1, 0,  - 1, 0, 0, 0,  0, - 1, 0, 0,  0, 0, 0, 1]"
proof -
  have h: "0 < MAX_ENTITIES" "ent_id (g_entities one_entity 0) \<noteq> INVALID_ENTITY"
    "dirty (g_transforms one_entity 0) \<noteq> 0"
    by (simp_all add: MAX_ENTITIES_def one_entity_slot0 INVALID_ENTITY_def)
  show ?thesis
    using h local_matrix_product [OF h]
    by (simp add: Let_def one_entity_slot0 quarter_turns Mat4_Identity_def Mat4_Translation_def
        Mat4_Scale_def Mat4_Multiply_def Mat4_Multiply_entry_def)
qed

text \<open>
  C2 (as stated) fails on the code. For the entity of \<open>one_entity\<close>, rotated a quarter
  turn about x and about z, the stored local matrix is \<open>Rx \<cdot> Rz\<close>, and the product
  \<open>T \<cdot> (Rz \<cdot> Rx \<cdot> Ry) \<cdot> S\<close> of the claim is a different matrix.
\<close>

theorem rotation_order_counterexample:
  "local_matrix (g_transforms (Entity_UpdateTransforms one_entity) 0) =
     [0, 0, 1, 0,  - 1, 0, 0, 0,  0, - 1, 0, 0,  0, 0, 0, 1]
   \<and> Mat4_Multiply
       (Mat4_Multiply (Mat4_Translation 0 0 0)
          (Mat4_Multiply (Mat4_Multiply (Mat4_RotationZ (pi / 2)) (Mat4_RotationX (pi / 2)))
             (Mat4_RotationY 0)))
       (Mat4_Scale 1 1 1) =
     [0, 1, 0, 0,  0, 0, 1, 0,  1, 0, 0, 0,  0, 0, 0, 1]"
proof -
  have h: "0 < MAX_ENTITIES" "ent_id (g_entities one_entity 0) \<noteq> INVALID_ENTITY"
    "dirty (g_transforms one_entity 0) \<noteq> 0"
    by (simp_all add: MAX_ENTITIES_def one_entity_slot0 INVALID_ENTITY_def)
  show ?thesis
    using Entity_UpdateTransforms_local [OF h]
    by (simp add: stored_local_def one_entity_slot0 quarter_turns Mat4_Identity_def
        Mat4_Translation_def Mat4_Scale_def Mat4_Multiply_def Mat4_Multiply_entry_def)
qed

section \<open>Animators\<close>

lemma update_animator_entities:
  "g_entities (update_animator dt i s) = g_entities s"
  by (simp add: update_animator_def)

lemma update_animator_other:
  "j \<noteq> i \<Longrightarrow> g_animators (update_animator dt i s) j = g_animators s j"
  by (simp add: update_animator_def)

lemma fold_update_animator_entities:
  "g_entities (fold (update_animator dt) xs s) = g_entities s"
  by (induction xs arbitrary: s) (simp_all add: update_animator_entities)

lemma fold_update_animator_notin:
  "i \<notin> set xs \<Longrightarrow> g_animators (fold (update_animator dt) xs s) i = g_animators s i"
  by (induction xs arbitrary: s) (simp_all add: update_animator_other)

lemma update_animator_same:
  "g_animators (update_animator dt i s) i =
     (if ent_id (g_entities s i) \<noteq> INVALID_ENTITY
         \<and> components (g_entities s i) AND COMP_ANIMATOR \<noteq> 0
         \<and> is_playing (g_animators s i) \<noteq> 0
      then advance_animator dt (g_animators s i) else g_animators s i)"
  by (simp add: update_animator_def)

lemma fold_update_animator_in:
  "distinct xs \<Longrightarrow> i \<in> set xs \<Longrightarrow>
   g_animators (fold (update_animator dt) xs s) i =
     (if ent_id (g_entities s i) \<noteq> INVALID_ENTITY
         \<and> components (g_entities s i) AND COMP_ANIMATOR \<noteq> 0
         \<and> is_playing (g_animators s i) \<noteq> 0
      then advance_animator dt (g_animators s i) else g_animators s i)"
proof (induction xs arbitrary: s)
  case Nil
  then show ?case by simp
next
  case (Cons x xs)
  show ?case
  proof (cases "x = i")
    case True
    with Cons.prems have "i \<notin> set xs" by simp
    then show ?thesis
      using True by (simp add: fold_update_animator_notin update_animator_same)
  next
    case False
    with Cons.prems have "distinct xs" "i \<in> set xs" by simp_all
    then show ?thesis
      using False by (simp add: Cons.IH update_animator_other update_animator_entities)
  qed
qed

lemma Entity_UpdateAnimators_slot:
  "i < MAX_ENTITIES \<Longrightarrow>
   g_animators (Entity_UpdateAnimators dt s) i =
     (if ent_id (g_entities s i) \<noteq> INVALID_ENTITY
         \<and> components (g_entities s i) AND COMP_ANIMATOR \<noteq> 0
         \<and> is_playing (g_animators s i) \<noteq> 0
      then advance_animator dt (g_animators s i) else g_animators s i)"
  by (simp add: Entity_UpdateAnimators_def fold_update_animator_in)

text \<open>
  When the accumulated time stays below two frame periods, the interpolation fraction is
  in \<open>[0,1)\<close>.
\<close>

lemma advance_animator_small_step:
  assumes "0 \<le> frame_time a + dt * playback_speed a"
      and "frame_time a + dt * playback_speed a < 2 / 10"
  shows "0 \<le> interpolation (advance_animator dt a) \<and> interpolation (advance_animator dt a) < 1"
  using assms by (simp add: advance_animator_def Let_def)

text \<open>
  C4 at a failing input. The animator of \<open>one_entity\<close> is playing at speed 1 with no time
  accumulated; a tick of \<open>dt = 0.25\<close> s spans two and a half frame periods, the code
  subtracts one period only, and the interpolation fraction after the call is 1.5.
\<close>

theorem animator_interpolation_overshoot:
  "interpolation (g_animators (Entity_UpdateAnimators (1 / 4) one_entity) 0) = 3 / 2
   \<and> is_playing (g_animators (Entity_UpdateAnimators (1 / 4) one_entity) 0) = 1"
proof -
  have "0 < MAX_ENTITIES" by (simp add: MAX_ENTITIES_def)
  then show ?thesis
    by (simp add: Entity_UpdateAnimators_slot one_entity_slot0
        INVALID_ENTITY_def COMP_ANIMATOR_def advance_animator_def Let_def)
qed

section \<open>Rasterizer: back-face culling\<close>

text \<open>
  C6, amended. With a device attached, a call of \<open>Rasterizer_DrawTriangle\<close> or
  \<open>Rasterizer_DrawTriangleSolid\<close> for a triangle whose edge function is negative changes
  nothing but two counters: \<open>triangles_submitted\<close> and \<open>triangles_culled\<close> each grow by one.
  The device (frame and depth buffer) and \<open>pixels_drawn\<close> are as before. With no device
  attached, both functions return the state as it was, whatever the triangle.
\<close>

theorem negative_area_culled:
  "(g_device rs = Some dev
      \<and> sint (EdgeFunction (sv_x v0) (sv_y v0) (sv_x v1) (sv_y v1) (sv_x v2) (sv_y v2)) < 0
     \<longrightarrow> Rasterizer_DrawTriangle put v0 v1 v2 texture rs =
           rs\<lparr> g_stats := (g_stats rs)
                 \<lparr> triangles_submitted := triangles_submitted (g_stats rs) + 1,
                   triangles_culled := triangles_culled (g_stats rs) + 1 \<rparr> \<rparr>
       \<and> Rasterizer_DrawTriangleSolid put v0 v1 v2 color rs =
           rs\<lparr> g_stats := (g_stats rs)
                 \<lparr> triangles_submitted := triangles_submitted (g_stats rs) + 1,
                   triangles_culled := triangles_culled (g_stats rs) + 1 \<rparr> \<rparr>)
   \<and> (g_device rs = None
     \<longrightarrow> Rasterizer_DrawTriangle put v0 v1 v2 texture rs = rs
       \<and> Rasterizer_DrawTriangleSolid put v0 v1 v2 color rs = rs)"
  by (simp add: Rasterizer_DrawTriangle_def Rasterizer_DrawTriangleSolid_def Let_def)

lemma back_facing_corners:
  "sint (EdgeFunction (sv_x (corner 0 0)) (sv_y (corner 0 0)) (sv_x (corner 0 2))
      (sv_y (corner 0 2)) (sv_x (corner 2 0)) (sv_y (corner 2 0))) = - 4"
  by (simp add: EdgeFunction_def corner_def)

theorem negative_area_culled_witness:
  "g_device \<lparr> g_device = Some small_device, g_stats = zero_stats \<rparr> = Some small_device
   \<and> sint (EdgeFunction (sv_x (corner 0 0)) (sv_y (corner 0 0)) (sv_x (corner 0 2))
        (sv_y (corner 0 2)) (sv_x (corner 2 0)) (sv_y (corner 2 0))) < 0
   \<and> Rasterizer_DrawTriangle store_pixel (corner 0 0) (corner 0 2) (corner 2 0) None
        \<lparr> g_device = Some small_device, g_stats = zero_stats \<rparr> =
       \<lparr> g_device = Some small_device,
         g_stats = \<lparr> triangles_submitted = 1, triangles_culled = 1, triangles_drawn = 0,
                     pixels_drawn = 0 \<rparr> \<rparr>
   \<and> Rasterizer_DrawTriangleSolid store_pixel (corner 0 0) (corner 0 2) (corner 2 0) 0xF800
        \<lparr> g_device = Some small_device, g_stats = zero_stats \<rparr> =
       \<lparr> g_device = Some small_device,
         g_stats = \<lparr> triangles_submitted = 1, triangles_culled = 1, triangles_drawn = 0,
                     pixels_drawn = 0 \<rparr> \<rparr>
   \<and> g_device \<lparr> g_device = None, g_stats = zero_stats \<rparr> = None
   \<and> Rasterizer_DrawTriangle store_pixel (corner 0 0) (corner 0 2) (corner 2 0) None
        \<lparr> g_device = None, g_stats = zero_stats \<rparr> =
       \<lparr> g_device = None, g_stats = zero_stats \<rparr>
   \<and> Rasterizer_DrawTriangleSolid store_pixel (corner 0 0) (corner 0 2) (corner 2 0) 0xF800
        \<lparr> g_device = None, g_stats = zero_stats \<rparr> =
       \<lparr> g_device = None, g_stats = zero_stats \<rparr>"
  using negative_area_culled [of "\<lparr> g_device = Some small_device, g_stats = zero_stats \<rparr>"
      small_device "corner 0 0" "corner 0 2" "corner 2 0" store_pixel None "0xF800"]
    negative_area_culled [of "\<lparr> g_device = None, g_stats = zero_stats \<rparr>"
      small_device "corner 0 0" "corner 0 2" "corner 2 0" store_pixel None "0xF800"]
  by (simp add: back_facing_corners zero_stats_def)

text \<open>
  C6 (as stated) fails when no device is attached, as after \<open>Rasterizer_Init\<close>: both
  functions return at once, and \<open>triangles_culled\<close> stays 0 for a triangle of edge
  function \<open>-4\<close>.
\<close>

theorem no_device_counterexample:
  "sint (EdgeFunction (sv_x (corner 0 0)) (sv_y (corner 0 0)) (sv_x (corner 0 2))
        (sv_y (corner 0 2)) (sv_x (corner 2 0)) (sv_y (corner 2 0))) = - 4
   \<and> triangles_culled (g_stats (Rasterizer_DrawTriangle store_pixel (corner 0 0) (corner 0 2)
        (corner 2 0) None (Rasterizer_Init \<lparr> g_device = None, g_stats = zero_stats \<rparr>))) = 0
   \<and> triangles_culled (g_stats (Rasterizer_DrawTriangleSolid store_pixel (corner 0 0)
        (corner 0 2) (corner 2 0) 0xF800
        (Rasterizer_Init \<lparr> g_device = None, g_stats = zero_stats \<rparr>))) = 0"
  by (simp add: back_facing_corners Rasterizer_DrawTriangle_def Rasterizer_DrawTriangleSolid_def
      Rasterizer_Init_def)


text \<open>The same corners in the other order are drawn: six pixels of the 4 x 4 device.\<close>

lemma front_facing_draws:
  "g_stats (Rasterizer_DrawTriangleSolid store_pixel (corner 0 0) (corner 2 0) (corner 0 2) 0xF800
      \<lparr> g_device = Some small_device, g_stats = zero_stats \<rparr>) =
     \<lparr> triangles_submitted = 1, triangles_culled = 0, triangles_drawn = 1, pixels_drawn = 6 \<rparr>"
  by (simp add: Rasterizer_DrawTriangleSolid_def Let_def small_device_def zero_stats_def
      corner_def EdgeFunction_def Clampi_def Min3i_def Max3i_def Width_def Height_def
      draw_pixel_solid_def store_pixel_def upto.simps)

section \<open>Vertex transform and clip stage\<close>

lemma TransformVertex_None_iff:
  "TransformVertex v model cam = None \<longleftrightarrow>
     (let view_pos = Mat4_MultiplyVec4 (g_view_matrix cam)
            (Mat4_MultiplyVec4 model
               (Vec4 (vec3_x (position v)) (vec3_y (position v)) (vec3_z (position v)) 1));
          clip_pos = Mat4_MultiplyVec4 (g_proj_matrix cam) view_pos;
          ndc_x = vec4_x clip_pos * (1 / vec4_w clip_pos);
          ndc_y = vec4_y clip_pos * (1 / vec4_w clip_pos);
          ndc_z = vec4_z clip_pos * (1 / vec4_w clip_pos)
      in vec4_z view_pos \<ge> - 0.1 \<or> vec4_w clip_pos \<le> 0.0001
         \<or> ndc_x < - 1.5 \<or> ndc_x > 1.5 \<or> ndc_y < - 1.5 \<or> ndc_y > 1.5
         \<or> ndc_z < 0 \<or> ndc_z > 1)"
  by (simp add: TransformVertex_def Let_def MakeVec4_def)

lemma static_triangle_rejected:
  "TransformVertex (g_vertex_pool ms (verts + unat (g_index_pool ms (indices + (i + 0))))) model cam = None
   \<or> TransformVertex (g_vertex_pool ms (verts + unat (g_index_pool ms (indices + (i + 1))))) model cam = None
   \<or> TransformVertex (g_vertex_pool ms (verts + unat (g_index_pool ms (indices + (i + 2))))) model cam = None
   \<Longrightarrow> static_triangle ms cam model color verts indices i = None"
  by (auto simp: static_triangle_def split: option.splits)

lemma md2_triangle_rejected:
  "md2_corner ms mesh_id fa fb t indices uvs (i + 0) = Inr c0 \<Longrightarrow>
   md2_corner ms mesh_id fa fb t indices uvs (i + 1) = Inr c1 \<Longrightarrow>
   md2_corner ms mesh_id fa fb t indices uvs (i + 2) = Inr c2 \<Longrightarrow>
   TransformVertex c0 model cam = None \<or> TransformVertex c1 model cam = None
     \<or> TransformVertex c2 model cam = None \<Longrightarrow>
   md2_triangle ms cam pool mesh_id model fa fb t texture indices uvs i = Inr None"
  by (auto simp: md2_triangle_def split: option.splits)

text \<open>
  C5. \<open>TransformVertex\<close> rejects a vertex exactly when its view-space \<open>z\<close> is at least
  \<open>-0.1\<close>, or its clip-space \<open>w\<close> is at most \<open>0.0001\<close>, or its normalised device
  \<open>x\<close> or \<open>y\<close> lies outside \<open>[-1.5, 1.5]\<close>, or its normalised depth lies outside \<open>[0, 1]\<close>;
  in particular a vertex with view-space \<open>z = 0.05\<close> is rejected. A triangle of a static
  mesh or of an MD2 mesh with a rejected vertex yields no call of the rasterizer.
\<close>

theorem vertex_rejection:
  "(TransformVertex v model cam = None \<longleftrightarrow>
     (let view_pos = Mat4_MultiplyVec4 (g_view_matrix cam)
            (Mat4_MultiplyVec4 model
               (Vec4 (vec3_x (position v)) (vec3_y (position v)) (vec3_z (position v)) 1));
          clip_pos = Mat4_MultiplyVec4 (g_proj_matrix cam) view_pos;
          ndc_x = vec4_x clip_pos * (1 / vec4_w clip_pos);
          ndc_y = vec4_y clip_pos * (1 / vec4_w clip_pos);
          ndc_z = vec4_z clip_pos * (1 / vec4_w clip_pos)
      in vec4_z view_pos \<ge> - 0.1 \<or> vec4_w clip_pos \<le> 0.0001
         \<or> ndc_x < - 1.5 \<or> ndc_x > 1.5 \<or> ndc_y < - 1.5 \<or> ndc_y > 1.5
         \<or> ndc_z < 0 \<or> ndc_z > 1))
   \<and> (vec4_z (Mat4_MultiplyVec4 (g_view_matrix cam)
            (Mat4_MultiplyVec4 model
               (Vec4 (vec3_x (position v)) (vec3_y (position v)) (vec3_z (position v)) 1))) = 0.05
        \<longrightarrow> TransformVertex v model cam = None)
   \<and> (TransformVertex (g_vertex_pool ms (verts + unat (g_index_pool ms (indices + (i + 0)))))
          model cam = None
        \<or> TransformVertex (g_vertex_pool ms (verts + unat (g_index_pool ms (indices + (i + 1)))))
          model cam = None
        \<or> TransformVertex (g_vertex_pool ms (verts + unat (g_index_pool ms (indices + (i + 2)))))
          model cam = None
        \<longrightarrow> static_triangle ms cam model color verts indices i = None
          \<and> issue put (static_triangle ms cam model color verts indices i) rs = rs)
   \<and> (md2_corner ms mesh_id fa fb t indices uvs (i + 0) = Inr c0
        \<and> md2_corner ms mesh_id fa fb t indices uvs (i + 1) = Inr c1
        \<and> md2_corner ms mesh_id fa fb t indices uvs (i + 2) = Inr c2
        \<and> (TransformVertex c0 model cam = None \<or> TransformVertex c1 model cam = None
             \<or> TransformVertex c2 model cam = None)
        \<longrightarrow> md2_triangle ms cam pool mesh_id model fa fb t texture indices uvs i = Inr None)"
proof -
  have a: "vec4_z (Mat4_MultiplyVec4 (g_view_matrix cam)
            (Mat4_MultiplyVec4 model
               (Vec4 (vec3_x (position v)) (vec3_y (position v)) (vec3_z (position v)) 1))) = 0.05
        \<Longrightarrow> TransformVertex v model cam = None"
    by (simp add: TransformVertex_None_iff Let_def)
  show ?thesis
    using a static_triangle_rejected [of ms verts indices i model cam color]
      md2_triangle_rejected [of ms mesh_id fa fb t indices uvs i c0 c1 c2 model cam pool texture]
    by (simp add: TransformVertex_None_iff [of v model cam] issue_def)
qed



lemma Mesh_GetMD2Vertex_Inr:
  "\<exists>r. Mesh_GetMD2Vertex mesh_id vert_idx frame_a frame_b t want_uv s = Inr r"
  by (simp add: Mesh_GetMD2Vertex_def length_g_normals normal_lookup_byte Let_def
      split: option.splits MeshSlot_t.splits)

lemma md2_corner_Inr:
  "\<exists>c. md2_corner ms mesh_id fa fb t indices uvs k = Inr c"
proof -
  obtain r where "Mesh_GetMD2Vertex mesh_id (ucast (g_index_pool ms (indices + k))) (ucast fa)
      (ucast fb) t True ms = Inr r"
    using Mesh_GetMD2Vertex_Inr by blast
  then show ?thesis
    by (simp add: md2_corner_def split: prod.splits)
qed

lemma two_frame_mesh_more:
  "g_index_pool two_frame_mesh = (\<lambda>_. 0)"
  "g_md2_uv_pool two_frame_mesh = (\<lambda>_. \<lparr> uv_u = 0, uv_v = 0 \<rparr>)"
  by (simp_all add: two_frame_mesh_def zero_state_def)

lemma md2_corner_two_frame_mesh:
  "md2_corner two_frame_mesh 0 0 0 0 0 0 k =
     Inr \<lparr> position = Vec3 0 0 0, normal = Vec3 0 1 0, texcoord = Vec2 0 0 \<rparr>"
  by (simp add: md2_corner_def Mesh_GetMD2Vertex_def Let_def Mesh_Get_two_frame_mesh
      two_frame_mesh_pools two_frame_mesh_more normal_lookup_byte length_g_normals
      normal_rows Normalize_axis Vec3_Lerp_def MakeVec3_def MakeVec2_def)

lemma origin_rejected:
  "TransformVertex \<lparr> position = Vec3 0 0 0, normal = Vec3 0 1 0, texcoord = Vec2 0 0 \<rparr>
     Mat4_Identity test_camera = None"
  by (simp add: TransformVertex_def Let_def test_camera_def Mat4_Identity_def
      Mat4_MultiplyVec4_def MakeVec4_def)


lemma fold_issue_None:
  "(\<And>i. i \<in> set is \<Longrightarrow> f i = None) \<Longrightarrow> fold (\<lambda>i. issue put (f i)) is rs = rs"
  by (induction "is" arbitrary: rs) (simp_all add: issue_def)

text \<open>
  A static mesh all of whose triangles have a rejected vertex leaves the rasterizer
  untouched.
\<close>

lemma RenderStaticMesh_all_rejected:
  assumes "Mesh_Get mesh_id ms = Some (Static mesh)"
      and "\<And>i. i \<in> set (triangle_starts (unat (index_count mesh))) \<Longrightarrow>
             static_triangle ms cam model color (unat (vertex_start mesh))
               (unat (index_start mesh)) i = None"
  shows "RenderStaticMesh put ms cam mesh_id model color rs = rs"
  using assms
  by (auto simp: RenderStaticMesh_def Mesh_GetVertexPtr_def Mesh_GetIndexPtr_def
      unat_ucast_u16_u32 fold_issue_None split: option.splits)

lemma one_triangle_fields:
  "g_vertex_pool one_triangle =
     (\<lambda>i. \<lparr> position = (if i = 0 then Vec3 0 0 0.05
                          else if i = 1 then Vec3 1 0 (- 2) else Vec3 0 1 (- 2)),
             normal = Vec3 0 1 0, texcoord = Vec2 0 0 \<rparr>)"
  "g_index_pool one_triangle = (\<lambda>i. if i = 1 then 1 else if i = 2 then 2 else 0)"
  "Mesh_Get 0 one_triangle =
     Some (Static \<lparr> vertex_start = 0, vertex_count = 3, index_start = 0,
        index_count = 3, bounds_center = Vec3 0 0 0, bounds_radius = 3 \<rparr>)"
  by (simp_all add: one_triangle_def Mesh_Get_def MAX_MESHES_def)

lemma view_of_first_vertex:
  "vec4_z (Mat4_MultiplyVec4 (g_view_matrix test_camera)
      (Mat4_MultiplyVec4 Mat4_Identity (Vec4 0 0 0.05 1))) = 0.05"
  by (simp add: test_camera_def Mat4_Identity_def Mat4_MultiplyVec4_def)

lemma TransformVertex_accepts:
  "TransformVertex \<lparr> position = Vec3 0 0 (- 1), normal = Vec3 0 1 0, texcoord = Vec2 (1 / 4) (3 / 4) \<rparr>
     Mat4_Identity test_camera =
   Some \<lparr> sv_x = 620, sv_y = 340, sv_z = 9 / 10, w_inv = 1, sv_u = 1 / 4, sv_v = 3 / 4,
          sv_color = 0xFFDF \<rparr>"
  by (simp add: TransformVertex_def test_camera_def Mat4_Identity_def Mat4_MultiplyVec4_def
      MakeVec4_def Let_def SCREEN_WIDTH_def SCREEN_HEIGHT_def c_trunc_def RGB565_def)

theorem vertex_rejection_witness:
  "vec4_z (Mat4_MultiplyVec4 (g_view_matrix test_camera)
      (Mat4_MultiplyVec4 Mat4_Identity (Vec4 0 0 0.05 1))) = 0.05
   \<and> TransformVertex (g_vertex_pool one_triangle 0) Mat4_Identity test_camera = None
   \<and> static_triangle one_triangle test_camera Mat4_Identity 0xF800 0 0 0 = None
   \<and> md2_triangle two_frame_mesh test_camera (\<lambda>_. 0) 0 Mat4_Identity 0 0 0 None 0 0 0 = Inr None"
proof -
  let ?o = "\<lparr> position = Vec3 0 0 0, normal = Vec3 0 1 0, texcoord = Vec2 0 0 \<rparr>"
  let ?rs = "\<lparr> g_device = None, g_stats = zero_stats \<rparr>"
  note static = vertex_rejection [where v = "g_vertex_pool one_triangle 0"
      and model = Mat4_Identity and cam = test_camera and ms = one_triangle and verts = 0
      and indices = 0 and i = 0 and color = "0xF800" and put = store_pixel and rs = ?rs
      and mesh_id = 0 and fa = 0 and fb = 0 and t = 0 and uvs = 0 and ?c0.0 = ?o
      and ?c1.0 = ?o and ?c2.0 = ?o and pool = "\<lambda>_. 0" and texture = None]
  note md2 = vertex_rejection [where v = ?o
      and model = Mat4_Identity and cam = test_camera and ms = two_frame_mesh and verts = 0
      and indices = 0 and i = 0 and color = "0xF800" and put = store_pixel and rs = ?rs
      and mesh_id = 0 and fa = 0 and fb = 0 and t = 0 and uvs = 0 and ?c0.0 = ?o
      and ?c1.0 = ?o and ?c2.0 = ?o and pool = "\<lambda>_. 0" and texture = None]
  have v: "vec4_z (Mat4_MultiplyVec4 (g_view_matrix test_camera)
      (Mat4_MultiplyVec4 Mat4_Identity
        (Vec4 (vec3_x (position (g_vertex_pool one_triangle 0)))
           (vec3_y (position (g_vertex_pool one_triangle 0)))
           (vec3_z (position (g_vertex_pool one_triangle 0))) 1))) = 0.05"
    using view_of_first_vertex by (simp add: one_triangle_fields)
  have t0: "TransformVertex (g_vertex_pool one_triangle 0) Mat4_Identity test_camera = None"
    using static [THEN conjunct2, THEN conjunct1] v by blast
  have i0: "g_vertex_pool one_triangle (0 + unat (g_index_pool one_triangle (0 + (0 + 0)))) =
      g_vertex_pool one_triangle 0"
    by (simp add: one_triangle_fields)
  have s0: "static_triangle one_triangle test_camera Mat4_Identity 0xF800 0 0 0 = None"
    using static [THEN conjunct2, THEN conjunct2, THEN conjunct1] t0 i0 by simp
  have m0: "md2_triangle two_frame_mesh test_camera (\<lambda>_. 0) 0 Mat4_Identity 0 0 0 None 0 0 0 = Inr None"
    using md2 [THEN conjunct2, THEN conjunct2, THEN conjunct2] md2_corner_two_frame_mesh
      origin_rejected by simp
  show ?thesis
    using view_of_first_vertex t0 s0 m0 by simp
qed

lemma RenderStaticMesh_one_triangle:
  "RenderStaticMesh store_pixel one_triangle test_camera 0 Mat4_Identity 0xF800 rs = rs"
proof (rule RenderStaticMesh_all_rejected)
  show "Mesh_Get 0 one_triangle =
     Some (Static \<lparr> vertex_start = 0, vertex_count = 3, index_start = 0,
        index_count = 3, bounds_center = Vec3 0 0 0, bounds_radius = 3 \<rparr>)"
    by (rule one_triangle_fields)
next
  fix i
  assume "i \<in> set (triangle_starts (unat (index_count
     \<lparr> vertex_start = 0, vertex_count = 3, index_start = 0,
        index_count = 3, bounds_center = Vec3 0 0 0, bounds_radius = 3 \<rparr>)))"
  then have "i = 0" by (simp add: triangle_starts_def)
  moreover have "TransformVertex (g_vertex_pool one_triangle 0) Mat4_Identity test_camera = None"
    by (simp add: TransformVertex_None_iff Let_def one_triangle_fields test_camera_def
        Mat4_Identity_def Mat4_MultiplyVec4_def)
  ultimately show "static_triangle one_triangle test_camera Mat4_Identity 0xF800
      (unat (vertex_start \<lparr> vertex_start = 0, vertex_count = 3, index_start = 0,
        index_count = 3, bounds_center = Vec3 0 0 0, bounds_radius = 3 \<rparr>))
      (unat (index_start \<lparr> vertex_start = 0, vertex_count = 3, index_start = 0,
        index_count = 3, bounds_center = Vec3 0 0 0, bounds_radius = 3 \<rparr>)) i = None"
    by (simp add: static_triangle_rejected one_triangle_fields)
qed

section \<open>MD2 loader: header validation\<close>

lemma Mesh_LoadMD2_handle:
  "fst (Mesh_LoadMD2 data sz s) = 0xFFFFFFFF \<or> fst (Mesh_LoadMD2 data sz s) = AllocMeshSlot s"
  by (simp add: Mesh_LoadMD2_def Let_def case_prod_beta split: option.split)

text \<open>
  The checks that \<open>Mesh_LoadMD2\<close> makes. It returns the sentinel \<open>0xFFFFFFFF\<close>, and leaves
  the state as it was, whenever the buffer is null, is smaller than the header, has a
  magic other than 844121161 or a version other than 8, or has a frame count that is, as
  a signed number, more than \<open>MAX_MD2_FRAMES\<close>. A call that returns a handle has passed all
  these checks, and the handle is the free slot that \<open>AllocMeshSlot\<close> found.
\<close>

lemma Mesh_LoadMD2_checks:
  "(data = None \<or> sz < sizeof_MD2Header_t
      \<or> (\<exists>bs. data = Some bs
            \<and> (magic (read_header bs) \<noteq> 844121161 \<or> version (read_header bs) \<noteq> 8
                 \<or> sint (num_frames (read_header bs)) > uint MAX_MD2_FRAMES))
     \<longrightarrow> Mesh_LoadMD2 data sz s = (0xFFFFFFFF, s))
   \<and> (fst (Mesh_LoadMD2 data sz s) \<noteq> 0xFFFFFFFF
     \<longrightarrow> (\<exists>bs. data = Some bs \<and> sizeof_MD2Header_t \<le> sz
            \<and> magic (read_header bs) = 844121161 \<and> version (read_header bs) = 8
            \<and> sint (num_frames (read_header bs)) \<le> uint MAX_MD2_FRAMES
            \<and> fst (Mesh_LoadMD2 data sz s) = AllocMeshSlot s))"
proof (intro conjI impI)
  assume "data = None \<or> sz < sizeof_MD2Header_t
      \<or> (\<exists>bs. data = Some bs
            \<and> (magic (read_header bs) \<noteq> 844121161 \<or> version (read_header bs) \<noteq> 8
                 \<or> sint (num_frames (read_header bs)) > uint MAX_MD2_FRAMES))"
  then show "Mesh_LoadMD2 data sz s = (0xFFFFFFFF, s)"
    by (auto simp: Mesh_LoadMD2_def Let_def split: option.splits)
next
  assume ok: "fst (Mesh_LoadMD2 data sz s) \<noteq> 0xFFFFFFFF"
  then obtain bs where bs: "data = Some bs"
    by (cases data) (simp_all add: Mesh_LoadMD2_def)
  from ok have sz: "\<not> sz < sizeof_MD2Header_t"
    by (auto simp: Mesh_LoadMD2_def bs)
  from ok sz have hd: "magic (read_header bs) = 844121161" "version (read_header bs) = 8"
    by (auto simp: Mesh_LoadMD2_def bs Let_def split: if_splits)
  from ok sz hd have fr: "\<not> sint (num_frames (read_header bs)) > uint MAX_MD2_FRAMES"
    by (auto simp: Mesh_LoadMD2_def bs Let_def split: if_splits)
  from ok have slot: "fst (Mesh_LoadMD2 data sz s) = AllocMeshSlot s"
    using Mesh_LoadMD2_handle [of data sz s] by simp
  show "\<exists>bs. data = Some bs \<and> sizeof_MD2Header_t \<le> sz
            \<and> magic (read_header bs) = 844121161 \<and> version (read_header bs) = 8
            \<and> sint (num_frames (read_header bs)) \<le> uint MAX_MD2_FRAMES
            \<and> fst (Mesh_LoadMD2 data sz s) = AllocMeshSlot s"
    using bs sz hd fr slot by (simp add: not_less)
qed

text \<open>The magic is the little-endian reading of the four characters \<open>IDP2\<close>.\<close>

lemma magic_is_IDP2:
  "rd32 (map (of_nat \<circ> of_char) ''IDP2'') 0 = 844121161"
  by (simp add: rd32_def rd8_def)

lemma read_header_empty_md2:
  "read_header empty_md2 =
     \<lparr> magic = 844121161, version = 8, skin_width = 0, skin_height = 0, frame_size = 0,
       num_skins = 0, num_vertices = 0, num_texcoords = 0, num_triangles = 0, num_glcmds = 0,
       num_frames = 0, offset_skins = 0, offset_texcoords = 0, offset_triangles = 0,
       offset_frames = 0, offset_glcmds = 0, offset_end = 0 \<rparr>"
  by (simp add: read_header_def rd32_def rd8_def empty_md2_def nth_append)

lemma bad_magic: "magic (read_header bad_magic_md2) = 860898377"
  by (simp add: read_header_def rd32_def rd8_def bad_magic_md2_def nth_append)

lemma AllocMeshSlot_Mesh_Init: "AllocMeshSlot (Mesh_Init s) = 0"
  by (simp add: AllocMeshSlot_def Mesh_Init_def MAX_MESHES_def upt_conv_Cons)

lemma Mesh_Init_counters:
  "g_vertex_used (Mesh_Init s) = 0" "g_index_used (Mesh_Init s) = 0"
  "g_frame_used (Mesh_Init s) = 0" "g_md2_vertex_used (Mesh_Init s) = 0"
  "g_md2_uv_used (Mesh_Init s) = 0"
  by (simp_all add: Mesh_Init_def)

lemma Mesh_LoadMD2_empty_md2:
  "Mesh_LoadMD2 (Some empty_md2) 68 (Mesh_Init zero_state) =
     (0, (Mesh_Init zero_state)\<lparr> g_meshes := (g_meshes (Mesh_Init zero_state))(0 :=
            Animated \<lparr> frame_start = 0, frame_count = 0, anim_index_start = 0,
              anim_index_count = 0, verts_per_frame = 0, uv_start = 0, uv_count = 0 \<rparr>) \<rparr>)"
  by (simp add: Mesh_LoadMD2_def Let_def read_header_empty_md2 sizeof_MD2Header_t_def
      MAX_MD2_FRAMES_def AllocMeshSlot_Mesh_Init AllocMD2UVs_def AllocIndices_def
      AllocFrames_def AllocMD2Vertices_def Mesh_Init_counters
      MAX_MD2_VERTICES_def MAX_TOTAL_INDICES_def)

lemma Mesh_LoadMD2_checks_examples:
  "magic (read_header bad_magic_md2) \<noteq> 844121161
   \<and> Mesh_LoadMD2 (Some bad_magic_md2) 68 (Mesh_Init zero_state) = (0xFFFFFFFF, Mesh_Init zero_state)
   \<and> Mesh_LoadMD2 None 68 (Mesh_Init zero_state) = (0xFFFFFFFF, Mesh_Init zero_state)
   \<and> Mesh_LoadMD2 (Some empty_md2) 67 (Mesh_Init zero_state) = (0xFFFFFFFF, Mesh_Init zero_state)
   \<and> fst (Mesh_LoadMD2 (Some empty_md2) 68 (Mesh_Init zero_state)) = 0
   \<and> magic (read_header empty_md2) = 844121161
   \<and> version (read_header empty_md2) = 8"
  using Mesh_LoadMD2_checks [of "Some bad_magic_md2" 68 "Mesh_Init zero_state"]
    Mesh_LoadMD2_checks [of None 68 "Mesh_Init zero_state"]
    Mesh_LoadMD2_checks [of "Some empty_md2" 67 "Mesh_Init zero_state"]
    Mesh_LoadMD2_checks [of "Some empty_md2" 68 "Mesh_Init zero_state"]
  by (simp add: bad_magic Mesh_LoadMD2_empty_md2 read_header_empty_md2 sizeof_MD2Header_t_def)

lemma read_header_neg_frames_md2:
  "read_header neg_frames_md2 =
     \<lparr> magic = 844121161, version = 8, skin_width = 1, skin_height = 1, frame_size = 0,
       num_skins = 0, num_vertices = 0, num_texcoords = 0, num_triangles = 0, num_glcmds = 0,
       num_frames = 0xFFFFFFFF, offset_skins = 0, offset_texcoords = 0, offset_triangles = 0,
       offset_frames = 0, offset_glcmds = 0, offset_end = 0 \<rparr>"
  by (simp add: read_header_def rd32_def rd8_def neg_frames_md2_def nth_append)

lemma one_frame_used_fields:
  "g_frame_used one_frame_used = 1" "g_md2_uv_used one_frame_used = 0"
  "g_index_used one_frame_used = 0" "g_md2_vertex_used one_frame_used = 0"
  "AllocMeshSlot one_frame_used = 0"
  by (simp_all add: one_frame_used_def AllocFrames_def Mesh_Init_counters MAX_MD2_FRAMES_def
      AllocMeshSlot_def Mesh_Init_def MAX_MESHES_def upt_conv_Cons)

lemma wrapped_numerals: "(4294967296 :: u32) = 0" "(4294967295 :: u16) = 65535"
  by simp_all

lemma not_sentinel: "(w :: u32) \<le> c \<Longrightarrow> c < 0xFFFFFFFF \<Longrightarrow> w \<noteq> 0xFFFFFFFF"
  by auto

lemma minus_one_fits:
  assumes "(g :: u32) \<noteq> 0" and "g \<le> 200"
  shows "\<not> 200 < g + 0xFFFFFFFF"
proof -
  have e: "g + 0xFFFFFFFF = g - 1" by simp
  have "unat (g - 1) \<le> unat g" using assms(1) by (simp add: unat_minus_one)
  with assms(2) show ?thesis unfolding e by (simp add: word_le_nat_alt word_less_nat_alt)
qed

text \<open>
  C7 fails for a negative frame count. The comparison \<open>hdr->num_frames > MAX_MD2_FRAMES\<close>
  is signed, so a header whose \<open>num_frames\<close> is -1 passes it. \<open>AllocFrames\<close> then takes the
  count as the unsigned 4294967295: in any state with a free slot, the pools within
  their capacities and at least one frame in use, the sum wraps and the allocation
  succeeds. The loader returns a handle for a mesh of 65535 frames, which do not fit the
  pool of 200, and \<open>g_frame_used\<close> goes down by one.
\<close>

theorem negative_frame_count_accepted:
  assumes slot: "AllocMeshSlot s \<noteq> 0xFFFFFFFF"
      and uvs: "g_md2_uv_used s \<le> MAX_MD2_VERTICES"
      and indices: "g_index_used s \<le> MAX_TOTAL_INDICES"
      and verts: "g_md2_vertex_used s \<le> MAX_MD2_VERTICES"
      and frames: "g_frame_used s \<le> MAX_MD2_FRAMES"
      and used: "g_frame_used s \<noteq> 0"
  shows "sint (num_frames (read_header neg_frames_md2)) = - 1
     \<and> fst (Mesh_LoadMD2 (Some neg_frames_md2) 68 s) = AllocMeshSlot s
     \<and> g_meshes (snd (Mesh_LoadMD2 (Some neg_frames_md2) 68 s)) (unat (AllocMeshSlot s)) =
          Animated \<lparr> frame_start = ucast (g_frame_used s), frame_count = 65535,
            anim_index_start = ucast (g_index_used s), anim_index_count = 0,
            verts_per_frame = 0, uv_start = ucast (g_md2_uv_used s), uv_count = 0 \<rparr>
     \<and> g_frame_used (snd (Mesh_LoadMD2 (Some neg_frames_md2) 68 s)) = g_frame_used s - 1"
proof -
  have a: "\<not> MAX_MD2_VERTICES < g_md2_uv_used s" "\<not> MAX_TOTAL_INDICES < g_index_used s"
    "\<not> MAX_MD2_VERTICES < g_md2_vertex_used s"
    using uvs indices verts by (simp_all add: not_less)
  have b: "g_md2_uv_used s \<noteq> 0xFFFFFFFF" "g_index_used s \<noteq> 0xFFFFFFFF"
    "g_md2_vertex_used s \<noteq> 0xFFFFFFFF" "g_frame_used s \<noteq> 0xFFFFFFFF"
    using uvs indices verts frames
    by (auto simp: MAX_MD2_VERTICES_def MAX_TOTAL_INDICES_def MAX_MD2_FRAMES_def
        intro: not_sentinel)
  have c: "\<not> MAX_MD2_FRAMES < g_frame_used s + 0xFFFFFFFF"
    using minus_one_fits [OF used] frames by (simp add: MAX_MD2_FRAMES_def)
  have d: "uint MAX_MD2_FRAMES = 200" by (simp add: MAX_MD2_FRAMES_def)
  show ?thesis
    using slot a b c
    by (simp add: Mesh_LoadMD2_def Let_def read_header_neg_frames_md2 sizeof_MD2Header_t_def
      d AllocMD2UVs_def AllocIndices_def AllocFrames_def AllocMD2Vertices_def wrapped_numerals)
qed

theorem negative_frame_count_accepted_witness:
  "AllocMeshSlot one_frame_used \<noteq> 0xFFFFFFFF
   \<and> g_frame_used one_frame_used = 1
   \<and> sint (num_frames (read_header neg_frames_md2)) = - 1
   \<and> fst (Mesh_LoadMD2 (Some neg_frames_md2) 68 one_frame_used) = 0
   \<and> g_meshes (snd (Mesh_LoadMD2 (Some neg_frames_md2) 68 one_frame_used)) 0 =
        Animated \<lparr> frame_start = 1, frame_count = 65535, anim_index_start = 0,
          anim_index_count = 0, verts_per_frame = 0, uv_start = 0, uv_count = 0 \<rparr>
   \<and> g_frame_used (snd (Mesh_LoadMD2 (Some neg_frames_md2) 68 one_frame_used)) = 0"
  using negative_frame_count_accepted [of one_frame_used]
  by (simp add: one_frame_used_fields MAX_MD2_VERTICES_def MAX_TOTAL_INDICES_def
      MAX_MD2_FRAMES_def)


section \<open>OBJ loader: quads\<close>

lemma upt3: "[0..<3] = [0, 1, 2]"
  by (simp add: upt_conv_Cons)

lemma upt4: "[0..<4] = [0, 1, 2, 3]"
  by (simp add: upt_conv_Cons)

lemma upt6: "[0..<6] = [0, 1, 2, 3, 4, 5]"
  by (simp add: upt_conv_Cons)

lemma less3: "c < (3 :: nat) \<longleftrightarrow> c = 0 \<or> c = 1 \<or> c = 2"
  by auto

lemma less4: "c < (4 :: nat) \<longleftrightarrow> c = 0 \<or> c = 1 \<or> c = 2 \<or> c = 3"
  by auto

lemma less6: "j < (6 :: nat) \<longleftrightarrow> j = 0 \<or> j = 1 \<or> j = 2 \<or> j = 3 \<or> j = 4 \<or> j = 5"
  by auto

lemma list3: "length xs = 3 \<Longrightarrow> xs = [xs ! 0, xs ! 1, xs ! 2]"
  by (cases xs; cases "tl xs"; cases "tl (tl xs)") auto

lemma list4: "length xs = 4 \<Longrightarrow> xs = [xs ! 0, xs ! 1, xs ! 2, xs ! 3]"
  by (cases xs; cases "tl xs"; cases "tl (tl xs)"; cases "tl (tl (tl xs))") auto

text \<open>
  One face. With room in the allocation, a face of three corners is written as three
  vertices and one triangle, a face of four corners as four vertices and two triangles.
\<close>

lemma emit_face_triangle:
  assumes "corners = [c0, c1, c2]"
      and "v_count + 3 \<le> max_verts" and "i_count + 6 \<le> max_indices"
  shows "emit_face P U N out_v out_i max_verts max_indices corners (v_count, i_count, s) =
     (v_count + 3, i_count + 3,
      s\<lparr> g_vertex_pool := (g_vertex_pool s)
            (out_v + (unat v_count + 0) := corner_vertex P U N c0,
             out_v + (unat v_count + 1) := corner_vertex P U N c1,
             out_v + (unat v_count + 2) := corner_vertex P U N c2),
         g_index_pool := (g_index_pool s)
            (out_i + (unat i_count + 0) := ucast v_count,
             out_i + (unat i_count + 1) := ucast (v_count + 1),
             out_i + (unat i_count + 2) := ucast (v_count + 2)) \<rparr>)"
  using assms by (simp add: emit_face_def Let_def upt3 numeral_3_eq_3)

lemma emit_face_quad:
  assumes "corners = [c0, c1, c2, c3]"
      and "v_count + 4 \<le> max_verts" and "i_count + 6 \<le> max_indices"
  shows "emit_face P U N out_v out_i max_verts max_indices corners (v_count, i_count, s) =
     (v_count + 4, i_count + 6,
      s\<lparr> g_vertex_pool := (g_vertex_pool s)
            (out_v + (unat v_count + 0) := corner_vertex P U N c0,
             out_v + (unat v_count + 1) := corner_vertex P U N c1,
             out_v + (unat v_count + 2) := corner_vertex P U N c2,
             out_v + (unat v_count + 3) := corner_vertex P U N c3),
         g_index_pool := (g_index_pool s)
            (out_i + (unat i_count + 0) := ucast v_count,
             out_i + (unat i_count + 1) := ucast (v_count + 1),
             out_i + (unat i_count + 2) := ucast (v_count + 2),
             out_i + (unat i_count + 3) := ucast v_count,
             out_i + (unat i_count + 4) := ucast (v_count + 2),
             out_i + (unat i_count + 5) := ucast (v_count + 3)) \<rparr>)"
  using assms by (simp add: emit_face_def Let_def upt4 numeral_3_eq_3)

lemma emit_face_skip:
  "length corners < 3 \<Longrightarrow>
     emit_face P U N out_v out_i max_verts max_indices corners acc = acc"
  by (cases acc) (simp add: emit_face_def Let_def)

lemma emit_face_step:
  assumes len: "length corners = 3 \<or> length corners = 4"
      and v: "v_count + of_nat (length corners) \<le> max_verts"
      and i: "i_count + 6 \<le> max_indices"
  shows "\<exists>s1. emit_face P U N out_v out_i max_verts max_indices corners (v_count, i_count, s) =
            (v_count + of_nat (length corners),
             i_count + of_nat (if length corners = 4 then 6 else 3), s1)
     \<and> (\<forall>a. a < out_v + unat v_count \<or> out_v + unat v_count + length corners \<le> a
            \<longrightarrow> g_vertex_pool s1 a = g_vertex_pool s a)
     \<and> (\<forall>a. a < out_i + unat i_count
              \<or> out_i + unat i_count + (if length corners = 4 then 6 else 3) \<le> a
            \<longrightarrow> g_index_pool s1 a = g_index_pool s a)
     \<and> (\<forall>c<length corners.
           g_vertex_pool s1 (out_v + unat v_count + c) = corner_vertex P U N (corners ! c))
     \<and> (\<forall>j<(if length corners = 4 then 6 else 3).
           g_index_pool s1 (out_i + unat i_count + j)
             = ucast (v_count + of_nat ([0, 1, 2, 0, 2, 3] ! j)))"
  using len
proof
  assume l3: "length corners = 3"
  note e = emit_face_triangle [OF list3 [OF l3] v [unfolded l3, simplified] i, where P = P
      and U = U and N = N and out_v = out_v and out_i = out_i and s = s]
  show ?thesis
    unfolding e l3 by (intro exI conjI) (auto simp: less3)
next
  assume l4: "length corners = 4"
  note e = emit_face_quad [OF list4 [OF l4] v [unfolded l4, simplified] i, where P = P
      and U = U and N = N and out_v = out_v and out_i = out_i and s = s]
  show ?thesis
    unfolding e l4 by (intro exI conjI) (auto simp: less4 less6)
qed

lemma length_parse_face: "length (parse_face lb k lp) \<le> k"
  by (induction k arbitrary: lp) (auto split: prod.splits)

lemma length_face_corners: "length (face_corners lb l) \<le> 4"
  by (simp add: face_corners_def length_parse_face)

lemma face_vertices_le: "face_vertices lb l \<le> 4"
  using length_face_corners [of lb l] by (simp add: face_vertices_def Let_def)

lemma face_indices_le: "face_indices lb l \<le> 6"
  by (simp add: face_indices_def Let_def)


text \<open>
  One line of the third pass. The allocation has room for four vertices and six indices
  for each face line, so the guard of the pass holds for every face it reaches.
\<close>

lemma u32_of_nat_le:
  "a \<le> b \<Longrightarrow> b < 2 ^ 32 \<Longrightarrow> (of_nat a :: u32) \<le> of_nat b"
  by (simp add: word_le_nat_alt unat_of_nat)

lemma third_pass_other_line:
  "\<not> face_line l \<Longrightarrow> third_pass lb P U N out_v out_i max_verts max_indices l acc = acc"
  by (simp add: third_pass_def face_line_def)

lemma third_pass_face_line:
  assumes face: "face_line l"
      and V: "V \<le> 4 * m" and I: "I \<le> 6 * m" and m: "m < n" and n: "6 * n < 2 ^ 32"
  shows "\<exists>s1. third_pass lb P U N out_v out_i (of_nat n * 4) (of_nat n * 6) l
                 (of_nat V, of_nat I, s) =
               (of_nat (V + face_vertices lb l), of_nat (I + face_indices lb l), s1)
     \<and> (\<forall>a. a < out_v + V \<or> out_v + V + face_vertices lb l \<le> a
            \<longrightarrow> g_vertex_pool s1 a = g_vertex_pool s a)
     \<and> (\<forall>a. a < out_i + I \<or> out_i + I + face_indices lb l \<le> a
            \<longrightarrow> g_index_pool s1 a = g_index_pool s a)
     \<and> (\<forall>c<face_vertices lb l.
           g_vertex_pool s1 (out_v + V + c) = corner_vertex P U N (face_corners lb l ! c))
     \<and> (\<forall>j<face_indices lb l.
           g_index_pool s1 (out_i + I + j)
             = ucast (of_nat (V + [0, 1, 2, 0, 2, 3] ! j) :: u32))"
proof (cases "length (face_corners lb l) < 3")
  case True
  then have "third_pass lb P U N out_v out_i (of_nat n * 4) (of_nat n * 6) l
      (of_nat V, of_nat I, s) = (of_nat V, of_nat I, s)"
    using face by (simp add: third_pass_def face_line_def face_corners_def emit_face_skip)
  then show ?thesis
    using True by (simp add: face_vertices_def face_indices_def)
next
  case False
  let ?cs = "face_corners lb l"
  from False length_face_corners [of lb l]
  have len: "length ?cs = 3 \<or> length ?cs = 4" by arith
  have uV: "unat (of_nat V :: u32) = V" and uI: "unat (of_nat I :: u32) = I"
    using V I m n by (simp_all add: unat_of_nat)
  have "V + length ?cs \<le> n * 4" using V m len by auto
  then have v: "(of_nat V + of_nat (length ?cs) :: u32) \<le> of_nat n * 4"
    using n u32_of_nat_le [of "V + length ?cs" "n * 4"] by simp
  have "I + 6 \<le> n * 6" using I m by auto
  then have i: "(of_nat I + 6 :: u32) \<le> of_nat n * 6"
    using n u32_of_nat_le [of "I + 6" "n * 6"] by simp
  have fv: "face_vertices lb l = length ?cs"
    and fi: "face_indices lb l = (if length ?cs = 4 then 6 else 3)"
    using len by (auto simp: face_vertices_def face_indices_def)
  have tp: "third_pass lb P U N out_v out_i (of_nat n * 4) (of_nat n * 6) l
      (of_nat V, of_nat I, s) =
      emit_face P U N out_v out_i (of_nat n * 4) (of_nat n * 6) ?cs (of_nat V, of_nat I, s)"
    using face by (simp add: third_pass_def face_line_def face_corners_def)
  from emit_face_step [OF len v i, where P = P and U = U and N = N and out_v = out_v
      and out_i = out_i and s = s]
  show ?thesis
    unfolding tp uV uI fv fi by (simp only: of_nat_add)
qed


text \<open>
  The whole third pass: every face of three or four corners has its vertices and
  indices at its bases, and later faces do not overwrite them.
\<close>

lemma vertex_base_simps:
  "vertex_base lb faces 0 = 0"
  "vertex_base lb (l # faces) (Suc k) = face_vertices lb l + vertex_base lb faces k"
  by (simp_all add: vertex_base_def)

lemma index_base_simps:
  "index_base lb faces 0 = 0"
  "index_base lb (l # faces) (Suc k) = face_indices lb l + index_base lb faces k"
  by (simp_all add: index_base_def)

lemma vertex_base_le: "vertex_base lb faces k \<le> 4 * k"
proof (induction k arbitrary: faces)
  case 0
  show ?case by (simp add: vertex_base_simps)
next
  case (Suc k)
  show ?case
  proof (cases faces)
    case Nil
    then show ?thesis by (simp add: vertex_base_def)
  next
    case (Cons l fs)
    with Suc [of fs] face_vertices_le [of lb l] show ?thesis
      by (simp add: vertex_base_simps)
  qed
qed

lemma index_base_le: "index_base lb faces k \<le> 6 * k"
proof (induction k arbitrary: faces)
  case 0
  show ?case by (simp add: index_base_simps)
next
  case (Suc k)
  show ?case
  proof (cases faces)
    case Nil
    then show ?thesis by (simp add: index_base_def)
  next
    case (Cons l fs)
    with Suc [of fs] face_indices_le [of lb l] show ?thesis
      by (simp add: index_base_simps)
  qed
qed

lemma third_pass_faces:
  assumes "V \<le> 4 * m" and "I \<le> 6 * m"
      and "m + length (filter face_line ls) \<le> n" and "6 * n < 2 ^ 32"
  shows "\<exists>s'. fold (third_pass lb P U N out_v out_i (of_nat n * 4) (of_nat n * 6)) ls
                 (of_nat V, of_nat I, s) =
               (of_nat (V + vertex_base lb (filter face_line ls) (length (filter face_line ls))),
                of_nat (I + index_base lb (filter face_line ls) (length (filter face_line ls))),
                s')
     \<and> (\<forall>a. a < out_v + V \<longrightarrow> g_vertex_pool s' a = g_vertex_pool s a)
     \<and> (\<forall>a. a < out_i + I \<longrightarrow> g_index_pool s' a = g_index_pool s a)
     \<and> (\<forall>k<length (filter face_line ls). \<forall>c<face_vertices lb (filter face_line ls ! k).
           g_vertex_pool s' (out_v + (V + vertex_base lb (filter face_line ls) k) + c)
             = corner_vertex P U N (face_corners lb (filter face_line ls ! k) ! c))
     \<and> (\<forall>k<length (filter face_line ls). \<forall>j<face_indices lb (filter face_line ls ! k).
           g_index_pool s' (out_i + (I + index_base lb (filter face_line ls) k) + j)
             = ucast (of_nat (V + vertex_base lb (filter face_line ls) k
                              + [0, 1, 2, 0, 2, 3] ! j) :: u32))"
  using assms
proof (induction ls arbitrary: V I m s)
  case Nil
  then show ?case by (simp add: vertex_base_simps index_base_simps)
next
  case (Cons l ls)
  let ?f = "third_pass lb P U N out_v out_i (of_nat n * 4) (of_nat n * 6)"
  let ?F = "filter face_line ls"
  show ?case
  proof (cases "face_line l")
    case False
    have "\<exists>s'. fold ?f ls (of_nat V, of_nat I, s) =
               (of_nat (V + vertex_base lb ?F (length ?F)),
                of_nat (I + index_base lb ?F (length ?F)), s')
     \<and> (\<forall>a. a < out_v + V \<longrightarrow> g_vertex_pool s' a = g_vertex_pool s a)
     \<and> (\<forall>a. a < out_i + I \<longrightarrow> g_index_pool s' a = g_index_pool s a)
     \<and> (\<forall>k<length ?F. \<forall>c<face_vertices lb (?F ! k).
           g_vertex_pool s' (out_v + (V + vertex_base lb ?F k) + c)
             = corner_vertex P U N (face_corners lb (?F ! k) ! c))
     \<and> (\<forall>k<length ?F. \<forall>j<face_indices lb (?F ! k).
           g_index_pool s' (out_i + (I + index_base lb ?F k) + j)
             = ucast (of_nat (V + vertex_base lb ?F k + [0, 1, 2, 0, 2, 3] ! j) :: u32))"
      using Cons.prems False by (intro Cons.IH [where m = m]) simp_all
    then show ?thesis using False by (simp add: third_pass_other_line)
  next
    case True
    let ?V = "V + face_vertices lb l" and ?I = "I + face_indices lb l"
    from True Cons.prems(3) have m: "Suc m + length ?F \<le> n" by simp
    then have mn: "m < n" by simp
    from third_pass_face_line [OF True Cons.prems(1,2) mn Cons.prems(4), where lb = lb
        and P = P and U = U and N = N and out_v = out_v and out_i = out_i and s = s]
    obtain s1 where s1: "?f l (of_nat V, of_nat I, s) = (of_nat ?V, of_nat ?I, s1)"
      and fv1: "\<And>a. a < out_v + V \<Longrightarrow> g_vertex_pool s1 a = g_vertex_pool s a"
      and fi1: "\<And>a. a < out_i + I \<Longrightarrow> g_index_pool s1 a = g_index_pool s a"
      and cv1: "\<And>c. c < face_vertices lb l \<Longrightarrow> g_vertex_pool s1 (out_v + V + c)
            = corner_vertex P U N (face_corners lb l ! c)"
      and ci1: "\<And>j. j < face_indices lb l \<Longrightarrow> g_index_pool s1 (out_i + I + j)
            = ucast (of_nat (V + [0, 1, 2, 0, 2, 3] ! j) :: u32)"
      by blast
    have V': "?V \<le> 4 * Suc m" and I': "?I \<le> 6 * Suc m"
      using Cons.prems(1,2) face_vertices_le [of lb l] face_indices_le [of lb l] by simp_all
    have "\<exists>s'. fold ?f ls (of_nat ?V, of_nat ?I, s1) =
               (of_nat (?V + vertex_base lb ?F (length ?F)),
                of_nat (?I + index_base lb ?F (length ?F)), s')
     \<and> (\<forall>a. a < out_v + ?V \<longrightarrow> g_vertex_pool s' a = g_vertex_pool s1 a)
     \<and> (\<forall>a. a < out_i + ?I \<longrightarrow> g_index_pool s' a = g_index_pool s1 a)
     \<and> (\<forall>k<length ?F. \<forall>c<face_vertices lb (?F ! k).
           g_vertex_pool s' (out_v + (?V + vertex_base lb ?F k) + c)
             = corner_vertex P U N (face_corners lb (?F ! k) ! c))
     \<and> (\<forall>k<length ?F. \<forall>j<face_indices lb (?F ! k).
           g_index_pool s' (out_i + (?I + index_base lb ?F k) + j)
             = ucast (of_nat (?V + vertex_base lb ?F k + [0, 1, 2, 0, 2, 3] ! j) :: u32))"
      using V' I' m Cons.prems(4) by (intro Cons.IH [where m = "Suc m"])
    then obtain s' where fold': "fold ?f ls (of_nat ?V, of_nat ?I, s1) =
               (of_nat (?V + vertex_base lb ?F (length ?F)),
                of_nat (?I + index_base lb ?F (length ?F)), s')"
      and fv: "\<And>a. a < out_v + ?V \<Longrightarrow> g_vertex_pool s' a = g_vertex_pool s1 a"
      and fi: "\<And>a. a < out_i + ?I \<Longrightarrow> g_index_pool s' a = g_index_pool s1 a"
      and cv: "\<And>k c. k < length ?F \<Longrightarrow> c < face_vertices lb (?F ! k) \<Longrightarrow>
           g_vertex_pool s' (out_v + (?V + vertex_base lb ?F k) + c)
             = corner_vertex P U N (face_corners lb (?F ! k) ! c)"
      and ci: "\<And>k j. k < length ?F \<Longrightarrow> j < face_indices lb (?F ! k) \<Longrightarrow>
           g_index_pool s' (out_i + (?I + index_base lb ?F k) + j)
             = ucast (of_nat (?V + vertex_base lb ?F k + [0, 1, 2, 0, 2, 3] ! j) :: u32)"
      by blast
    let ?G = "filter face_line (l # ls)"
    have G: "?G = l # ?F" using True by simp
    have r1: "fold ?f (l # ls) (of_nat V, of_nat I, s) =
               (of_nat (V + vertex_base lb ?G (length ?G)),
                of_nat (I + index_base lb ?G (length ?G)), s')"
      unfolding G using s1 fold' by (simp add: vertex_base_simps index_base_simps add.assoc)
    have r2: "\<forall>a. a < out_v + V \<longrightarrow> g_vertex_pool s' a = g_vertex_pool s a"
      using fv fv1 by simp
    have r3: "\<forall>a. a < out_i + I \<longrightarrow> g_index_pool s' a = g_index_pool s a"
      using fi fi1 by simp
    have r4: "\<forall>k<length ?G. \<forall>c<face_vertices lb (?G ! k).
           g_vertex_pool s' (out_v + (V + vertex_base lb ?G k) + c)
             = corner_vertex P U N (face_corners lb (?G ! k) ! c)"
      unfolding G
    proof (intro allI impI)
      fix k c assume k: "k < length (l # ?F)" and c: "c < face_vertices lb ((l # ?F) ! k)"
      show "g_vertex_pool s' (out_v + (V + vertex_base lb (l # ?F) k) + c)
             = corner_vertex P U N (face_corners lb ((l # ?F) ! k) ! c)"
      proof (cases k)
        case 0
        with c have c0: "c < face_vertices lb l" by simp
        then have "g_vertex_pool s' (out_v + V + c) = g_vertex_pool s1 (out_v + V + c)"
          by (intro fv) simp
        then show ?thesis using 0 c0 by (simp add: cv1 vertex_base_simps)
      next
        case (Suc k')
        with k c have "k' < length ?F" and "c < face_vertices lb (?F ! k')" by simp_all
        from cv [OF this] show ?thesis using Suc by (simp add: vertex_base_simps add.assoc)
      qed
    qed
    have r5: "\<forall>k<length ?G. \<forall>j<face_indices lb (?G ! k).
           g_index_pool s' (out_i + (I + index_base lb ?G k) + j)
             = ucast (of_nat (V + vertex_base lb ?G k + [0, 1, 2, 0, 2, 3] ! j) :: u32)"
      unfolding G
    proof (intro allI impI)
      fix k j assume k: "k < length (l # ?F)" and j: "j < face_indices lb ((l # ?F) ! k)"
      show "g_index_pool s' (out_i + (I + index_base lb (l # ?F) k) + j)
             = ucast (of_nat (V + vertex_base lb (l # ?F) k + [0, 1, 2, 0, 2, 3] ! j) :: u32)"
      proof (cases k)
        case 0
        with j have j0: "j < face_indices lb l" by simp
        then have "g_index_pool s' (out_i + I + j) = g_index_pool s1 (out_i + I + j)"
          by (intro fi) simp
        then show ?thesis
          using 0 j0 by (simp add: ci1 vertex_base_simps index_base_simps)
      next
        case (Suc k')
        with k j have "k' < length ?F" and "j < face_indices lb (?F ! k')" by simp_all
        from ci [OF this] show ?thesis
          using Suc by (simp add: vertex_base_simps index_base_simps add.assoc)
      qed
    qed
    from r1 r2 r3 r4 r5 show ?thesis by blast
  qed
qed


text \<open>The loader, for a file that finds a free slot and room in both pools.\<close>

lemma face_line_eta: "(\<lambda>l. is_f_line (dropWhile is_blank l)) = face_line"
  by (simp add: face_line_def fun_eq_iff)

lemma unat_ucast_u32_u16: "unat (w :: u32) < 65536 \<Longrightarrow> unat (ucast w :: u16) = unat w"
  by (simp add: unsigned_ucast_eq take_bit_nat_eq_self)

lemma unat_ucast_of_nat_u16: "x < 65536 \<Longrightarrow> unat (ucast (of_nat x :: u32) :: u16) = x"
  by (simp add: unat_ucast_u32_u16 unat_of_nat)

lemma Mesh_LoadOBJ_faces:
  assumes lines: "lines = obj_file_lines buf sz"
      and faces: "faces = filter face_line lines"
      and tables: "obj_tables strtod lines = (P, U, N)"
      and sz: "sz \<noteq> 0"
      and slot: "AllocMeshSlot s \<noteq> 0xFFFFFFFF"
      and vroom: "unat (g_vertex_used s) + 4 * length faces \<le> unat MAX_TOTAL_VERTICES"
      and iroom: "unat (g_index_used s) + 6 * length faces \<le> unat MAX_TOTAL_INDICES"
  shows "fst (Mesh_LoadOBJ lb strtod (Some buf) sz s) = AllocMeshSlot s"
    and "\<exists>d. g_meshes (snd (Mesh_LoadOBJ lb strtod (Some buf) sz s)) (unat (AllocMeshSlot s))
              = Static d
           \<and> vertex_start d = ucast (g_vertex_used s)
           \<and> unat (vertex_count d) = vertex_base lb faces (length faces)
           \<and> index_start d = ucast (g_index_used s)
           \<and> unat (index_count d) = index_base lb faces (length faces)"
    and "unat (g_vertex_used (snd (Mesh_LoadOBJ lb strtod (Some buf) sz s)))
           = unat (g_vertex_used s) + vertex_base lb faces (length faces)"
    and "unat (g_index_used (snd (Mesh_LoadOBJ lb strtod (Some buf) sz s)))
           = unat (g_index_used s) + index_base lb faces (length faces)"
    and "\<forall>k<length faces. \<forall>c<face_vertices lb (faces ! k).
           g_vertex_pool (snd (Mesh_LoadOBJ lb strtod (Some buf) sz s))
               (unat (g_vertex_used s) + vertex_base lb faces k + c)
             = corner_vertex P U N (face_corners lb (faces ! k) ! c)"
    and "\<forall>k<length faces. \<forall>j<face_indices lb (faces ! k).
           unat (g_index_pool (snd (Mesh_LoadOBJ lb strtod (Some buf) sz s))
               (unat (g_index_used s) + index_base lb faces k + j))
             = vertex_base lb faces k + [0, 1, 2, 0, 2, 3] ! j"
proof -
  let ?n = "length faces"
  let ?TV = "vertex_base lb faces ?n" and ?TI = "index_base lb faces ?n"
  have first: "fold (first_pass strtod) lines ([], [], []) = (P, U, N)"
    using tables by (simp add: obj_tables_def)
  have n: "?n = length (filter face_line lines)" by (simp add: faces)
  have n4: "4 * ?n \<le> 40960" and n6: "6 * ?n \<le> 81920"
    using vroom iroom by (simp_all add: MAX_TOTAL_VERTICES_def MAX_TOTAL_INDICES_def)
  have un4: "unat (of_nat ?n * 4 :: u32) = 4 * ?n" and un6: "unat (of_nat ?n * 6 :: u32) = 6 * ?n"
    using n4 n6 unat_of_nat [where 'a = 32, of "?n * 4"] unat_of_nat [where 'a = 32, of "?n * 6"]
    by (simp_all add: mult.commute)
  have vsum: "unat (g_vertex_used s + of_nat ?n * 4) = unat (g_vertex_used s) + 4 * ?n"
    using vroom un4 unat_add_lem [of "g_vertex_used s" "of_nat ?n * 4"]
    by (simp add: MAX_TOTAL_VERTICES_def)
  have isum: "unat (g_index_used s + of_nat ?n * 6) = unat (g_index_used s) + 6 * ?n"
    using iroom un6 unat_add_lem [of "g_index_used s" "of_nat ?n * 6"]
    by (simp add: MAX_TOTAL_INDICES_def)
  have vfit: "\<not> MAX_TOTAL_VERTICES < g_vertex_used s + of_nat ?n * 4"
    using vroom by (simp add: word_less_nat_alt vsum)
  have ifit: "\<not> MAX_TOTAL_INDICES < g_index_used s + of_nat ?n * 6"
    using iroom by (simp add: word_less_nat_alt isum)
  have vne: "g_vertex_used s \<noteq> 0xFFFFFFFF"
  proof
    assume "g_vertex_used s = 0xFFFFFFFF"
    then have "unat (g_vertex_used s) = 4294967295" by simp
    with vroom show False by (simp add: MAX_TOTAL_VERTICES_def)
  qed
  have ine: "g_index_used s \<noteq> 0xFFFFFFFF"
  proof
    assume "g_index_used s = 0xFFFFFFFF"
    then have "unat (g_index_used s) = 4294967295" by simp
    with iroom show False by (simp add: MAX_TOTAL_INDICES_def)
  qed
  define s1 where "s1 = s\<lparr> g_vertex_used := g_vertex_used s + of_nat ?n * 4 \<rparr>"
  define s2 where "s2 = s1\<lparr> g_index_used := g_index_used s + of_nat ?n * 6 \<rparr>"
  have av: "AllocVertices (of_nat ?n * 4) s = (g_vertex_used s, s1)"
    using vfit by (simp add: AllocVertices_def s1_def)
  have ai: "AllocIndices (of_nat ?n * 6) s1 = (g_index_used s, s2)"
    using ifit by (simp add: AllocIndices_def s1_def s2_def)
  have TV: "?TV \<le> 4 * ?n" and TI: "?TI \<le> 6 * ?n"
    by (rule vertex_base_le, rule index_base_le)
  from third_pass_faces [where V = 0 and I = 0 and m = 0 and n = ?n and ls = lines and lb = lb
      and P = P and U = U and N = N and out_v = "unat (g_vertex_used s)"
      and out_i = "unat (g_index_used s)" and s = s2]
  obtain s3 where third:
    "fold (third_pass lb P U N (unat (g_vertex_used s)) (unat (g_index_used s))
        (of_nat ?n * 4) (of_nat ?n * 6)) lines (0, 0, s2) = (of_nat ?TV, of_nat ?TI, s3)"
    and cv: "\<And>k c. k < ?n \<Longrightarrow> c < face_vertices lb (faces ! k) \<Longrightarrow>
           g_vertex_pool s3 (unat (g_vertex_used s) + vertex_base lb faces k + c)
             = corner_vertex P U N (face_corners lb (faces ! k) ! c)"
    and ci: "\<And>k j. k < ?n \<Longrightarrow> j < face_indices lb (faces ! k) \<Longrightarrow>
           g_index_pool s3 (unat (g_index_used s) + index_base lb faces k + j)
             = ucast (of_nat (vertex_base lb faces k + [0, 1, 2, 0, 2, 3] ! j) :: u32)"
    using n6 unfolding faces [symmetric] by auto
  have vc: "unat (ucast (of_nat ?TV :: u32) :: u16) = ?TV"
    using n4 TV by (intro unat_ucast_of_nat_u16) simp
  have ic: "unat (ucast (of_nat ?TI :: u32) :: u16) = ?TI"
    using n4 TI by (intro unat_ucast_of_nat_u16) simp
  have vu: "unat (g_vertex_used s + of_nat ?TV) = unat (g_vertex_used s) + ?TV"
    using vroom TV unat_add_lem [of "g_vertex_used s" "of_nat ?TV"]
    by (simp add: MAX_TOTAL_VERTICES_def unat_of_nat)
  have iu: "unat (g_index_used s + of_nat ?TI) = unat (g_index_used s) + ?TI"
    using iroom TI unat_add_lem [of "g_index_used s" "of_nat ?TI"]
    by (simp add: MAX_TOTAL_INDICES_def unat_of_nat)
  note unfold = Mesh_LoadOBJ_def option.case lines [unfolded obj_file_lines_def, symmetric]
    if_False Let_def first face_line_eta faces [symmetric] prod.case av ai third
  show "fst (Mesh_LoadOBJ lb strtod (Some buf) sz s) = AllocMeshSlot s"
    using sz slot vne ine
    apply (simp only: unfold)
    apply (simp only: if_False simp_thms fst_conv snd_conv case_prod_beta)
    done
  show "\<exists>d. g_meshes (snd (Mesh_LoadOBJ lb strtod (Some buf) sz s)) (unat (AllocMeshSlot s))
              = Static d
           \<and> vertex_start d = ucast (g_vertex_used s)
           \<and> unat (vertex_count d) = ?TV
           \<and> index_start d = ucast (g_index_used s)
           \<and> unat (index_count d) = ?TI"
    using sz slot vne ine
    apply (simp only: unfold)
    apply (simp only: if_False simp_thms fst_conv snd_conv case_prod_beta)
    apply (simp add: vc ic)
    done
  show "unat (g_vertex_used (snd (Mesh_LoadOBJ lb strtod (Some buf) sz s)))
           = unat (g_vertex_used s) + ?TV"
    using sz slot vne ine
    apply (simp only: unfold)
    apply (simp only: if_False simp_thms fst_conv snd_conv case_prod_beta)
    apply (simp add: vu)
    done
  show "unat (g_index_used (snd (Mesh_LoadOBJ lb strtod (Some buf) sz s)))
           = unat (g_index_used s) + ?TI"
    using sz slot vne ine
    apply (simp only: unfold)
    apply (simp only: if_False simp_thms fst_conv snd_conv case_prod_beta)
    apply (simp add: iu)
    done
  have vp: "g_vertex_pool (snd (Mesh_LoadOBJ lb strtod (Some buf) sz s)) = g_vertex_pool s3"
    using sz slot vne ine
    apply (simp only: unfold)
    apply (simp only: if_False simp_thms fst_conv snd_conv case_prod_beta)
    apply simp
    done
  have ip: "g_index_pool (snd (Mesh_LoadOBJ lb strtod (Some buf) sz s)) = g_index_pool s3"
    using sz slot vne ine
    apply (simp only: unfold)
    apply (simp only: if_False simp_thms fst_conv snd_conv case_prod_beta)
    apply simp
    done
  show "\<forall>k<length faces. \<forall>c<face_vertices lb (faces ! k).
           g_vertex_pool (snd (Mesh_LoadOBJ lb strtod (Some buf) sz s))
               (unat (g_vertex_used s) + vertex_base lb faces k + c)
             = corner_vertex P U N (face_corners lb (faces ! k) ! c)"
    unfolding vp using cv by blast
  show "\<forall>k<length faces. \<forall>j<face_indices lb (faces ! k).
           unat (g_index_pool (snd (Mesh_LoadOBJ lb strtod (Some buf) sz s))
               (unat (g_index_used s) + index_base lb faces k + j))
             = vertex_base lb faces k + [0, 1, 2, 0, 2, 3] ! j"
    unfolding ip
  proof (intro allI impI)
    fix k j assume k: "k < length faces" and j: "j < face_indices lb (faces ! k)"
    have "vertex_base lb faces k \<le> 4 * k" by (rule vertex_base_le)
    moreover have "j < 6" using j face_indices_le [of lb "faces ! k"] by simp
    then have "[0, 1, 2, 0, 2, 3] ! j \<le> (3 :: nat)" by (auto simp: less6)
    ultimately have "vertex_base lb faces k + [0, 1, 2, 0, 2, 3] ! j < 65536"
      using k n4 by simp
    then show "unat (g_index_pool s3 (unat (g_index_used s) + index_base lb faces k + j))
             = vertex_base lb faces k + [0, 1, 2, 0, 2, 3] ! j"
      unfolding ci [OF k j] by (rule unat_ucast_of_nat_u16)
  qed
qed


lemma quad_line_counts:
  "quad_line lb l \<Longrightarrow> face_vertices lb l = 4 \<and> face_indices lb l = 6"
  by (simp add: quad_line_def face_vertices_def face_indices_def)

lemma all_quads_bases:
  "\<forall>l\<in>set faces. quad_line lb l \<Longrightarrow> k \<le> length faces \<Longrightarrow>
     vertex_base lb faces k = 4 * k \<and> index_base lb faces k = 6 * k"
proof (induction faces arbitrary: k)
  case Nil
  then show ?case by (simp add: vertex_base_def index_base_def)
next
  case (Cons l faces)
  show ?case
  proof (cases k)
    case 0
    then show ?thesis by (simp add: vertex_base_simps index_base_simps)
  next
    case (Suc k')
    with Cons.prems have "vertex_base lb faces k' = 4 * k' \<and> index_base lb faces k' = 6 * k'"
      by (intro Cons.IH) simp_all
    moreover from Cons.prems have "quad_line lb l" by simp
    ultimately show ?thesis
      using Suc by (simp add: vertex_base_simps index_base_simps quad_line_counts)
  qed
qed

lemma base_Suc:
  "k < length faces \<Longrightarrow>
     vertex_base lb faces (Suc k) = vertex_base lb faces k + face_vertices lb (faces ! k)
     \<and> index_base lb faces (Suc k) = index_base lb faces k + face_indices lb (faces ! k)"
  by (simp add: vertex_base_def index_base_def take_Suc_conv_app_nth)

text \<open>
  C9. Let the file be loaded with a free slot and room in the vertex and index pools for
  four vertices and six indices for each face line. Then every face of four corners is
  written as one vertex for each corner, in the order of the corners, at the four
  positions from its vertex base on, and as the six indices \<open>b, b + 1, b + 2, b, b + 2,
  b + 3\<close>, where \<open>b\<close> is its vertex base: two triangles that share the first corner. The
  next face starts four vertices and six indices later, so that no vertex is shared. The
  slot is a static mesh whose counts are the bases after the last face; in a file whose
  faces all have four corners these are 4 and 6 times the number of faces.
\<close>

theorem obj_quad_faces:
  assumes lines: "lines = obj_file_lines buf sz"
      and faces: "faces = filter face_line lines"
      and tables: "obj_tables strtod lines = (P, U, N)"
      and sz: "sz \<noteq> 0"
      and slot: "AllocMeshSlot s \<noteq> 0xFFFFFFFF"
      and vroom: "unat (g_vertex_used s) + 4 * length faces \<le> unat MAX_TOTAL_VERTICES"
      and iroom: "unat (g_index_used s) + 6 * length faces \<le> unat MAX_TOTAL_INDICES"
      and result: "Mesh_LoadOBJ lb strtod (Some buf) sz s = (handle, s')"
  shows "handle = AllocMeshSlot s
     \<and> (\<forall>k<length faces. quad_line lb (faces ! k) \<longrightarrow>
           (\<forall>c<4. g_vertex_pool s' (unat (g_vertex_used s) + vertex_base lb faces k + c)
                     = corner_vertex P U N (face_corners lb (faces ! k) ! c))
           \<and> map (\<lambda>j. unat (g_index_pool s' (unat (g_index_used s) + index_base lb faces k + j)))
                 [0..<6]
               = [vertex_base lb faces k, vertex_base lb faces k + 1,
                  vertex_base lb faces k + 2, vertex_base lb faces k,
                  vertex_base lb faces k + 2, vertex_base lb faces k + 3]
           \<and> vertex_base lb faces (Suc k) = vertex_base lb faces k + 4
           \<and> index_base lb faces (Suc k) = index_base lb faces k + 6)
     \<and> (\<exists>d. g_meshes s' (unat handle) = Static d
           \<and> vertex_start d = ucast (g_vertex_used s)
           \<and> index_start d = ucast (g_index_used s)
           \<and> unat (vertex_count d) = vertex_base lb faces (length faces)
           \<and> unat (index_count d) = index_base lb faces (length faces))
     \<and> unat (g_vertex_used s') = unat (g_vertex_used s) + vertex_base lb faces (length faces)
     \<and> unat (g_index_used s') = unat (g_index_used s) + index_base lb faces (length faces)
     \<and> ((\<forall>l\<in>set faces. quad_line lb l) \<longrightarrow>
           (\<forall>k\<le>length faces. vertex_base lb faces k = 4 * k \<and> index_base lb faces k = 6 * k))"
proof -
  note L = Mesh_LoadOBJ_faces [OF lines faces tables sz slot vroom iroom, where lb = lb,
      unfolded result fst_conv snd_conv]
  have h: "handle = AllocMeshSlot s" by (rule L(1))
  have q: "\<forall>k<length faces. quad_line lb (faces ! k) \<longrightarrow>
           (\<forall>c<4. g_vertex_pool s' (unat (g_vertex_used s) + vertex_base lb faces k + c)
                     = corner_vertex P U N (face_corners lb (faces ! k) ! c))
           \<and> map (\<lambda>j. unat (g_index_pool s' (unat (g_index_used s) + index_base lb faces k + j)))
                 [0..<6]
               = [vertex_base lb faces k, vertex_base lb faces k + 1,
                  vertex_base lb faces k + 2, vertex_base lb faces k,
                  vertex_base lb faces k + 2, vertex_base lb faces k + 3]
           \<and> vertex_base lb faces (Suc k) = vertex_base lb faces k + 4
           \<and> index_base lb faces (Suc k) = index_base lb faces k + 6"
  proof (intro allI impI)
    fix k assume k: "k < length faces" and quad: "quad_line lb (faces ! k)"
    note cnt = quad_line_counts [OF quad]
    from L(5) k cnt have v: "\<forall>c<4. g_vertex_pool s'
          (unat (g_vertex_used s) + vertex_base lb faces k + c)
            = corner_vertex P U N (face_corners lb (faces ! k) ! c)"
      by simp
    from L(6) k cnt have idx: "\<And>j. j < 6 \<Longrightarrow> unat (g_index_pool s'
          (unat (g_index_used s) + index_base lb faces k + j))
            = vertex_base lb faces k + [0, 1, 2, 0, 2, 3] ! j"
      by simp
    have i: "map (\<lambda>j. unat (g_index_pool s'
          (unat (g_index_used s) + index_base lb faces k + j))) [0..<6]
        = [vertex_base lb faces k, vertex_base lb faces k + 1,
           vertex_base lb faces k + 2, vertex_base lb faces k,
           vertex_base lb faces k + 2, vertex_base lb faces k + 3]"
      using idx [of 0] idx [of 1] idx [of 2] idx [of 3] idx [of 4] idx [of 5]
      by (simp add: upt6)
    from base_Suc [OF k, of lb] cnt
    have b: "vertex_base lb faces (Suc k) = vertex_base lb faces k + 4"
      "index_base lb faces (Suc k) = index_base lb faces k + 6"
      by simp_all
    from v i b show "(\<forall>c<4. g_vertex_pool s'
          (unat (g_vertex_used s) + vertex_base lb faces k + c)
            = corner_vertex P U N (face_corners lb (faces ! k) ! c))
        \<and> map (\<lambda>j. unat (g_index_pool s'
          (unat (g_index_used s) + index_base lb faces k + j))) [0..<6]
          = [vertex_base lb faces k, vertex_base lb faces k + 1,
             vertex_base lb faces k + 2, vertex_base lb faces k,
             vertex_base lb faces k + 2, vertex_base lb faces k + 3]
        \<and> vertex_base lb faces (Suc k) = vertex_base lb faces k + 4
        \<and> index_base lb faces (Suc k) = index_base lb faces k + 6"
      by (intro conjI)
  qed
  have d: "\<exists>d. g_meshes s' (unat handle) = Static d
           \<and> vertex_start d = ucast (g_vertex_used s)
           \<and> index_start d = ucast (g_index_used s)
           \<and> unat (vertex_count d) = vertex_base lb faces (length faces)
           \<and> unat (index_count d) = index_base lb faces (length faces)"
    using L(2) unfolding h by blast
  have a: "(\<forall>l\<in>set faces. quad_line lb l) \<longrightarrow>
           (\<forall>k\<le>length faces. vertex_base lb faces k = 4 * k \<and> index_base lb faces k = 6 * k)"
    using all_quads_bases [of faces lb] by blast
  from h q d L(3) L(4) a show ?thesis by (intro conjI)
qed

text \<open>The cube: its lines, its faces and their corners, and the tables of the first pass.\<close>

lemma cube_lines:
  "obj_file_lines cube_obj 265 =
     [''v -1 -1 1'', ''v 1 -1 1'', ''v 1 1 1'', ''v -1 1 1'',
      ''v -1 -1 -1'', ''v 1 -1 -1'', ''v 1 1 -1'', ''v -1 1 -1'',
      ''vn 0 0 1'', ''vn 0 0 -1'', ''vn 0 1 0'', ''vn 0 -1 0'', ''vn 1 0 0'', ''vn -1 0 0'',
      ''f 1//1 2//1 3//1 4//1'',
      ''f 6//2 5//2 8//2 7//2'',
      ''f 4//3 3//3 7//3 8//3'',
      ''f 5//4 6//4 2//4 1//4'',
      ''f 2//5 6//5 7//5 3//5'',
      ''f 5//6 1//6 4//6 8//6'']"
  by code_simp

lemma cube_faces:
  "filter face_line (obj_file_lines cube_obj 265) =
     [''f 1//1 2//1 3//1 4//1'',
      ''f 6//2 5//2 8//2 7//2'',
      ''f 4//3 3//3 7//3 8//3'',
      ''f 5//4 6//4 2//4 1//4'',
      ''f 2//5 6//5 7//5 3//5'',
      ''f 5//6 1//6 4//6 8//6'']"
  unfolding cube_lines by code_simp

lemma cube_corners:
  "map (face_corners 32) (filter face_line (obj_file_lines cube_obj 265)) =
     [[(1, 0, 1), (2, 0, 1), (3, 0, 1), (4, 0, 1)],
      [(6, 0, 2), (5, 0, 2), (8, 0, 2), (7, 0, 2)],
      [(4, 0, 3), (3, 0, 3), (7, 0, 3), (8, 0, 3)],
      [(5, 0, 4), (6, 0, 4), (2, 0, 4), (1, 0, 4)],
      [(2, 0, 5), (6, 0, 5), (7, 0, 5), (3, 0, 5)],
      [(5, 0, 6), (1, 0, 6), (4, 0, 6), (8, 0, 6)]]"
  unfolding cube_faces by code_simp

lemma cube_positions:
  "list_all (\<lambda>(l, p). is_v_line (dropWhile is_blank l)
       \<and> parse_floats3 digit_strtod (drop 2 (dropWhile is_blank l)) = Some p)
     [(''v -1 -1 1'', (- 1, - 1, 1)), (''v 1 -1 1'', (1, - 1, 1)), (''v 1 1 1'', (1, 1, 1)),
      (''v -1 1 1'', (- 1, 1, 1)), (''v -1 -1 -1'', (- 1, - 1, - 1)),
      (''v 1 -1 -1'', (1, - 1, - 1)), (''v 1 1 -1'', (1, 1, - 1)), (''v -1 1 -1'', (- 1, 1, - 1))]"
  by code_simp


lemma first_pass_v:
  assumes "is_v_line (dropWhile is_blank l)"
      and "parse_floats3 strtod (drop 2 (dropWhile is_blank l)) = Some (a, b, c)"
      and "length P < 2048"
  shows "first_pass strtod l (P, U, N) = (P @ [Vec3 a b c], U, N)"
  using assms by (simp add: first_pass_def OBJ_MAX_POS_def)

lemma first_pass_vn:
  assumes "is_vn_line (dropWhile is_blank l)"
      and "parse_floats3 strtod (drop 3 (dropWhile is_blank l)) = Some (a, b, c)"
      and "length N < 2048"
  shows "first_pass strtod l (P, U, N) = (P, U, N @ [Vec3_Normalize (Vec3 a b c)])"
proof -
  from assms(1) have "\<not> is_v_line (dropWhile is_blank l)" "\<not> is_vt_line (dropWhile is_blank l)"
    by (auto simp: is_v_line_def is_vt_line_def is_vn_line_def)
  with assms show ?thesis by (simp add: first_pass_def OBJ_MAX_NORM_def)
qed

lemma first_pass_f:
  assumes "is_f_line (dropWhile is_blank l)"
  shows "first_pass strtod l (P, U, N) = (P, U, N)"
proof -
  from assms have "\<not> is_v_line (dropWhile is_blank l)" "\<not> is_vt_line (dropWhile is_blank l)"
    "\<not> is_vn_line (dropWhile is_blank l)"
    by (auto simp: is_v_line_def is_vt_line_def is_vn_line_def is_f_line_def)
  then show ?thesis by (simp add: first_pass_def)
qed

lemma cube_normals:
  "list_all (\<lambda>(l, p). is_vn_line (dropWhile is_blank l)
       \<and> parse_floats3 digit_strtod (drop 3 (dropWhile is_blank l)) = Some p)
     [(''vn 0 0 1'', (0, 0, 1)), (''vn 0 0 -1'', (0, 0, - 1)), (''vn 0 1 0'', (0, 1, 0)),
      (''vn 0 -1 0'', (0, - 1, 0)), (''vn 1 0 0'', (1, 0, 0)), (''vn -1 0 0'', (- 1, 0, 0))]"
  by code_simp

lemma cube_face_lines:
  "list_all (\<lambda>l. is_f_line (dropWhile is_blank l))
     [''f 1//1 2//1 3//1 4//1'', ''f 6//2 5//2 8//2 7//2'', ''f 4//3 3//3 7//3 8//3'',
      ''f 5//4 6//4 2//4 1//4'', ''f 2//5 6//5 7//5 3//5'', ''f 5//6 1//6 4//6 8//6'']"
  by code_simp

lemma cube_tables:
  "obj_tables digit_strtod (obj_file_lines cube_obj 265) =
     ([Vec3 (- 1) (- 1) 1, Vec3 1 (- 1) 1, Vec3 1 1 1, Vec3 (- 1) 1 1,
       Vec3 (- 1) (- 1) (- 1), Vec3 1 (- 1) (- 1), Vec3 1 1 (- 1), Vec3 (- 1) 1 (- 1)],
      [],
      [Vec3_Normalize (Vec3 0 0 1), Vec3_Normalize (Vec3 0 0 (- 1)),
       Vec3_Normalize (Vec3 0 1 0), Vec3_Normalize (Vec3 0 (- 1) 0),
       Vec3_Normalize (Vec3 1 0 0), Vec3_Normalize (Vec3 (- 1) 0 0)])"
  unfolding obj_tables_def cube_lines
  using cube_positions cube_normals cube_face_lines
  by (simp add: first_pass_v first_pass_vn first_pass_f)

lemma cube_quads: "\<forall>l\<in>set (filter face_line (obj_file_lines cube_obj 265)). quad_line 32 l"
proof -
  have "list_all (\<lambda>cs. length cs = 4)
      (map (face_corners 32) (filter face_line (obj_file_lines cube_obj 265)))"
    unfolding cube_corners by simp
  then show ?thesis by (simp add: list_all_iff quad_line_def)
qed

lemma cube_corner:
  "k < 6 \<Longrightarrow> face_corners 32 (filter face_line (obj_file_lines cube_obj 265) ! k) =
     [[(1, 0, 1), (2, 0, 1), (3, 0, 1), (4, 0, 1)],
      [(6, 0, 2), (5, 0, 2), (8, 0, 2), (7, 0, 2)],
      [(4, 0, 3), (3, 0, 3), (7, 0, 3), (8, 0, 3)],
      [(5, 0, 4), (6, 0, 4), (2, 0, 4), (1, 0, 4)],
      [(2, 0, 5), (6, 0, 5), (7, 0, 5), (3, 0, 5)],
      [(5, 0, 6), (1, 0, 6), (4, 0, 6), (8, 0, 6)]] ! k"
proof -
  assume k: "k < 6"
  have len: "length (filter face_line (obj_file_lines cube_obj 265)) = 6"
    unfolding cube_faces by simp
  show ?thesis
    using nth_map [of k "filter face_line (obj_file_lines cube_obj 265)" "face_corners 32"] k
    unfolding len cube_corners by simp
qed

lemma upt24: "[0..<24] = [0, 1, 2, 3, 4, 5, 6, 7, 8, 9, 10, 11, 12, 13, 14, 15, 16, 17, 18, 19,
    20, 21, 22, 23]"
  by code_simp

lemma upt36: "[0..<36] = [0, 1, 2, 3, 4, 5, 6, 7, 8, 9, 10, 11, 12, 13, 14, 15, 16, 17, 18, 19,
    20, 21, 22, 23, 24, 25, 26, 27, 28, 29, 30, 31, 32, 33, 34, 35]"
  by code_simp

theorem obj_quad_faces_witness:
  "fst (Mesh_LoadOBJ 32 digit_strtod (Some cube_obj) 265 (Mesh_Init zero_state)) = 0
   \<and> (\<exists>d. g_meshes (snd (Mesh_LoadOBJ 32 digit_strtod (Some cube_obj) 265
              (Mesh_Init zero_state))) 0 = Static d
         \<and> vertex_start d = 0 \<and> index_start d = 0
         \<and> unat (vertex_count d) = 24 \<and> unat (index_count d) = 36)
   \<and> map (\<lambda>a. unat (g_index_pool (snd (Mesh_LoadOBJ 32 digit_strtod (Some cube_obj) 265
              (Mesh_Init zero_state))) a)) [0..<36]
       = [0, 1, 2, 0, 2, 3, 4, 5, 6, 4, 6, 7, 8, 9, 10, 8, 10, 11,
          12, 13, 14, 12, 14, 15, 16, 17, 18, 16, 18, 19, 20, 21, 22, 20, 22, 23]
   \<and> map (\<lambda>a. position (g_vertex_pool (snd (Mesh_LoadOBJ 32 digit_strtod (Some cube_obj) 265
              (Mesh_Init zero_state))) a)) [0..<24]
       = [Vec3 (- 1) (- 1) 1, Vec3 1 (- 1) 1, Vec3 1 1 1, Vec3 (- 1) 1 1,
          Vec3 1 (- 1) (- 1), Vec3 (- 1) (- 1) (- 1), Vec3 (- 1) 1 (- 1), Vec3 1 1 (- 1),
          Vec3 (- 1) 1 1, Vec3 1 1 1, Vec3 1 1 (- 1), Vec3 (- 1) 1 (- 1),
          Vec3 (- 1) (- 1) (- 1), Vec3 1 (- 1) (- 1), Vec3 1 (- 1) 1, Vec3 (- 1) (- 1) 1,
          Vec3 1 (- 1) 1, Vec3 1 (- 1) (- 1), Vec3 1 1 (- 1), Vec3 1 1 1,
          Vec3 (- 1) (- 1) (- 1), Vec3 (- 1) (- 1) 1, Vec3 (- 1) 1 1, Vec3 (- 1) 1 (- 1)]"
proof -
  let ?r = "Mesh_LoadOBJ 32 digit_strtod (Some cube_obj) 265 (Mesh_Init zero_state)"
  let ?faces = "filter face_line (obj_file_lines cube_obj 265)"
  let ?P = "[Vec3 (- 1) (- 1) 1, Vec3 1 (- 1) 1, Vec3 1 1 1, Vec3 (- 1) 1 1,
       Vec3 (- 1) (- 1) (- 1), Vec3 1 (- 1) (- 1), Vec3 1 1 (- 1), Vec3 (- 1) 1 (- 1)]"
  let ?N = "[Vec3_Normalize (Vec3 0 0 1), Vec3_Normalize (Vec3 0 0 (- 1)),
       Vec3_Normalize (Vec3 0 1 0), Vec3_Normalize (Vec3 0 (- 1) 0),
       Vec3_Normalize (Vec3 1 0 0), Vec3_Normalize (Vec3 (- 1) 0 0)]"
  have len: "length ?faces = 6" unfolding cube_faces by simp
  have slot: "AllocMeshSlot (Mesh_Init zero_state) \<noteq> 0xFFFFFFFF"
    by (simp add: AllocMeshSlot_Mesh_Init)
  have vroom: "unat (g_vertex_used (Mesh_Init zero_state)) + 4 * length ?faces
      \<le> unat MAX_TOTAL_VERTICES"
    unfolding len by (simp add: Mesh_Init_counters MAX_TOTAL_VERTICES_def)
  have iroom: "unat (g_index_used (Mesh_Init zero_state)) + 6 * length ?faces
      \<le> unat MAX_TOTAL_INDICES"
    unfolding len by (simp add: Mesh_Init_counters MAX_TOTAL_INDICES_def)
  have sz: "(265 :: u32) \<noteq> 0" by simp
  note T = obj_quad_faces [OF refl refl cube_tables sz slot vroom iroom surjective_pairing,
      where lb = 32, unfolded len AllocMeshSlot_Mesh_Init Mesh_Init_counters]
  note handle = T [THEN conjunct1]
  note quad = T [THEN conjunct2, THEN conjunct1, rule_format]
  note desc = T [THEN conjunct2, THEN conjunct2, THEN conjunct1]
  note bases = T [THEN conjunct2, THEN conjunct2, THEN conjunct2, THEN conjunct2,
      THEN conjunct2, THEN mp, OF cube_quads, rule_format]
  have q: "quad_line 32 (?faces ! k)" if "k < 6" for k
  proof -
    from that len have "?faces ! k \<in> set ?faces" by (intro nth_mem) simp
    with cube_quads show ?thesis by blast
  qed
  have vb: "vertex_base 32 ?faces k = 4 * k" and ib: "index_base 32 ?faces k = 6 * k"
    if "k \<le> 6" for k
    using bases [OF that] by simp_all
  have I: "map (\<lambda>j. unat (g_index_pool (snd ?r) (6 * k + j))) [0..<6]
      = [4 * k, 4 * k + 1, 4 * k + 2, 4 * k, 4 * k + 2, 4 * k + 3]" if "k < 6" for k
    using quad [OF that q [OF that], THEN conjunct2, THEN conjunct1] that
    by (simp add: vb ib)
  have V: "position (g_vertex_pool (snd ?r) (4 * k + c))
      = position (corner_vertex ?P [] ?N
          ([[(1, 0, 1), (2, 0, 1), (3, 0, 1), (4, 0, 1)],
            [(6, 0, 2), (5, 0, 2), (8, 0, 2), (7, 0, 2)],
            [(4, 0, 3), (3, 0, 3), (7, 0, 3), (8, 0, 3)],
            [(5, 0, 4), (6, 0, 4), (2, 0, 4), (1, 0, 4)],
            [(2, 0, 5), (6, 0, 5), (7, 0, 5), (3, 0, 5)],
            [(5, 0, 6), (1, 0, 6), (4, 0, 6), (8, 0, 6)]] ! k ! c))"
    if "k < 6" and "c < 4" for k c
    using quad [OF that(1) q [OF that(1)], THEN conjunct1, rule_format, OF that(2)] that
    by (simp add: vb cube_corner)
  have a: "fst ?r = 0" by (rule handle)
  have b: "\<exists>d. g_meshes (snd ?r) 0 = Static d
         \<and> vertex_start d = 0 \<and> index_start d = 0
         \<and> unat (vertex_count d) = 24 \<and> unat (index_count d) = 36"
    using desc unfolding handle by (simp add: vb ib)
  have c: "map (\<lambda>a. unat (g_index_pool (snd ?r) a)) [0..<36]
       = [0, 1, 2, 0, 2, 3, 4, 5, 6, 4, 6, 7, 8, 9, 10, 8, 10, 11,
          12, 13, 14, 12, 14, 15, 16, 17, 18, 16, 18, 19, 20, 21, 22, 20, 22, 23]"
    using I [of 0] I [of 1] I [of 2] I [of 3] I [of 4] I [of 5]
    by (simp add: upt6 upt36)
  have d: "map (\<lambda>a. position (g_vertex_pool (snd ?r) a)) [0..<24]
       = [Vec3 (- 1) (- 1) 1, Vec3 1 (- 1) 1, Vec3 1 1 1, Vec3 (- 1) 1 1,
          Vec3 1 (- 1) (- 1), Vec3 (- 1) (- 1) (- 1), Vec3 (- 1) 1 (- 1), Vec3 1 1 (- 1),
          Vec3 (- 1) 1 1, Vec3 1 1 1, Vec3 1 1 (- 1), Vec3 (- 1) 1 (- 1),
          Vec3 (- 1) (- 1) (- 1), Vec3 1 (- 1) (- 1), Vec3 1 (- 1) 1, Vec3 (- 1) (- 1) 1,
          Vec3 1 (- 1) 1, Vec3 1 (- 1) (- 1), Vec3 1 1 (- 1), Vec3 1 1 1,
          Vec3 (- 1) (- 1) (- 1), Vec3 (- 1) (- 1) 1, Vec3 (- 1) 1 1, Vec3 (- 1) 1 (- 1)]"
    using V [of 0 0] V [of 0 1] V [of 0 2] V [of 0 3] V [of 1 0] V [of 1 1] V [of 1 2] V [of 1 3]
      V [of 2 0] V [of 2 1] V [of 2 2] V [of 2 3] V [of 3 0] V [of 3 1] V [of 3 2] V [of 3 3]
      V [of 4 0] V [of 4 1] V [of 4 2] V [of 4 3] V [of 5 0] V [of 5 1] V [of 5 2] V [of 5 3]
    by (simp add: upt24 corner_vertex_def numeral_2_eq_2)
  from a b c d show ?thesis by (intro conjI)
qed

end
